theory Spec2Isabelle
  imports Main "HOL-Library.AList" "HOL-Library.Sublist"
begin

section \<open>JavaScript primitives used by the application code\<close>

text \<open>
  \<open>Array.prototype.indexOf\<close>: the index of the first element strictly equal to the
  argument, or \<open>-1\<close> when there is none.
\<close>

fun array_indexOf :: "'a list \<Rightarrow> 'a \<Rightarrow> int" where
  "array_indexOf [] x = -1"
| "array_indexOf (y # ys) x =
     (if y = x then 0
      else (let i = array_indexOf ys x in if i < 0 then -1 else i + 1))"

text \<open>
  \<open>String.prototype.indexOf\<close> with a string argument: the index of the first occurrence
  of the pattern, or \<open>-1\<close>. \<open>String.prototype.replace\<close> with a string pattern replaces
  the first occurrence only. \<open>String.prototype.endsWith\<close> compares the end of the string.
  The patterns used by the application are ASCII, so bytes and UTF-16 units agree on them.
\<close>

fun str_indexOf :: "string \<Rightarrow> string \<Rightarrow> int" where
  "str_indexOf [] p = (if p = [] then 0 else -1)"
| "str_indexOf (c # cs) p =
     (if prefix p (c # cs) then 0
      else (let i = str_indexOf cs p in if i < 0 then -1 else i + 1))"

fun str_replace :: "string \<Rightarrow> string \<Rightarrow> string \<Rightarrow> string" where
  "str_replace [] p r = (if p = [] then r else [])"
| "str_replace (c # cs) p r =
     (if prefix p (c # cs) then r @ drop (length p) (c # cs)
      else c # str_replace cs p r)"

definition endsWith :: "string \<Rightarrow> string \<Rightarrow> bool" where
  "endsWith s t = suffix t s"

text \<open>
  JavaScript truthiness of a value that is either \<open>undefined\<close> or a string: only a
  non-empty string is truthy.
\<close>

definition truthy :: "string option \<Rightarrow> bool" where
  "truthy v = (case v of None \<Rightarrow> False | Some s \<Rightarrow> s \<noteq> '''')"

text \<open>Exceptions: \<open>new Error(message)\<close> and the runtime's \<open>TypeError\<close>.\<close>

datatype js_error = Error string | TypeError string

text \<open>
  Decimal digits. \<open>Number.prototype.toString\<close> of a natural number below \<open>10^21\<close> is its
  decimal numeral without leading zeros; \<open>digits_value\<close> reads a string of digits.
\<close>

definition digit_char :: "nat \<Rightarrow> char" where
  "digit_char d = char_of (48 + d)"

definition digit_val :: "char \<Rightarrow> nat" where
  "digit_val c = of_char c - 48"

definition is_digit :: "char \<Rightarrow> bool" where
  "is_digit c = (48 \<le> (of_char c :: nat) \<and> (of_char c :: nat) \<le> 57)"

fun nat_toString :: "nat \<Rightarrow> string" where
  "nat_toString n =
     (if n < 10 then [digit_char n] else nat_toString (n div 10) @ [digit_char (n mod 10)])"

declare nat_toString.simps [simp del]

definition digits_value :: "string \<Rightarrow> nat" where
  "digits_value s = foldl (\<lambda>acc c. 10 * acc + digit_val c) 0 s"

section \<open>Data.concatArr\<close>

text \<open>
  \<^verbatim>\<open>
  static concatArr(arrA, arrB) {
    var result = [];
    arrA.forEach((item) => {
      if (result.indexOf(item) < 0 && item !== '') { result.push(item); }
    });
    arrB.forEach((item) => {
      if (result.indexOf(item) < 0 && item !== '') { result.push(item); }
    });
    return result;
  }
  \<close>
  The arrays hold strings at every call site (location names, user ids, subjects).
  Each \<open>forEach\<close> is a left fold of its callback over the array, the accumulator being
  the array \<open>result\<close>.
\<close>

definition concatArr_push :: "string list \<Rightarrow> string \<Rightarrow> string list" where
  "concatArr_push result item =
     (if array_indexOf result item < 0 \<and> item \<noteq> '''' then result @ [item] else result)"

definition concatArr :: "string list \<Rightarrow> string list \<Rightarrow> string list" where
  "concatArr arrA arrB = foldl concatArr_push (foldl concatArr_push [] arrA) arrB"

text \<open>
  The specification's reading: the elements of a list in the order of their first
  occurrence, each once.
\<close>

fun first_occurrences :: "'a list \<Rightarrow> 'a list" where
  "first_occurrences [] = []"
| "first_occurrences (x # xs) = x # first_occurrences (removeAll x xs)"

section \<open>Snackbar.view\<close>

text \<open>
  \<^verbatim>\<open>
  view(message, label, action, showClose, timeout = 5000) {
    const v = () => {
      if (!label || !action) { var el = this.render.snackbar(true); }
      else if (typeof showClose === 'boolean') {
        var el = this.render.snackbar(label, action, showClose);
      } else { var el = this.render.snackbar(label, action, true); }
      ...
      const snackbar = new MDCSnackbar(el);
      snackbar.labelText = message;
      snackbar.timeoutMs = message.endsWith('...') ? -1 : timeout;
      snackbar.listen('MDCSnackbar:closed', () => $(el).remove());
      $('body #snackbars').prepend(el);
      snackbar.open();
    };
    const c = () => { ... };  // animate open snackbars closed
    const r = () => { ... };  // remove all closed snackbars
    if ($('.mdc-snackbar--opening').length) {
      setTimeout(c, 100); setTimeout(r, 200); setTimeout(v, 250);
    } else if ($('.mdc-snackbar--open').length) {
      c(); setTimeout(r, 100); setTimeout(v, 150);
    } else { v(); }
  }
  \<close>
  An optional argument left out is \<open>undefined\<close>, modelled as \<open>None\<close>; the default value
  of \<open>timeout\<close> replaces \<open>undefined\<close> only. The page enters through the two counts the
  method reads. The result is what the call does: steps run at once and steps handed to
  \<open>setTimeout\<close> with their delay.

  \<open>snackbar.timeoutMs = ...\<close> calls the setter of the MDCSnackbar component, which belongs
  to a library. The documentation of \<open>view\<close> states its contract: the timeout "must be
  between 4000 and 10000 or -1 to disable the timeout completely"; for any other value
  the setter throws. The assignment comes before the element is put on the page and before
  \<open>snackbar.open()\<close>, so when it throws, \<open>v\<close> ends there and no snackbar is displayed. The
  wording of the library's error is abridged.
\<close>

datatype 'a render_call = RenderPlain bool | RenderAction string 'a bool

record 'a snackbar =
  element :: "'a render_call"
  labelText :: string
  timeoutMs :: int

definition set_timeoutMs :: "int \<Rightarrow> js_error + int" where
  "set_timeoutMs t =
     (if t = - 1 \<or> (4000 \<le> t \<and> t \<le> 10000) then Inr t
      else Inl (Error ''timeoutMs must be an integer in the range 4000-10000 (or -1 to disable)''))"

text \<open>A step of \<open>view\<close>: \<open>c\<close>, \<open>r\<close>, or \<open>v\<close> with what \<open>v\<close> does, throw or display a snackbar.\<close>

datatype 'a snackbar_step = AnimateClosed | RemoveClosed | CallV "js_error + 'a snackbar"

datatype 'a scheduled = Now "'a snackbar_step" | SetTimeout "'a snackbar_step" nat

record page =
  opening_count :: nat
  open_count :: nat

definition view_v :: "string \<Rightarrow> string option \<Rightarrow> 'a option \<Rightarrow> bool option \<Rightarrow> int
    \<Rightarrow> js_error + 'a snackbar" where
  "view_v message label action showClose timeout =
     (let el = (case (label, action) of
                  (Some l, Some a) \<Rightarrow>
                    (if l = '''' then RenderPlain True
                     else (case showClose of
                             Some b \<Rightarrow> RenderAction l a b
                           | None \<Rightarrow> RenderAction l a True))
                | _ \<Rightarrow> RenderPlain True)
      in case set_timeoutMs (if endsWith message ''...'' then - 1 else timeout) of
           Inl e \<Rightarrow> Inl e
         | Inr t \<Rightarrow> Inr \<lparr> element = el, labelText = message, timeoutMs = t \<rparr>)"

definition view :: "page \<Rightarrow> string \<Rightarrow> string option \<Rightarrow> 'a option \<Rightarrow> bool option \<Rightarrow> int option
    \<Rightarrow> 'a scheduled list" where
  "view pg message label action showClose timeout_arg =
     (let timeout = (case timeout_arg of None \<Rightarrow> 5000 | Some t \<Rightarrow> t);
          v = CallV (view_v message label action showClose timeout)
      in if opening_count pg \<noteq> 0 then
           [SetTimeout AnimateClosed 100, SetTimeout RemoveClosed 200, SetTimeout v 250]
         else if open_count pg \<noteq> 0 then
           [Now AnimateClosed, SetTimeout RemoveClosed 100, SetTimeout v 150]
         else [Now v])"

text \<open>The snackbars a call displays, at once or later.\<close>

fun displayed :: "'a scheduled list \<Rightarrow> 'a snackbar list" where
  "displayed [] = []"
| "displayed (Now (CallV (Inr sb)) # xs) = sb # displayed xs"
| "displayed (SetTimeout (CallV (Inr sb)) d # xs) = sb # displayed xs"
| "displayed (x # xs) = displayed xs"

section \<open>The REST layer: Data.post and its wrappers\<close>

text \<open>
  \<^verbatim>\<open>
  static async post(action, data) {
    return axios({
      method: 'post',
      url: window.app.functionsURL + 'data',
      params: {
        test: window.app.test,
        user: window.app.user.uid,
        action: action,
        token: await firebase.auth().currentUser.getIdToken(true),
      },
      data: data,
    })
      .then((res) => {
        if (typeof res.data === 'string' && res.data.indexOf('ERROR') > 0)
          throw new Error(res.data.replace('[ERROR] ', ''));
        return res.data;
      })
      .catch((err) => {
        console.error('[ERROR] During ' + action + ' REST API call.', err);
        throw err;
      });
  }
  \<close>
  The application state the method reads is a record. Fetching the ID token is a call of
  the authentication SDK that may reject; it is awaited while the argument of \<open>axios\<close> is
  built, so a rejection leaves \<open>post\<close> before any request and before the handlers are
  attached. The network is a function from the request to what \<open>axios\<close> settles with.
  A response body is a string or some other value.
\<close>

datatype param = PBool bool | PStr string | PUndefined

record 'd request =
  "method" :: string
  url :: string
  params :: "(string \<times> param) list"
  data :: "(string \<times> 'd) list option"

datatype 'r body = Str string | NonStr 'r

datatype 'r settled = Rejected js_error | Resolved "'r body"

record app =
  functionsURL :: string
  test :: bool
  user_uid :: string
  user_id :: "string option"
  user_type :: string
  getIdToken :: "js_error + string"
  location_name :: string
  locationNames :: "string list"

text \<open>
  What a call does besides returning: requests, reads and writes of the document
  database (collection path and document id), console output and timers.
\<close>

datatype 'd effect =
    Http "'d request"
  | DbGet string string
  | DbGetAll string
  | DbSet string string 'd
  | DbUpdate string string 'd
  | DbDelete string string
  | ConsoleError string
  | ConsoleWarn string
  | Timer nat

definition post_then :: "'r body \<Rightarrow> js_error + 'r body" where
  "post_then res_data =
     (case res_data of
        Str s \<Rightarrow>
          (if str_indexOf s ''ERROR'' > 0 then Inl (Error (str_replace s ''[ERROR] '' ''''))
           else Inr res_data)
      | NonStr x \<Rightarrow> Inr res_data)"

definition post_request :: "app \<Rightarrow> string \<Rightarrow> string \<Rightarrow> (string \<times> 'd) list option \<Rightarrow> 'd request" where
  "post_request a tok action dat =
     \<lparr> method = ''post'',
       url = functionsURL a @ ''data'',
       params = [(''test'', PBool (test a)), (''user'', PStr (user_uid a)),
                 (''action'', PStr action), (''token'', PStr tok)],
       data = dat \<rparr>"

definition post :: "app \<Rightarrow> ('d request \<Rightarrow> 'r settled) \<Rightarrow> string \<Rightarrow> (string \<times> 'd) list option
    \<Rightarrow> 'd effect list \<times> (js_error + 'r body)" where
  "post a net action dat =
     (case getIdToken a of
        Inl e \<Rightarrow> ([], Inl e)
      | Inr tok \<Rightarrow>
          (let req = post_request a tok action dat;
               settled = (case net req of
                            Rejected e \<Rightarrow> Inl e
                          | Resolved res_data \<Rightarrow> post_then res_data)
           in (case settled of
                 Inl err \<Rightarrow>
                   ([Http req, ConsoleError (''[ERROR] During '' @ action @ '' REST API call.'')],
                    Inl err)
               | Inr res_data \<Rightarrow> ([Http req], Inr res_data))))"

text \<open>
  The wrappers for payments, clock-ins and clock-outs, appointments, requests and time
  requests, in the order of the source. Each is
  \<open>return Data.post('<name>', { key: argument, ... })\<close>; for example
  \<^verbatim>\<open>
  static requestPayout() {
    return Data.post('requestPayout');
  }
  static rejectClockIn(clockIn, id) {
    return Data.post('rejectClockIn', { clockIn: clockIn, id: id });
  }
  static clockIn(appt, id, proof) {
    return Data.post('clockIn', { appt: appt, id: id, proof: proof });
  }
  static newPastAppt(appt) {
    return Data.post('newPastAppt', { appt: appt });
  }
  static newRequest(request, payment) {
    return Data.post('newRequest', { request: request, payment: payment });
  }
  \<close>
  \<open>requestPayout\<close> passes no payload, so \<open>data\<close> is \<open>undefined\<close>, here \<open>None\<close>. The parameters
  \<open>id\<close>, \<open>proof\<close>, \<open>clockIn\<close> and \<open>clockOut\<close> of the source are written \<open>i\<close>, \<open>proofArg\<close>,
  \<open>clockInArg\<close> and \<open>clockOutArg\<close>.
\<close>

definition requestPayout where
  "requestPayout a net =
     post a net ''requestPayout'' None"

definition requestPaymentFor where
  "requestPaymentFor a net appt i =
     post a net ''requestPaymentFor'' (Some [(''appt'', appt), (''id'', i)])"

definition approvePayment where
  "approvePayment a net approvedPayment i =
     post a net ''approvePayment'' (Some [(''approvedPayment'', approvedPayment), (''id'', i)])"

definition denyPayment where
  "denyPayment a net deniedPayment i =
     post a net ''denyPayment'' (Some [(''deniedPayment'', deniedPayment), (''id'', i)])"

definition rejectClockIn where
  "rejectClockIn a net clockInArg i =
     post a net ''rejectClockIn'' (Some [(''clockIn'', clockInArg), (''id'', i)])"

definition approveClockIn where
  "approveClockIn a net clockInArg i =
     post a net ''approveClockIn'' (Some [(''clockIn'', clockInArg), (''id'', i)])"

definition rejectClockOut where
  "rejectClockOut a net clockOutArg i =
     post a net ''rejectClockOut'' (Some [(''clockOut'', clockOutArg), (''id'', i)])"

definition approveClockOut where
  "approveClockOut a net clockOutArg i =
     post a net ''approveClockOut'' (Some [(''clockOut'', clockOutArg), (''id'', i)])"

definition instantClockIn where
  "instantClockIn a net appt i =
     post a net ''instantClockIn'' (Some [(''appt'', appt), (''id'', i)])"

definition instantClockOut where
  "instantClockOut a net appt i =
     post a net ''instantClockOut'' (Some [(''appt'', appt), (''id'', i)])"

definition clockIn where
  "clockIn a net appt i proofArg =
     post a net ''clockIn'' (Some [(''appt'', appt), (''id'', i), (''proof'', proofArg)])"

definition clockOut where
  "clockOut a net appt i proofArg =
     post a net ''clockOut'' (Some [(''appt'', appt), (''id'', i), (''proof'', proofArg)])"

definition approveRequest where
  "approveRequest a net request i =
     post a net ''approveRequest'' (Some [(''request'', request), (''id'', i)])"

definition modifyAppt where
  "modifyAppt a net appt i =
     post a net ''modifyAppt'' (Some [(''appt'', appt), (''id'', i)])"

definition newPastAppt where
  "newPastAppt a net appt =
     post a net ''newPastAppt'' (Some [(''appt'', appt)])"

definition modifyPastAppt where
  "modifyPastAppt a net appt i =
     post a net ''modifyPastAppt'' (Some [(''appt'', appt), (''id'', i)])"

definition deletePastAppt where
  "deletePastAppt a net appt i =
     post a net ''deletePastAppt'' (Some [(''appt'', appt), (''id'', i)])"

definition cancelAppt where
  "cancelAppt a net appt i =
     post a net ''cancelAppt'' (Some [(''appt'', appt), (''id'', i)])"

definition rejectRequest where
  "rejectRequest a net request i =
     post a net ''rejectRequest'' (Some [(''request'', request), (''id'', i)])"

definition cancelRequest where
  "cancelRequest a net request i =
     post a net ''cancelRequest'' (Some [(''request'', request), (''id'', i)])"

definition modifyRequest where
  "modifyRequest a net request i =
     post a net ''modifyRequest'' (Some [(''request'', request), (''id'', i)])"

definition newRequest where
  "newRequest a net request payment =
     post a net ''newRequest'' (Some [(''request'', request), (''payment'', payment)])"

definition newTimeRequest where
  "newTimeRequest a net request =
     post a net ''newTimeRequest'' (Some [(''request'', request)])"

definition rejectTimeRequest where
  "rejectTimeRequest a net request i =
     post a net ''rejectTimeRequest'' (Some [(''request'', request), (''id'', i)])"

definition modifyTimeRequest where
  "modifyTimeRequest a net request i =
     post a net ''modifyTimeRequest'' (Some [(''request'', request), (''id'', i)])"

definition approveTimeRequest where
  "approveTimeRequest a net request i =
     post a net ''approveTimeRequest'' (Some [(''request'', request), (''id'', i)])"

text \<open>The requests among the effects of a call.\<close>

fun requests :: "'d effect list \<Rightarrow> 'd request list" where
  "requests [] = []"
| "requests (Http r # es) = r # requests es"
| "requests (e # es) = requests es"

section \<open>Users: availability, location and the user documents\<close>

text \<open>
  A JavaScript object used as a dictionary is the association list of its own properties:
  \<open>ob[k] = v\<close> is \<open>AList.update k v ob\<close>, \<open>Object.entries(ob)\<close> is the list itself and
  \<open>Object.keys(ob)\<close> its first components. An object the program receives is listed in the
  order in which JavaScript enumerates it; an object the program builds is listed in
  insertion order, which is its enumeration order unless a key is integer-like.
\<close>

type_synonym 'a obj = "(string \<times> 'a) list"

record timeslot =
  "open" :: string
  close :: string
  booked :: bool

type_synonym availability = "timeslot list obj obj"

record location_ref =
  name :: string

record appt_time =
  day :: string
  "from" :: string
  to :: string

record appt =
  appt_location :: location_ref
  appt_time :: appt_time

record user =
  uid :: "string option"
  ident :: "string option"
  email :: "string option"
  user_name :: string
  availability :: "availability option"
  location :: "string option"
  locations :: "string list option"

text \<open>
  \<open>Array.prototype.findIndex\<close>: the index of the first element satisfying the predicate,
  or \<open>-1\<close>.
\<close>

fun findIndex :: "('a \<Rightarrow> bool) \<Rightarrow> 'a list \<Rightarrow> int" where
  "findIndex P [] = -1"
| "findIndex P (y # ys) =
     (if P y then 0
      else (let i = findIndex P ys in if i < 0 then -1 else i + 1))"

text \<open>
  Reading \<open>ob[k]\<close> on an object created by \<open>{}\<close> finds an own property first and then
  the members of \<open>Object.prototype\<close>: \<open>constructor\<close> and the ten other methods are
  functions, \<open>__proto__\<close> is \<open>Object.prototype\<close> itself; all of them are truthy and none of
  them has a method \<open>findIndex\<close>. For any other key the read gives \<open>undefined\<close>. The page
  is taken to have left \<open>Object.prototype\<close> as the language defines it.
\<close>

definition object_prototype_names :: "string list" where
  "object_prototype_names =
     [''constructor'', ''__defineGetter__'', ''__defineSetter__'', ''hasOwnProperty'',
      ''__lookupGetter__'', ''__lookupSetter__'', ''isPrototypeOf'', ''propertyIsEnumerable'',
      ''toString'', ''valueOf'', ''__proto__'', ''toLocaleString'']"

datatype 'a property = Undefined | Own 'a | Inherited

definition property :: "'a obj \<Rightarrow> string \<Rightarrow> 'a property" where
  "property ob k =
     (case map_of ob k of
        Some v \<Rightarrow> Own v
      | None \<Rightarrow> (if k \<in> set object_prototype_names then Inherited else Undefined))"

text \<open>
  \<open>if (!ob[k]) ob[k] = d\<close> on such an object: own values here are objects and arrays,
  which are truthy, and so are the inherited members, so the assignment happens for
  \<open>undefined\<close> only.
\<close>

definition ensure :: "string \<Rightarrow> 'a \<Rightarrow> 'a obj \<Rightarrow> 'a obj" where
  "ensure k d ob = (case property ob k of Undefined \<Rightarrow> AList.update k d ob | _ \<Rightarrow> ob)"

text \<open>
  \<open>forEach\<close> with a callback that may throw: the first exception ends the loop and
  leaves the enclosing function.
\<close>

fun forEach :: "('s \<Rightarrow> 'x \<Rightarrow> js_error + 's) \<Rightarrow> 's \<Rightarrow> 'x list \<Rightarrow> js_error + 's" where
  "forEach f s [] = Inr s"
| "forEach f s (x # xs) = (case f s x of Inl e \<Rightarrow> Inl e | Inr s' \<Rightarrow> forEach f s' xs)"

text \<open>
  \<^verbatim>\<open>
  static async updateUserAvailability(user) {
    if (!user.uid)
      return console.warn('[WARNING] Could not update ' + user.name +
          "'s availability without a valid uID.");
    const ref = window.app.db.collection('users').doc(user.uid);
    const appts = (await ref.collection('appointments').get()).docs;
    const bookedAvailability = {};
    appts.forEach((apptDoc) => {
      const appt = apptDoc.data();
      if (!bookedAvailability[appt.location.name])
        bookedAvailability[appt.location.name] = {};
      if (!bookedAvailability[appt.location.name][appt.time.day])
        bookedAvailability[appt.location.name][appt.time.day] = [];
      if (bookedAvailability[appt.location.name][appt.time.day].findIndex(
            (t) => t.open === appt.time.from && t.close === appt.time.to) >= 0)
        return;
      bookedAvailability[appt.location.name][appt.time.day].push({
        open: appt.time.from, close: appt.time.to, booked: true });
    });
    Object.entries(user.availability || {}).forEach((loc) => {
      if (!bookedAvailability[loc[0]]) bookedAvailability[loc[0]] = {};
      Object.entries(loc[1]).forEach((day) => {
        if (!bookedAvailability[loc[0]][day[0]])
          bookedAvailability[loc[0]][day[0]] = [];
        day[1].forEach((timeslot) => {
          if (bookedAvailability[loc[0]][day[0]].findIndex(
                (t) => t.open === timeslot.open && t.close === timeslot.close) < 0) {
            bookedAvailability[loc[0]][day[0]].push({
              open: timeslot.open, close: timeslot.close, booked: false });
          }
        });
      });
    });
    return (user.availability = bookedAvailability);
  }
  \<close>
  The accumulator of each \<open>forEach\<close> is \<open>bookedAvailability\<close>. The inner objects and
  arrays are shared by reference in the source, so a push to a day's array is an update
  of the day in its location in the model. The fetch of the appointments is a database
  read that may reject.

  A day that names a member of \<open>Object.prototype\<close> is found on the location's object
  although the object has no such entry: no array is created, and \<open>findIndex\<close> is called
  on the inherited member, which throws a TypeError.

  A location that names a member of \<open>Object.prototype\<close> is found on \<open>bookedAvailability\<close>
  in the same way: no entry is created, and the days are read from and written to the
  built-in object \<open>B\<close> that the name gives. There a day that names a member of
  \<open>Object.prototype\<close> throws a TypeError: at \<open>findIndex\<close> again or, for
  \<open>Object.prototype.__proto__\<close>, which is \<open>null\<close>, already at the assignment, because the
  prototype of \<open>Object.prototype\<close> cannot be set. For any other day the array is kept on
  the built-in object and \<open>bookedAvailability\<close> stays as it is. The model follows the code
  no further into the built-in objects: days that name one of their other properties (such
  as \<open>length\<close> of a function), and what an array added to \<open>Object.prototype\<close> does to later
  reads, are outside it.
\<close>

definition not_a_function :: js_error where
  "not_a_function = TypeError ''findIndex is not a function''"

definition builtin_ensure :: "string \<Rightarrow> string \<Rightarrow> js_error + unit" where
  "builtin_ensure l d =
     (if l = ''__proto__'' \<and> d = ''__proto__''
      then Inl (TypeError ''Immutable prototype object cannot have its prototype set'')
      else Inr ())"

definition builtin_findIndex :: "string \<Rightarrow> js_error + unit" where
  "builtin_findIndex d = (if d \<in> set object_prototype_names then Inl not_a_function else Inr ())"

definition book_appt :: "availability \<Rightarrow> appt \<Rightarrow> js_error + availability" where
  "book_appt bookedAvailability ap =
     (let l = name (appt_location ap);
          d = day (appt_time ap);
          ba = ensure l [] bookedAvailability
      in case property ba l of
           Inherited \<Rightarrow>
             (case builtin_ensure l d of
                Inl e \<Rightarrow> Inl e
              | Inr u \<Rightarrow> (case builtin_findIndex d of Inl e \<Rightarrow> Inl e | Inr u \<Rightarrow> Inr ba))
         | Undefined \<Rightarrow> Inl (TypeError ''Cannot read properties of undefined'')
         | Own days0 \<Rightarrow>
             (let days = ensure d [] days0
              in case property days d of
                   Inherited \<Rightarrow> Inl not_a_function
                 | Undefined \<Rightarrow> Inl (TypeError ''Cannot read properties of undefined'')
                 | Own slots \<Rightarrow>
                     (if findIndex (\<lambda>t. open t = from (appt_time ap) \<and> close t = to (appt_time ap))
                           slots \<ge> 0
                      then Inr (AList.update l days ba)
                      else Inr (AList.update l
                             (AList.update d
                                (slots @ [\<lparr> open = from (appt_time ap), close = to (appt_time ap),
                                            booked = True \<rparr>])
                                days)
                             ba))))"

definition add_timeslot :: "string \<Rightarrow> string \<Rightarrow> availability \<Rightarrow> timeslot
    \<Rightarrow> js_error + availability" where
  "add_timeslot l d bookedAvailability ts =
     (case property bookedAvailability l of
        Inherited \<Rightarrow>
          (case builtin_findIndex d of Inl e \<Rightarrow> Inl e | Inr u \<Rightarrow> Inr bookedAvailability)
      | Undefined \<Rightarrow> Inl (TypeError ''Cannot read properties of undefined'')
      | Own days \<Rightarrow>
          (case property days d of
             Inherited \<Rightarrow> Inl not_a_function
           | Undefined \<Rightarrow> Inl (TypeError ''Cannot read properties of undefined'')
           | Own slots \<Rightarrow>
               (if findIndex (\<lambda>t. open t = open ts \<and> close t = close ts) slots < 0
                then Inr (AList.update l
                       (AList.update d
                          (slots @ [\<lparr> open = open ts, close = close ts, booked = False \<rparr>])
                          days)
                       bookedAvailability)
                else Inr bookedAvailability)))"

definition add_day :: "string \<Rightarrow> availability \<Rightarrow> string \<times> timeslot list
    \<Rightarrow> js_error + availability" where
  "add_day l bookedAvailability dy =
     (case property bookedAvailability l of
        Inherited \<Rightarrow>
          (case builtin_ensure l (fst dy) of
             Inl e \<Rightarrow> Inl e
           | Inr u \<Rightarrow> forEach (add_timeslot l (fst dy)) bookedAvailability (snd dy))
      | Undefined \<Rightarrow> Inl (TypeError ''Cannot read properties of undefined'')
      | Own days \<Rightarrow>
          forEach (add_timeslot l (fst dy))
            (AList.update l (ensure (fst dy) [] days) bookedAvailability)
            (snd dy))"

definition add_location :: "availability \<Rightarrow> string \<times> timeslot list obj
    \<Rightarrow> js_error + availability" where
  "add_location bookedAvailability loc =
     forEach (add_day (fst loc)) (ensure (fst loc) [] bookedAvailability) (snd loc)"

definition merge_availability :: "appt list \<Rightarrow> availability option \<Rightarrow> js_error + availability" where
  "merge_availability appts prior =
     (case forEach book_appt [] appts of
        Inl e \<Rightarrow> Inl e
      | Inr bookedAvailability \<Rightarrow>
          forEach add_location bookedAvailability
            (case prior of None \<Rightarrow> [] | Some av \<Rightarrow> av))"

definition updateUserAvailability ::
    "(string \<Rightarrow> js_error + appt list) \<Rightarrow> 'a user_scheme
     \<Rightarrow> 'a user_scheme effect list \<times> (js_error + 'a user_scheme)" where
  "updateUserAvailability fetch user =
     (case uid user of
        None \<Rightarrow>
          ([ConsoleWarn (''[WARNING] Could not update '' @ user_name user
                         @ [CHR 0x27] @ ''s availability without a valid uID.'')],
           Inr user)
      | Some u \<Rightarrow>
          (if u = '''' then
             ([ConsoleWarn (''[WARNING] Could not update '' @ user_name user
                            @ [CHR 0x27] @ ''s availability without a valid uID.'')],
              Inr user)
           else
             (case fetch u of
                Inl e \<Rightarrow> ([DbGetAll (''users/'' @ u @ ''/appointments'')], Inl e)
              | Inr appts \<Rightarrow>
                  (case merge_availability appts (availability user) of
                     Inl e \<Rightarrow> ([DbGetAll (''users/'' @ u @ ''/appointments'')], Inl e)
                   | Inr bookedAvailability \<Rightarrow>
                       ([DbGetAll (''users/'' @ u @ ''/appointments'')],
                        Inr (user\<lparr> availability := Some bookedAvailability \<rparr>))))))"

text \<open>
  \<^verbatim>\<open>
  static updateUserLocation(user) {
    const locs = Object.keys(user.availability);
    locs.forEach((loc) =>
      (user.location = window.app.data.locationNames.indexOf(loc) >= 0
          ? loc : window.app.location.name));
    user.locations = Data.concatArr(locs, [window.app.location.name]);
  }
  \<close>
  \<open>Object.keys(undefined)\<close> throws a TypeError.
\<close>

definition updateUserLocation :: "app \<Rightarrow> 'a user_scheme \<Rightarrow> js_error + 'a user_scheme" where
  "updateUserLocation a user =
     (case availability user of
        None \<Rightarrow> Inl (TypeError ''Cannot convert undefined or null to object'')
      | Some av \<Rightarrow>
          (let locs = map fst av;
               user1 = foldl (\<lambda>u loc. u\<lparr> location :=
                          Some (if array_indexOf (locationNames a) loc \<ge> 0 then loc
                                else location_name a) \<rparr>) user locs
           in Inr (user1\<lparr> locations := Some (concatArr locs [location_name a]) \<rparr>)))"

text \<open>
  \<^verbatim>\<open>
  static async getUser(id) {
    if (!id) {
      throw new Error('Could not get user data b/c id was undefined.');
    } else if (id.indexOf('@') >= 0) {
      throw new Error('Using an email as a user ID is deprecated.');
    }
    const ref = await window.app.db.collection('users').doc(id).get();
    if (ref.exists) return ref.data();
    throw new Error('User (' + id + ') did not exist.');
  }
  static deleteUser(id) {
    if (!id) {
      throw new Error('Could not delete user b/c id was undefined.');
    } else if (id.indexOf('@') >= 0) {
      throw new Error('Using an email as a user ID is deprecated.');
    }
    return window.app.db.collection('users').doc(id).delete();
  }
  \<close>
  The \<open>users\<close> collection is a function from document ids to documents.
\<close>

definition getUser :: "(string \<Rightarrow> 'd option) \<Rightarrow> string option
    \<Rightarrow> 'd effect list \<times> (js_error + 'd)" where
  "getUser users i =
     (case i of
        None \<Rightarrow> ([], Inl (Error ''Could not get user data b/c id was undefined.''))
      | Some s \<Rightarrow>
          (if s = '''' then ([], Inl (Error ''Could not get user data b/c id was undefined.''))
           else if str_indexOf s ''@'' \<ge> 0 then
             ([], Inl (Error ''Using an email as a user ID is deprecated.''))
           else
             ([DbGet ''users'' s],
              (case users s of
                 Some doc \<Rightarrow> Inr doc
               | None \<Rightarrow> Inl (Error (''User ('' @ s @ '') did not exist.''))))))"

definition deleteUser :: "string option \<Rightarrow> unit effect list \<times> (js_error + unit)" where
  "deleteUser i =
     (case i of
        None \<Rightarrow> ([], Inl (Error ''Could not delete user b/c id was undefined.''))
      | Some s \<Rightarrow>
          (if s = '''' then ([], Inl (Error ''Could not delete user b/c id was undefined.''))
           else if str_indexOf s ''@'' \<ge> 0 then
             ([], Inl (Error ''Using an email as a user ID is deprecated.''))
           else ([DbDelete ''users'' s], Inr ())))"

text \<open>
  \<^verbatim>\<open>
  static async updateUser(user) {
    await Data.updateUserAvailability(user);
    Data.updateUserLocation(user);
    if (!user) {
      throw new Error('Cannot update an undefined user.');
    } else if (!user.id && !user.email && !user.uid) {
      throw new Error('Could not update user b/c id was undefined.');
    } else if (user.uid) {
      return window.app.db.collection('users').doc(user.uid).update(user);
    } else {
      throw new Error('Using an email as a user ID is deprecated.');
    }
  }
  \<close>
  An \<open>undefined\<close> user makes the first statement read \<open>user.uid\<close> of \<open>undefined\<close>, a
  TypeError, so the test \<open>!user\<close> is reached with a user only.
\<close>

definition updateUser :: "app \<Rightarrow> (string \<Rightarrow> js_error + appt list) \<Rightarrow> 'a user_scheme option
    \<Rightarrow> 'a user_scheme effect list \<times> (js_error + unit)" where
  "updateUser a fetch u =
     (case u of
        None \<Rightarrow> ([], Inl (TypeError ''Cannot read properties of undefined (reading uid)''))
      | Some user0 \<Rightarrow>
          (case updateUserAvailability fetch user0 of
             (es, Inl e) \<Rightarrow> (es, Inl e)
           | (es, Inr user1) \<Rightarrow>
               (case updateUserLocation a user1 of
                  Inl e \<Rightarrow> (es, Inl e)
                | Inr user \<Rightarrow>
                    (if \<not> truthy (ident user) \<and> \<not> truthy (email user) \<and> \<not> truthy (uid user)
                     then (es, Inl (Error ''Could not update user b/c id was undefined.''))
                     else (case uid user of
                             Some s \<Rightarrow>
                               (if s \<noteq> '''' then (es @ [DbUpdate ''users'' s user], Inr ())
                                else (es, Inl (Error ''Using an email as a user ID is deprecated.'')))
                           | None \<Rightarrow>
                               (es, Inl (Error ''Using an email as a user ID is deprecated.'')))))))"

text \<open>
  \<^verbatim>\<open>
  static createUser(user) {
    if (!user) {
      throw new Error('Cannot create an undefined user.');
    } else if (!user.id && !user.uid && !user.email) {
      throw new Error('Could not create user b/c id was undefined.');
    } else if (user.uid) {
      return window.app.db.collection('users').doc(user.uid).set(user);
    } else if (window.app.user.type === 'Supervisor' &&
               window.app.user.id !== user.id) {
      return Data.post('createProxyUser', { user: user });
    } else {
      console.warn('[WARNING] Using an email as a user ID is ' + 'deprecated.');
      return window.app.db.collection('usersByEmail')
        .doc(user.id || user.email).set(user);
    }
  }
  \<close>
  The last two branches, reached when \<open>user.uid\<close> is falsy, are one definition. A
  document id that is \<open>undefined\<close> is refused by the database SDK.
\<close>

datatype 'r reply = Written | Posted "'r body"

definition or_else :: "string option \<Rightarrow> string option \<Rightarrow> string option" where
  "or_else x y = (if truthy x then x else y)"

definition createUser_without_uid :: "app \<Rightarrow> ('a user_scheme request \<Rightarrow> 'r settled) \<Rightarrow> 'a user_scheme
    \<Rightarrow> 'a user_scheme effect list \<times> (js_error + 'r reply)" where
  "createUser_without_uid a net user =
     (if user_type a = ''Supervisor'' \<and> user_id a \<noteq> ident user then
        (case post a net ''createProxyUser'' (Some [(''user'', user)]) of
           (es, Inl e) \<Rightarrow> (es, Inl e)
         | (es, Inr res_data) \<Rightarrow> (es, Inr (Posted res_data)))
      else
        (case or_else (ident user) (email user) of
           Some s \<Rightarrow>
             ([ConsoleWarn ''[WARNING] Using an email as a user ID is deprecated.'',
               DbSet ''usersByEmail'' s user], Inr Written)
         | None \<Rightarrow>
             ([ConsoleWarn ''[WARNING] Using an email as a user ID is deprecated.''],
              Inl (Error ''invalid document path''))))"

definition createUser :: "app \<Rightarrow> ('a user_scheme request \<Rightarrow> 'r settled) \<Rightarrow> 'a user_scheme option
    \<Rightarrow> 'a user_scheme effect list \<times> (js_error + 'r reply)" where
  "createUser a net u =
     (case u of
        None \<Rightarrow> ([], Inl (Error ''Cannot create an undefined user.''))
      | Some user \<Rightarrow>
          (if \<not> truthy (ident user) \<and> \<not> truthy (uid user) \<and> \<not> truthy (email user)
           then ([], Inl (Error ''Could not create user b/c id was undefined.''))
           else (case uid user of
                   Some s \<Rightarrow>
                     (if s \<noteq> '''' then ([DbSet ''users'' s user], Inr Written)
                      else createUser_without_uid a net user)
                 | None \<Rightarrow> createUser_without_uid a net user)))"

text \<open>The writes to a collection among the effects of a call.\<close>

fun writes_to :: "string \<Rightarrow> 'd effect list \<Rightarrow> 'd effect list" where
  "writes_to c [] = []"
| "writes_to c (DbSet c' k v # es) =
     (if c' = c then DbSet c' k v # writes_to c es else writes_to c es)"
| "writes_to c (DbUpdate c' k v # es) =
     (if c' = c then DbUpdate c' k v # writes_to c es else writes_to c es)"
| "writes_to c (DbDelete c' k # es) =
     (if c' = c then DbDelete c' k # writes_to c es else writes_to c es)"
| "writes_to c (e # es) = writes_to c es"

section \<open>Payments.initStripe: fetching the account URL\<close>

text \<open>
  \<^verbatim>\<open>
  function getAccountURL() {
    return axios({
      method: 'get',
      url: window.app.functionsURL + '/accountURL',
      params: { id: window.app.user.id },
    }).then((res) => {
      that.accountURL = res.data.url;
    }).catch((err) => {
      console.error('Error while fetching new Stripe Connect Account ' + 'url:', err);
      setTimeout(getAccountURL, 5000);
    });
  };
  getAccountURL();
  \<close>
  The network answers the \<open>k\<close>-th request of the sequence; a response body carries the
  \<open>url\<close> field or not. The failure handler sets a timer whose callback is the function
  itself, so the model follows the timers that fire: the fuel is the number of timer
  callbacks the trace follows, and the result is the account URL stored, if any.
\<close>

definition accountURL_request :: "app \<Rightarrow> unit request" where
  "accountURL_request a =
     \<lparr> method = ''get'',
       url = functionsURL a @ ''/accountURL'',
       params = [(''id'', (case user_id a of None \<Rightarrow> PUndefined | Some s \<Rightarrow> PStr s))],
       data = None \<rparr>"

fun getAccountURL :: "nat \<Rightarrow> app \<Rightarrow> (nat \<Rightarrow> unit request \<Rightarrow> string option settled) \<Rightarrow> nat
    \<Rightarrow> unit effect list \<times> string option" where
  "getAccountURL fuel a net k =
     (case net k (accountURL_request a) of
        Resolved res_data \<Rightarrow>
          ([Http (accountURL_request a)],
           (case res_data of Str s \<Rightarrow> None | NonStr url_field \<Rightarrow> url_field))
      | Rejected err \<Rightarrow>
          (case fuel of
             0 \<Rightarrow>
               ([Http (accountURL_request a),
                 ConsoleError ''Error while fetching new Stripe Connect Account url:'',
                 Timer 5000], None)
           | Suc f \<Rightarrow>
               (let (es, r) = getAccountURL f a net (Suc k)
                in (Http (accountURL_request a)
                    # ConsoleError ''Error while fetching new Stripe Connect Account url:''
                    # Timer 5000 # es, r))))"

section \<open>Data.prototype.initTimes\<close>

text \<open>
  \<^verbatim>\<open>
  initTimes() {
    this.timeStrings = [];
    ['AM', 'PM'].forEach((suffix) => {
      for (var min = 0; min < 60; min++) {
        if (min < 10) { var minString = '0' + min.toString(); }
        else { var minString = min.toString(); }
        this.timeStrings.push('12:' + minString + ' ' + suffix);
      }
      for (var hour = 1; hour < 12; hour++) {
        for (var min = 0; min < 60; min++) {
          if (min < 10) { var minString = '0' + min.toString(); }
          else { var minString = min.toString(); }
          this.timeStrings.push(hour + ':' + minString + ' ' + suffix);
        }
      }
    });
  }
  \<close>
  Each counting loop is a left fold of its body over the range of the counter, and
  \<open>forEach\<close> a left fold over the two suffixes; the accumulator is \<open>timeStrings\<close>.
\<close>

definition minString :: "nat \<Rightarrow> string" where
  "minString m = (if m < 10 then ''0'' @ nat_toString m else nat_toString m)"

definition push_twelve :: "string \<Rightarrow> string list \<Rightarrow> nat \<Rightarrow> string list" where
  "push_twelve sfx timeStrings m = timeStrings @ [''12:'' @ minString m @ '' '' @ sfx]"

definition push_minute :: "string \<Rightarrow> nat \<Rightarrow> string list \<Rightarrow> nat \<Rightarrow> string list" where
  "push_minute sfx hour timeStrings m =
     timeStrings @ [nat_toString hour @ '':'' @ minString m @ '' '' @ sfx]"

definition push_hour :: "string \<Rightarrow> string list \<Rightarrow> nat \<Rightarrow> string list" where
  "push_hour sfx timeStrings hour = foldl (push_minute sfx hour) timeStrings [0..<60]"

definition push_suffix :: "string list \<Rightarrow> string \<Rightarrow> string list" where
  "push_suffix timeStrings sfx =
     foldl (push_hour sfx) (foldl (push_twelve sfx) timeStrings [0..<60]) [1..<12]"

definition initTimes :: "string list" where
  "initTimes = foldl push_suffix [] [''AM'', ''PM'']"

text \<open>
  The specification's reading, written without the functions of the code: minute \<open>i\<close> of
  the day in 12-hour format. The hour is \<open>12\<close> for the hours 0 and 12 and is not padded,
  the minutes are padded to two digits, the suffix is \<open>AM\<close> for the first 720 minutes and
  \<open>PM\<close> for the rest. Digits are read off the table \<open>0123456789\<close>.
\<close>

definition decimal_digit :: "nat \<Rightarrow> char" where
  "decimal_digit d = ''0123456789'' ! d"

definition two_digits :: "nat \<Rightarrow> string" where
  "two_digits n = [decimal_digit (n div 10), decimal_digit (n mod 10)]"

definition hour12 :: "nat \<Rightarrow> nat" where
  "hour12 i = (if (i div 60) mod 12 = 0 then 12 else (i div 60) mod 12)"

definition clock12 :: "nat \<Rightarrow> string" where
  "clock12 i =
     (if hour12 i < 10 then [decimal_digit (hour12 i)] else two_digits (hour12 i))
     @ '':'' @ two_digits (i mod 60) @ '' '' @ (if i < 720 then ''AM'' else ''PM'')"

text \<open>\<open>block\<close> is one suffix's share of the array, as the loops of the code build it.\<close>

definition block :: "string \<Rightarrow> string list" where
  "block sfx =
     map (\<lambda>m. ''12:'' @ minString m @ '' '' @ sfx) [0..<60]
     @ concat (map (\<lambda>h. map (\<lambda>m. nat_toString h @ '':'' @ minString m @ '' '' @ sfx) [0..<60])
                 [1..<12])"

section \<open>Notions used to state and prove the properties of the availability merge\<close>

text \<open>
  A key is ordinary when it does not name a member of \<open>Object.prototype\<close>; the keys of the
  fetched appointments and of an availability object.

  The view of an availability object as a function from location and day to the day's
  list (\<open>slots_at\<close>, the empty list where an entry is missing) and that a location and day
  have an entry (\<open>own_day\<close>); the guarded push on this view (\<open>put\<close>); when an appointment
  matches a timeslot of a location and day (\<open>matches\<close>); and the invariants of the two
  passes.
\<close>

definition ordinary :: "string \<Rightarrow> bool" where
  "ordinary k \<longleftrightarrow> k \<notin> set object_prototype_names"

definition ordinary_appts :: "appt list \<Rightarrow> bool" where
  "ordinary_appts appts \<longleftrightarrow>
     list_all (\<lambda>ap. ordinary (name (appt_location ap)) \<and> ordinary (day (appt_time ap))) appts"

definition ordinary_availability :: "availability option \<Rightarrow> bool" where
  "ordinary_availability prior \<longleftrightarrow>
     list_all (\<lambda>loc. ordinary (fst loc) \<and> list_all (\<lambda>dy. ordinary (fst dy)) (snd loc))
       (case prior of None \<Rightarrow> [] | Some av \<Rightarrow> av)"

definition slots_at :: "availability \<Rightarrow> string \<Rightarrow> string \<Rightarrow> timeslot list" where
  "slots_at ba l d =
     (case map_of ba l of
        None \<Rightarrow> []
      | Some days \<Rightarrow> (case map_of days d of None \<Rightarrow> [] | Some slots \<Rightarrow> slots))"

definition own_day :: "availability \<Rightarrow> string \<Rightarrow> string \<Rightarrow> bool" where
  "own_day ba l d \<longleftrightarrow>
     (case map_of ba l of None \<Rightarrow> False | Some days \<Rightarrow> map_of days d \<noteq> None)"

definition put :: "(string \<Rightarrow> string \<Rightarrow> timeslot list) \<Rightarrow> string \<Rightarrow> string \<Rightarrow> bool \<Rightarrow> string \<Rightarrow> string
    \<Rightarrow> string \<Rightarrow> string \<Rightarrow> timeslot list" where
  "put S l d b opn cls =
     (\<lambda>l' d'. if l' = l \<and> d' = d
              then (if \<exists>t\<in>set (S l d). open t = opn \<and> close t = cls then S l d
                    else S l d @ [\<lparr> open = opn, close = cls, booked = b \<rparr>])
              else S l' d')"

definition matches :: "appt \<Rightarrow> string \<Rightarrow> string \<Rightarrow> timeslot \<Rightarrow> bool" where
  "matches ap l d t \<longleftrightarrow>
     name (appt_location ap) = l \<and> day (appt_time ap) = d
     \<and> from (appt_time ap) = open t \<and> to (appt_time ap) = close t"

definition slot_key :: "timeslot \<Rightarrow> string \<times> string" where
  "slot_key t = (open t, close t)"

definition sound :: "appt list \<Rightarrow> (string \<Rightarrow> string \<Rightarrow> timeslot list) \<Rightarrow> bool" where
  "sound A S \<longleftrightarrow>
     (\<forall>l d. distinct (map slot_key (S l d))
        \<and> (\<forall>t\<in>set (S l d). booked t \<longrightarrow> (\<exists>ap\<in>set A. matches ap l d t)))"

definition extends :: "(string \<Rightarrow> string \<Rightarrow> timeslot list) \<Rightarrow> (string \<Rightarrow> string \<Rightarrow> timeslot list) \<Rightarrow> bool" where
  "extends S S' \<longleftrightarrow> (\<forall>l d. set (S l d) \<subseteq> set (S' l d))"

definition has_slot :: "(string \<Rightarrow> string \<Rightarrow> timeslot list) \<Rightarrow> string \<Rightarrow> string \<Rightarrow> timeslot \<Rightarrow> bool" where
  "has_slot S l d ts \<longleftrightarrow> (\<exists>t\<in>set (S l d). open t = open ts \<and> close t = close ts)"

definition merge_prior :: "(string \<Rightarrow> string \<Rightarrow> timeslot list) \<Rightarrow> availability
    \<Rightarrow> string \<Rightarrow> string \<Rightarrow> timeslot list" where
  "merge_prior S prior =
     foldl (\<lambda>S loc. foldl (\<lambda>S dy. foldl (\<lambda>S ts. put S (fst loc) (fst dy) False (open ts) (close ts))
                                    S (snd dy)) S (snd loc)) S prior"

definition all_booked :: "(string \<Rightarrow> string \<Rightarrow> timeslot list) \<Rightarrow> bool" where
  "all_booked S \<longleftrightarrow> (\<forall>l d. \<forall>t\<in>set (S l d). booked t)"

definition book_all :: "(string \<Rightarrow> string \<Rightarrow> timeslot list) \<Rightarrow> appt list
    \<Rightarrow> string \<Rightarrow> string \<Rightarrow> timeslot list" where
  "book_all S aps =
     foldl (\<lambda>S ap. put S (name (appt_location ap)) (day (appt_time ap)) True
                     (from (appt_time ap)) (to (appt_time ap))) S aps"

definition has_booked :: "(string \<Rightarrow> string \<Rightarrow> timeslot list) \<Rightarrow> appt \<Rightarrow> bool" where
  "has_booked S ap \<longleftrightarrow>
     \<lparr> open = from (appt_time ap), close = to (appt_time ap), booked = True \<rparr>
       \<in> set (S (name (appt_location ap)) (day (appt_time ap)))"

section \<open>ViewApptDialog.update: the timer displays\<close>

text \<open>
  \<^verbatim>\<open>
  async clockIn() {
    this.timer = setInterval(this.update, 10);
    ...
  }
  update() {
    // Formatted as: Hr:Min:Sec.Millisec
    var currentTimeDisplay = $('#Current input')[0];
    var current = currentTimeDisplay.value.toString();
    var currentHours = new Number(current.split(':')[0]);
    var currentMinutes = new Number(current.split(':')[1]);
    var currentSeconds = new Number(current.split(':')[2].split('.')[0]);
    var currentMilli = new Number(current.split('.')[1]) || 0;
    currentMilli++;
    if (currentMilli === 100) { currentMilli = 0; currentSeconds++; }
    if (currentSeconds === 60) { currentSeconds = 0; currentMinutes++; }
    if (currentMinutes === 60) { currentMinutes = 0; currentHours++; }
    currentTimeDisplay.value = currentHours + ':' + currentMinutes +
        ':' + currentSeconds + '.' + currentMilli;
    // Next, update the total time
    var totalTimeDisplay = $('#Total input')[0];
    ... the same statements on total, totalHours, totalMinutes, totalSeconds,
        totalMilli (there without the "|| 0") ...
  }
  \<close>
  \<open>String.prototype.split\<close> with a one-character separator, and indexing an array, which
  gives \<open>undefined\<close> (\<open>None\<close>) out of range.
\<close>

fun split :: "char \<Rightarrow> string \<Rightarrow> string list" where
  "split sep [] = [[]]"
| "split sep (c # cs) =
     (if c = sep then [] # split sep cs
      else (case split sep cs of
              p # ps \<Rightarrow> (c # p) # ps
            | [] \<Rightarrow> [[c]]))"

definition nth_opt :: "'a list \<Rightarrow> nat \<Rightarrow> 'a option" where
  "nth_opt xs i = (if i < length xs then Some (xs ! i) else None)"

text \<open>
  JavaScript numbers are IEEE doubles. The model holds the natural numbers among them:
  every natural number up to \<open>2^53\<close> is a double, and a larger one is rounded to the
  nearest number with 53 significant bits, ties to the even one. A number up to \<open>2^53\<close>
  prints as its decimal digits. A larger one prints with the shortest digits that read
  back as the same double, which need not be its own digits, and from \<open>10^21\<close> on in
  exponent notation: printing a number above \<open>2^53\<close> is outside the model (\<open>None\<close>), as is
  the number of a string that is not a non-empty string of decimal digits or that stands
  for \<open>10^21\<close> or more.

  \<open>new Number(s)\<close> is an object, and an object is never strictly equal (\<open>===\<close>) to a
  number; \<open>x++\<close> leaves the primitive number \<open>x + 1\<close> in the variable. An object is
  truthy, so \<open>new Number(s) || 0\<close> is the object: the two halves of \<open>update\<close> do the same.
\<close>

fun bit_length :: "nat \<Rightarrow> nat" where
  "bit_length n = (if n = 0 then 0 else Suc (bit_length (n div 2)))"

declare bit_length.simps [simp del]

definition round_double :: "nat \<Rightarrow> nat" where
  "round_double n =
     (if n \<le> 2 ^ 53 then n
      else (let e = bit_length n - 53;
                q = n div 2 ^ e;
                r = n mod 2 ^ e;
                half = 2 ^ (e - 1)
            in if r < half \<or> (r = half \<and> even q) then q * 2 ^ e else (q + 1) * 2 ^ e))"

definition to_number :: "string \<Rightarrow> nat option" where
  "to_number s =
     (if s \<noteq> [] \<and> list_all is_digit s \<and> digits_value s < 10 ^ 21
      then Some (round_double (digits_value s)) else None)"

datatype js_num = Boxed nat | Prim nat

fun num_value :: "js_num \<Rightarrow> nat" where
  "num_value (Boxed v) = v"
| "num_value (Prim v) = v"

definition incr :: "js_num \<Rightarrow> js_num" where
  "incr x = Prim (round_double (num_value x + 1))"

fun strict_eq :: "js_num \<Rightarrow> nat \<Rightarrow> bool" where
  "strict_eq (Boxed v) n = False"
| "strict_eq (Prim v) n = (v = n)"

definition num_toString :: "js_num \<Rightarrow> string option" where
  "num_toString x = (if num_value x \<le> 2 ^ 53 then Some (nat_toString (num_value x)) else None)"

definition display :: "js_num \<Rightarrow> js_num \<Rightarrow> js_num \<Rightarrow> js_num \<Rightarrow> string option" where
  "display hours minutes seconds milli =
     (case (num_toString hours, num_toString minutes, num_toString seconds, num_toString milli) of
        (Some h, Some m, Some s, Some c) \<Rightarrow> Some (h @ '':'' @ m @ '':'' @ s @ ''.'' @ c)
      | _ \<Rightarrow> None)"

definition carry :: "js_num \<Rightarrow> nat \<Rightarrow> js_num \<Rightarrow> js_num \<times> js_num" where
  "carry low limit high = (if strict_eq low limit then (Prim 0, incr high) else (low, high))"

definition tick :: "string \<Rightarrow> string option" where
  "tick current =
     (case (nth_opt (split CHR '':'' current) 0, nth_opt (split CHR '':'' current) 1,
            nth_opt (split CHR '':'' current) 2, nth_opt (split CHR ''.'' current) 1) of
        (Some h, Some m, Some s, Some c) \<Rightarrow>
          (case nth_opt (split CHR ''.'' s) 0 of
             Some s0 \<Rightarrow>
               (case (to_number h, to_number m, to_number s0, to_number c) of
                  (Some hours, Some minutes, Some seconds, Some milli) \<Rightarrow>
                    (let currentHours = Boxed hours;
                         currentMinutes = Boxed minutes;
                         currentSeconds = Boxed seconds;
                         currentMilli = incr (Boxed milli);
                         (currentMilli, currentSeconds) = carry currentMilli 100 currentSeconds;
                         (currentSeconds, currentMinutes) = carry currentSeconds 60 currentMinutes;
                         (currentMinutes, currentHours) = carry currentMinutes 60 currentHours
                     in display currentHours currentMinutes currentSeconds currentMilli)
                | _ \<Rightarrow> None)
           | None \<Rightarrow> None)
      | _ \<Rightarrow> None)"

record displays =
  current_value :: string
  total_value :: string

definition update :: "displays \<Rightarrow> displays option" where
  "update ds =
     (case tick (current_value ds) of
        None \<Rightarrow> None
      | Some current \<Rightarrow>
          (case tick (total_value ds) of
             None \<Rightarrow> None
           | Some totalValue \<Rightarrow>
               Some \<lparr> current_value = current, total_value = totalValue \<rparr>))"

text \<open>
  The specification's reading of a display \<open>H:M:S.CC\<close>: four non-empty strings of digits
  with \<open>M < 60\<close>, \<open>S < 60\<close> and \<open>CC < 100\<close>, worth \<open>((H*60 + M)*60 + S)*100 + CC\<close>
  centiseconds; and the hours it shows.
\<close>

definition centis :: "nat \<Rightarrow> nat \<Rightarrow> nat \<Rightarrow> nat \<Rightarrow> nat" where
  "centis h m s c = ((h * 60 + m) * 60 + s) * 100 + c"

definition is_digits :: "string \<Rightarrow> bool" where
  "is_digits s \<longleftrightarrow> s \<noteq> [] \<and> list_all is_digit s"

definition display_fields :: "string \<Rightarrow> (nat \<times> nat \<times> nat \<times> nat) option" where
  "display_fields d =
     (case split CHR '':'' d of
        [h, m, r] \<Rightarrow>
          (case split CHR ''.'' r of
             [s, c] \<Rightarrow>
               (if is_digits h \<and> is_digits m \<and> is_digits s \<and> is_digits c
                   \<and> digits_value m < 60 \<and> digits_value s < 60 \<and> digits_value c < 100
                then Some (digits_value h, digits_value m, digits_value s, digits_value c)
                else None)
           | _ \<Rightarrow> None)
      | _ \<Rightarrow> None)"

definition display_centis :: "string \<Rightarrow> nat option" where
  "display_centis d = map_option (\<lambda>(h, m, s, c). centis h m s c) (display_fields d)"

definition display_hours :: "string \<Rightarrow> nat option" where
  "display_hours d = map_option fst (display_fields d)"

text \<open>\<open>Array.prototype.join\<close>, the inverse of \<open>split\<close>; and a display written from its fields.\<close>

fun join :: "char \<Rightarrow> string list \<Rightarrow> string" where
  "join sep [] = []"
| "join sep [x] = x"
| "join sep (x # y # ys) = x @ sep # join sep (y # ys)"

definition render :: "nat \<times> nat \<times> nat \<times> nat \<Rightarrow> string" where
  "render f =
     (case f of (h, m, s, c) \<Rightarrow>
        nat_toString h @ '':'' @ nat_toString m @ '':'' @ nat_toString s @ ''.'' @ nat_toString c)"

definition next_fields :: "nat \<times> nat \<times> nat \<times> nat \<Rightarrow> nat \<times> nat \<times> nat \<times> nat" where
  "next_fields f =
     (case f of (h, m, s, c) \<Rightarrow>
        if c + 1 = 100 then
          (if s + 1 = 60 then
             (if m + 1 = 60 then (h + 1, 0, 0, 0) else (h, m + 1, 0, 0))
           else (h, m, s + 1, 0))
        else (h, m, s, c + 1))"


section \<open>The code that calls the REST layer and the database\<close>

text \<open>
  What a caller does is a list of calls in the order in which they happen: the effects of
  the data layer, requests that ask for a blob, reads of and subscriptions to a database
  reference, the creation of a PayPal order, callbacks handed in by the caller's caller,
  and what the user interface is told to do. An \<open>async\<close> function whose awaited call
  rejects, and which has no handler, rejects with the same error and does nothing more.
  The helper \<open>to\<close> turns a promise into a pair of error and result and never rejects.
\<close>

datatype ui =
    SnackbarView string
  | SnackbarViewAction string string
  | NavBack
  | SetInterval nat
  | ClearInterval
  | LockNavigation
  | CreateObjectURL

datatype 'd call =
    Eff "'d effect"
  | Blob "'d request"
  | RefGet string
  | RefOnSnapshot string
  | NextCallback
  | ErrorCallback js_error
  | PayPalOrderCreate 'd
  | Ui ui

text \<open>The requests of the REST layer among the calls of a caller.\<close>

fun http_requests :: "'d call list \<Rightarrow> 'd request list" where
  "http_requests [] = []"
| "http_requests (Eff (Http r) # cs) = r # http_requests cs"
| "http_requests (Blob r # cs) = r # http_requests cs"
| "http_requests (c # cs) = http_requests cs"

text \<open>
  \<^verbatim>\<open>
  static combineMaps(mapA, mapB) {
    const result = {};
    for (var i in mapA) result[i] = mapA[i];
    for (var i in mapB) result[i] = mapB[i];
    return result;
  }
  static async getServiceHoursLog(params) {
    return axios({
      method: 'get',
      url: window.app.functionsURL + 'serviceHoursAsPDF',
      responseType: 'blob',
      params: Data.combineMaps({
          token: await firebase.auth().currentUser.getIdToken(true),
          location: window.app.location.id,
          test: window.app.test,
        }, params),
    }).then((res) => {
      return window.URL.createObjectURL(res.data);
    });
  }
  static async getPDFBackup(params) {
    return axios({
      method: 'get',
      url: window.app.functionsURL + 'backupAsPDF',
      responseType: 'blob',
      params: Data.combineMaps({
          token: await firebase.auth().currentUser.getIdToken(true),
          location: window.app.location.id,
          test: window.app.test,
          tutors: true,
          pupils: true,
        }, params),
    }).then((res) => {
      return window.URL.createObjectURL(res.data);
    });
  }
  \<close>
  The id of the location of the application is a parameter. The result is the body from
  which the object URL is made.
\<close>

definition combineMaps :: "'v obj \<Rightarrow> 'v obj \<Rightarrow> 'v obj" where
  "combineMaps mapA mapB =
     foldl (\<lambda>result i. AList.update (fst i) (snd i) result)
       (foldl (\<lambda>result i. AList.update (fst i) (snd i) result) [] mapA) mapB"

definition serviceHoursLog_request :: "app \<Rightarrow> string \<Rightarrow> string \<Rightarrow> param obj \<Rightarrow> 'd request" where
  "serviceHoursLog_request a location_id tok ps =
     \<lparr> method = ''get'',
       url = functionsURL a @ ''serviceHoursAsPDF'',
       params = combineMaps [(''token'', PStr tok), (''location'', PStr location_id),
                             (''test'', PBool (test a))] ps,
       data = None \<rparr>"

definition getServiceHoursLog :: "app \<Rightarrow> string \<Rightarrow> ('d request \<Rightarrow> 'r settled) \<Rightarrow> param obj
    \<Rightarrow> 'd call list \<times> (js_error + 'r body)" where
  "getServiceHoursLog a location_id net ps =
     (case getIdToken a of
        Inl e \<Rightarrow> ([], Inl e)
      | Inr tok \<Rightarrow>
          (case net (serviceHoursLog_request a location_id tok ps) of
             Rejected e \<Rightarrow> ([Blob (serviceHoursLog_request a location_id tok ps)], Inl e)
           | Resolved res_data \<Rightarrow>
               ([Blob (serviceHoursLog_request a location_id tok ps), Ui CreateObjectURL],
                Inr res_data)))"

definition PDFBackup_request :: "app \<Rightarrow> string \<Rightarrow> string \<Rightarrow> param obj \<Rightarrow> 'd request" where
  "PDFBackup_request a location_id tok ps =
     \<lparr> method = ''get'',
       url = functionsURL a @ ''backupAsPDF'',
       params = combineMaps [(''token'', PStr tok), (''location'', PStr location_id),
                             (''test'', PBool (test a)), (''tutors'', PBool True),
                             (''pupils'', PBool True)] ps,
       data = None \<rparr>"

definition getPDFBackup :: "app \<Rightarrow> string \<Rightarrow> ('d request \<Rightarrow> 'r settled) \<Rightarrow> param obj
    \<Rightarrow> 'd call list \<times> (js_error + 'r body)" where
  "getPDFBackup a location_id net ps =
     (case getIdToken a of
        Inl e \<Rightarrow> ([], Inl e)
      | Inr tok \<Rightarrow>
          (case net (PDFBackup_request a location_id tok ps) of
             Rejected e \<Rightarrow> ([Blob (PDFBackup_request a location_id tok ps)], Inl e)
           | Resolved res_data \<Rightarrow>
               ([Blob (PDFBackup_request a location_id tok ps), Ui CreateObjectURL],
                Inr res_data)))"

text \<open>
  \<^verbatim>\<open>
  static deleteLocation(id) {
    return Data.post('deleteLocation', { id: id });
  }
  \<close>
\<close>

definition deleteLocation where
  "deleteLocation a net i = post a net ''deleteLocation'' (Some [(''id'', i)])"

text \<open>
  The callers in the dialogs. An argument that a caller leaves out is \<open>undefined\<close>, so the
  values of a payload are options here.
  \<^verbatim>\<open>
  // ViewRequestDialog, the header's action
  approve: async () => {
    window.app.nav.back();
    await Data.approveRequest(this.request, this.id);
    window.app.snackbar.view('Approved request.');
  },
  // EditRequestDialog
  async modifyRequest() {
    window.app.nav.back();
    await Data.modifyRequest(this.request, this.id);
    window.app.snackbar.view('Request updated.');
  }
  // NewRequestDialog
  async sendRequest() {
    window.app.nav.back();
    await Data.newRequest(this.request, this.payment);
    window.app.snackbar.view(
      'Request sent to ' + this.request.toUser.email + '.', 'Undo',
      async () => { ... });
  }
  // EditApptDialog, the header's action
  ok: async () => {
    window.app.nav.back();
    await Data.modifyAppt(this.appt, this.id);
    window.app.snackbar.view('Modified window.app.intment.');
  },
  \<close>
  The action of the \<open>Undo\<close> button runs when the user presses the button.
\<close>

definition after_nav_back :: "string \<Rightarrow> 'd effect list \<times> (js_error + 'r)
    \<Rightarrow> 'd call list \<times> (js_error + unit)" where
  "after_nav_back message posted =
     (case posted of
        (es, Inl e) \<Rightarrow> (Ui NavBack # map Eff es, Inl e)
      | (es, Inr res) \<Rightarrow> (Ui NavBack # map Eff es @ [Ui (SnackbarView message)], Inr ()))"

definition ViewRequestDialog_approve where
  "ViewRequestDialog_approve a net request i =
     after_nav_back ''Approved request.'' (approveRequest a net (Some request) (Some i))"

definition EditRequestDialog_modifyRequest where
  "EditRequestDialog_modifyRequest a net request i =
     after_nav_back ''Request updated.'' (modifyRequest a net (Some request) (Some i))"

definition EditApptDialog_ok where
  "EditApptDialog_ok a net appt i =
     after_nav_back ''Modified window.app.intment.'' (modifyAppt a net (Some appt) (Some i))"

definition NewRequestDialog_sendRequest :: "app \<Rightarrow> ('d option request \<Rightarrow> 'r settled) \<Rightarrow> 'd
    \<Rightarrow> 'd option \<Rightarrow> string \<Rightarrow> 'd option call list \<times> (js_error + unit)" where
  "NewRequestDialog_sendRequest a net request payment toUser_email =
     (case newRequest a net (Some request) payment of
        (es, Inl e) \<Rightarrow> (Ui NavBack # map Eff es, Inl e)
      | (es, Inr res) \<Rightarrow>
          (Ui NavBack # map Eff es
             @ [Ui (SnackbarViewAction (''Request sent to '' @ toUser_email @ ''.'') ''Undo'')],
           Inr ()))"

text \<open>
  \<^verbatim>\<open>
  // ViewApptDialog.manage, for a paid appointment
  $(this.main).find('.mdc-fab').click(async () => {
    var err; var res;
    [err, res] = await to(Data.requestPaymentFor(this.appt, this.id));
    if (err) return window.app.snackbar.view('Could not send ' +
        'payment request. Please ensure this isn\'t a ' + 'duplicate request.');
    window.app.snackbar.view('Sent payment request to ' +
        Utils.getOther(this.appt.attendees).email + '.');
  });
  async clockIn() {
    this.timer = setInterval(this.update, 10);
    await Data.clockIn(this.appt, this.id);
    window.app.snackbar.view('Sent clock in request.');
    $(this.header).find('.material-icons').off('click').click(() => {
      window.app.snackbar.view('Navigation is locked until you clock out.');
    });
  }
  async clockOut() {
    clearInterval(this.timer);
    this.timer = null;
    await Data.clockOut(this.appt, this.id);
    window.app.snackbar.view('Sent clock out request.');
  }
  \<close>
  The interval set by \<open>clockIn\<close> runs \<open>update\<close>, which advances the displayed time and
  issues no request.
\<close>

definition ViewApptDialog_requestPayment :: "app \<Rightarrow> ('d option request \<Rightarrow> 'r settled) \<Rightarrow> 'd \<Rightarrow> 'd
    \<Rightarrow> string \<Rightarrow> 'd option call list \<times> (js_error + unit)" where
  "ViewApptDialog_requestPayment a net appt i other_email =
     (case requestPaymentFor a net (Some appt) (Some i) of
        (es, Inl err) \<Rightarrow>
          (map Eff es
             @ [Ui (SnackbarView (''Could not send payment request. Please ensure this isn''
                                  @ [CHR 0x27] @ ''t a duplicate request.''))],
           Inr ())
      | (es, Inr res) \<Rightarrow>
          (map Eff es @ [Ui (SnackbarView (''Sent payment request to '' @ other_email @ ''.''))],
           Inr ()))"

definition ViewApptDialog_clockIn :: "app \<Rightarrow> ('d option request \<Rightarrow> 'r settled) \<Rightarrow> 'd \<Rightarrow> 'd
    \<Rightarrow> 'd option call list \<times> (js_error + unit)" where
  "ViewApptDialog_clockIn a net appt i =
     (case clockIn a net (Some appt) (Some i) None of
        (es, Inl e) \<Rightarrow> (Ui (SetInterval 10) # map Eff es, Inl e)
      | (es, Inr res) \<Rightarrow>
          (Ui (SetInterval 10) # map Eff es
             @ [Ui (SnackbarView ''Sent clock in request.''), Ui LockNavigation],
           Inr ()))"

definition ViewApptDialog_clockOut :: "app \<Rightarrow> ('d option request \<Rightarrow> 'r settled) \<Rightarrow> 'd \<Rightarrow> 'd
    \<Rightarrow> 'd option call list \<times> (js_error + unit)" where
  "ViewApptDialog_clockOut a net appt i =
     (case clockOut a net (Some appt) (Some i) None of
        (es, Inl e) \<Rightarrow> (Ui ClearInterval # map Eff es, Inl e)
      | (es, Inr res) \<Rightarrow>
          (Ui ClearInterval # map Eff es @ [Ui (SnackbarView ''Sent clock out request.'')],
           Inr ()))"

text \<open>
  \<^verbatim>\<open>
  // Config.viewLocationCards, the action of the confirmation dialog
  async () => {
    window.app.snackbar.view('Deleting location...');
    const [err, res] = await to(Data.deleteLocation(doc.id));
    if (err) return window.app.snackbar.view('Could ' + 'not delete location.');
    window.app.snackbar.view('Deleted location.');
  }
  \<close>
\<close>

definition Config_deleteLocation :: "app \<Rightarrow> ('d request \<Rightarrow> 'r settled) \<Rightarrow> 'd
    \<Rightarrow> 'd call list \<times> (js_error + unit)" where
  "Config_deleteLocation a net doc_id =
     (case deleteLocation a net doc_id of
        (es, Inl err) \<Rightarrow>
          (Ui (SnackbarView ''Deleting location...'') # map Eff es
             @ [Ui (SnackbarView ''Could not delete location.'')],
           Inr ())
      | (es, Inr res) \<Rightarrow>
          (Ui (SnackbarView ''Deleting location...'') # map Eff es
             @ [Ui (SnackbarView ''Deleted location.'')],
           Inr ()))"

text \<open>
  \<^verbatim>\<open>
  static async listen(query, next, error = () => {}, options = {...}) {
    const ref = query instanceof Array
        ? Data.ref(query, options.db || window.app.db) : query;
    const [err, snap] = await to(ref.get());
    err ? error(err) : await next(snap);
    (options.listeners || window.app.listeners).push(
      ref.onSnapshot({ next: next, error: error }));
  }
  \<close>
  The reference is named by its path. What \<open>ref.get()\<close> settles with and what the two
  callbacks do, return or throw, are parameters.
\<close>

definition listen :: "string \<Rightarrow> (js_error + 's) \<Rightarrow> ('s \<Rightarrow> js_error + unit)
    \<Rightarrow> (js_error \<Rightarrow> js_error + unit) \<Rightarrow> unit call list \<times> (js_error + unit)" where
  "listen ref got next error =
     (case got of
        Inl err \<Rightarrow>
          (case error err of
             Inl e \<Rightarrow> ([RefGet ref, ErrorCallback err], Inl e)
           | Inr u \<Rightarrow> ([RefGet ref, ErrorCallback err, RefOnSnapshot ref], Inr ()))
      | Inr snap \<Rightarrow>
          (case next snap of
             Inl e \<Rightarrow> ([RefGet ref, NextCallback], Inl e)
           | Inr u \<Rightarrow> ([RefGet ref, NextCallback, RefOnSnapshot ref], Inr ())))"

text \<open>
  \<^verbatim>\<open>
  static async getLocationSupervisor(id) {
    try {
      const doc = await window.app.db.collection('locations').doc(id).get();
      const supervisors = doc.data().supervisors;
      return supervisors[0];
    } catch (e) {
      console.warn('[WARNING] Could not get location (' + id + ') ' +
          'supervisor b/c of ', e);
      window.app.snackbar.view('Could not find location supervisor.');
      window.app.nav.back();
    }
  }
  \<close>
  The read settles with an error or with the document: \<open>None\<close> when it does not exist,
  else its field \<open>supervisors\<close>, \<open>None\<close> when the field is missing; in both cases of
  \<open>None\<close> the second or third statement throws a TypeError, which the handler catches as
  well. The function returns \<open>undefined\<close>, here \<open>None\<close>, after the handler and when the
  list is empty.
\<close>

definition getLocationSupervisor :: "(string \<Rightarrow> js_error + string list option option) \<Rightarrow> string
    \<Rightarrow> unit call list \<times> string option" where
  "getLocationSupervisor location_docs i =
     (case location_docs i of
        Inr (Some (Some supervisors)) \<Rightarrow>
          ([Eff (DbGet ''locations'' i)],
           (case supervisors of [] \<Rightarrow> None | s # ss \<Rightarrow> Some s))
      | _ \<Rightarrow>
          ([Eff (DbGet ''locations'' i),
            Eff (ConsoleWarn (''[WARNING] Could not get location ('' @ i @ '') supervisor b/c of '')),
            Ui (SnackbarView ''Could not find location supervisor.''),
            Ui NavBack],
           None))"

text \<open>
  \<^verbatim>\<open>
  initDismissedCards() {
    this.dismissedCards = [];
    if (window.app.user.type === 'Supervisor') {
      var that = window.app;
      return firebase.firestore().collection('users').doc(window.app.user.email)
        .collection('dismissedCards').get().then((snapshot) => {
          snapshot.forEach((doc) => { this.dismissedCards.push(doc.id); });
        }).catch((err) => {
          console.error('Error while initializing dismissedCards:', err);
        });
    }
  }
  \<close>
  The email of the user is a parameter; the snapshot is the list of the ids of its
  documents. The result is \<open>dismissedCards\<close>.
\<close>

definition initDismissedCards :: "app \<Rightarrow> string \<Rightarrow> (string \<Rightarrow> js_error + string list)
    \<Rightarrow> unit call list \<times> string list" where
  "initDismissedCards a user_email collection_get =
     (if user_type a = ''Supervisor'' then
        (case collection_get (''users/'' @ user_email @ ''/dismissedCards'') of
           Inl err \<Rightarrow>
             ([Eff (DbGetAll (''users/'' @ user_email @ ''/dismissedCards'')),
               Eff (ConsoleError ''Error while initializing dismissedCards:'')],
              [])
         | Inr ids \<Rightarrow>
             ([Eff (DbGetAll (''users/'' @ user_email @ ''/dismissedCards''))],
              foldl (\<lambda>dismissedCards doc_id. dismissedCards @ [doc_id]) [] ids))
      else ([], []))"

text \<open>
  \<^verbatim>\<open>
  // PaidRequestDialog.manage
  paypal.Buttons({
    createOrder: (data, actions) => {
      return actions.order.create({
        purchase_units: [{ amount: { value: that.payment.amount } }]
      }).catch((err) => {
        console.error('Error while creating PayPal order:', err);
        window.app.snackbar.view('Could not add payment. Please ' +
            'ensure that you\'ve selected a valid time range.');
      });
    },
    ...
  })
  \<close>
  What the creation of the order settles with is a parameter; after the handler the
  promise resolves with \<open>undefined\<close>, here \<open>None\<close>.
\<close>

definition createOrder :: "('d \<Rightarrow> js_error + 'o) \<Rightarrow> 'd \<Rightarrow> 'd call list \<times> 'o option" where
  "createOrder order_create amount =
     (case order_create amount of
        Inl err \<Rightarrow>
          ([PayPalOrderCreate amount,
            Eff (ConsoleError ''Error while creating PayPal order:''),
            Ui (SnackbarView (''Could not add payment. Please ensure that you''
                              @ [CHR 0x27] @ ''ve selected a valid time range.''))],
           None)
      | Inr order \<Rightarrow> ([PayPalOrderCreate amount], Some order))"

text \<open>
  An application and a user for examples, and a network that rejects every request.
\<close>

abbreviation supervisor_app :: app where
  "supervisor_app \<equiv>
     \<lparr> functionsURL = ''https://f/'', test = False, user_uid = ''u1'',
       user_id = Some ''u1'', user_type = ''Supervisor'', getIdToken = Inr ''t'',
       location_name = ''Any'', locationNames = [] \<rparr>"

abbreviation proxy_pupil :: user where
  "proxy_pupil \<equiv>
     \<lparr> uid = None, ident = Some ''pupil@example.com'', email = Some ''pupil@example.com'',
       user_name = ''Pupil'', availability = None, location = None, locations = None \<rparr>"

abbreviation offline :: "'d request \<Rightarrow> 'r settled" where
  "offline \<equiv> \<lambda>r. Rejected (Error ''Network Error'')"

section \<open>Properties of the primitives\<close>

lemma array_indexOf_ge: "- 1 \<le> array_indexOf xs x"
  by (induction xs) (auto simp: Let_def)

lemma array_indexOf_neg_iff: "array_indexOf xs x < 0 \<longleftrightarrow> x \<notin> set xs"
proof (induction xs)
  case Nil
  show ?case by simp
next
  case (Cons y ys)
  have "- 1 \<le> array_indexOf ys x" by (rule array_indexOf_ge)
  with Cons show ?case by (auto simp: Let_def)
qed

lemma str_indexOf_ge: "- 1 \<le> str_indexOf s p"
  by (induction s) (auto simp: Let_def)

lemma str_indexOf_neg_iff: "str_indexOf s p < 0 \<longleftrightarrow> \<not> sublist p s"
proof (induction s)
  case Nil
  show ?case by simp
next
  case (Cons c cs)
  have "- 1 \<le> str_indexOf cs p" by (rule str_indexOf_ge)
  with Cons show ?case by (auto simp: Let_def sublist_Cons_right)
qed

lemma str_indexOf_prefix: "prefix p s \<Longrightarrow> str_indexOf s p = 0"
  by (cases s) auto

lemma str_replace_prefix: "str_replace (p @ m) p r = r @ m"
proof (cases "p @ m")
  case Nil
  then show ?thesis by simp
next
  case (Cons c cs)
  have "prefix p (p @ m)" by simp
  moreover have "drop (length p) (p @ m) = m" by simp
  ultimately have "str_replace (c # cs) p r = r @ m"
    unfolding Cons by simp
  with Cons show ?thesis by simp
qed

lemma digit_char_numeral:
  "digit_char 0 = CHR ''0''" "digit_char 1 = CHR ''1''" "digit_char 2 = CHR ''2''"
  "digit_char 3 = CHR ''3''" "digit_char 4 = CHR ''4''" "digit_char 5 = CHR ''5''"
  "digit_char 6 = CHR ''6''" "digit_char 7 = CHR ''7''" "digit_char 8 = CHR ''8''"
  "digit_char 9 = CHR ''9''"
  by code_simp+

lemma digit_val_digit_char: "d < 10 \<Longrightarrow> digit_val (digit_char d) = d"
  by (simp add: digit_val_def digit_char_def)

lemma is_digit_digit_char: "d < 10 \<Longrightarrow> is_digit (digit_char d)"
  by (simp add: is_digit_def digit_char_def)

lemma digits_value_snoc: "digits_value (s @ [c]) = 10 * digits_value s + digit_val c"
  by (simp add: digits_value_def)

lemma digits_value_nat_toString: "digits_value (nat_toString n) = n"
proof (induction n rule: nat_toString.induct)
  case (1 n)
  show ?case
  proof (cases "n < 10")
    case True
    then show ?thesis
      by (simp add: nat_toString.simps [of n] digits_value_def digit_val_digit_char)
  next
    case False
    with 1 have "digits_value (nat_toString (n div 10)) = n div 10" by simp
    with False show ?thesis
      by (simp add: nat_toString.simps [of n] digits_value_snoc digit_val_digit_char)
  qed
qed

lemma all_digits_nat_toString: "list_all is_digit (nat_toString n) \<and> nat_toString n \<noteq> []"
proof (induction n rule: nat_toString.induct)
  case (1 n)
  show ?case
  proof (cases "n < 10")
    case True
    then show ?thesis by (simp add: nat_toString.simps [of n] is_digit_digit_char)
  next
    case False
    with 1 show ?thesis by (simp add: nat_toString.simps [of n] is_digit_digit_char)
  qed
qed

lemma length_nat_toString_small:
  "n < 10 \<Longrightarrow> length (nat_toString n) = 1"
  "10 \<le> n \<Longrightarrow> n < 100 \<Longrightarrow> length (nat_toString n) = 2"
proof -
  show "n < 10 \<Longrightarrow> length (nat_toString n) = 1"
    by (simp add: nat_toString.simps [of n])
  assume "10 \<le> n" "n < 100"
  then have "n div 10 < 10" by simp
  with \<open>10 \<le> n\<close> show "length (nat_toString n) = 2"
    by (simp add: nat_toString.simps [of n] nat_toString.simps [of "n div 10"])
qed

lemma is_digit_not_sep: "is_digit c \<Longrightarrow> c \<noteq> CHR '':'' \<and> c \<noteq> CHR ''.''"
  by (auto simp: is_digit_def)

section \<open>Data.concatArr: results\<close>

lemma set_first_occurrences: "set (first_occurrences xs) = set xs"
  by (induction xs rule: first_occurrences.induct) auto

lemma distinct_first_occurrences: "distinct (first_occurrences xs)"
  by (induction xs rule: first_occurrences.induct) (auto simp: set_first_occurrences)

lemma removeAll_filter_conj: "removeAll x (filter P xs) = filter (\<lambda>y. P y \<and> y \<noteq> x) xs"
  by (induction xs) auto

lemma foldl_concatArr_push:
  "foldl concatArr_push acc xs =
     acc @ first_occurrences (filter (\<lambda>y. y \<noteq> '''' \<and> y \<notin> set acc) xs)"
proof (induction xs arbitrary: acc)
  case Nil
  show ?case by simp
next
  case (Cons x xs)
  show ?case
  proof (cases "x \<noteq> '''' \<and> x \<notin> set acc")
    case True
    then have step: "concatArr_push acc x = acc @ [x]"
      by (simp add: concatArr_push_def array_indexOf_neg_iff)
    have "filter (\<lambda>y. y \<noteq> '''' \<and> y \<notin> set (acc @ [x])) xs
        = removeAll x (filter (\<lambda>y. y \<noteq> '''' \<and> y \<notin> set acc) xs)"
      unfolding removeAll_filter_conj by (rule filter_cong) auto
    then have "foldl concatArr_push (acc @ [x]) xs
        = (acc @ [x]) @ first_occurrences (removeAll x (filter (\<lambda>y. y \<noteq> '''' \<and> y \<notin> set acc) xs))"
      using Cons.IH [of "acc @ [x]"] by simp
    with True step show ?thesis by simp
  next
    case False
    then have step: "concatArr_push acc x = acc"
      by (auto simp: concatArr_push_def array_indexOf_neg_iff)
    from False have "filter (\<lambda>y. y \<noteq> '''' \<and> y \<notin> set acc) (x # xs)
        = filter (\<lambda>y. y \<noteq> '''' \<and> y \<notin> set acc) xs"
      by auto
    with step Cons.IH [of acc] show ?thesis by simp
  qed
qed

lemma first_occurrences_append:
  "first_occurrences (xs @ ys) =
     first_occurrences xs @ first_occurrences (filter (\<lambda>y. y \<notin> set xs) ys)"
proof (induction xs arbitrary: ys rule: first_occurrences.induct)
  case 1
  show ?case by simp
next
  case (2 x xs)
  have f: "filter (\<lambda>y. y \<notin> set (removeAll x xs)) (removeAll x ys) = filter (\<lambda>y. y \<notin> set (x # xs)) ys"
    by (induction ys) auto
  have "first_occurrences ((x # xs) @ ys) = x # first_occurrences (removeAll x xs @ removeAll x ys)"
    by simp
  also have "\<dots> = x # first_occurrences (removeAll x xs)
      @ first_occurrences (filter (\<lambda>y. y \<notin> set (removeAll x xs)) (removeAll x ys))"
    using 2 [of "removeAll x ys"] by simp
  finally show ?case unfolding f by simp
qed

lemma concatArr_eq: "concatArr A B = first_occurrences (filter (\<lambda>y. y \<noteq> '''') (A @ B))"
proof -
  have "filter (\<lambda>y. y \<noteq> [] \<and> y \<notin> set (first_occurrences (filter (\<lambda>y. y \<noteq> []) A))) B
      = filter (\<lambda>y. y \<notin> set (filter (\<lambda>y. y \<noteq> []) A)) (filter (\<lambda>y. y \<noteq> []) B)"
    by (induction B) (auto simp: set_first_occurrences)
  then show ?thesis
    by (simp add: concatArr_def foldl_concatArr_push first_occurrences_append)
qed

text \<open>
  C10. For all string arrays \<open>A\<close> and \<open>B\<close>, \<open>Data.concatArr(A, B)\<close> has no duplicates and
  no empty string, its elements are exactly those of \<open>A\<close> and \<open>B\<close> other than the empty
  string, they stand in the order of their first occurrence in \<open>A\<close> followed by \<open>B\<close>, and
  \<open>concatArr(A, A)\<close> equals \<open>concatArr(A, [])\<close>.
\<close>

theorem concatArr_first_occurrences:
  "distinct (concatArr A B)
   \<and> '''' \<notin> set (concatArr A B)
   \<and> set (concatArr A B) = (set A \<union> set B) - {''''}
   \<and> concatArr A B = first_occurrences (filter (\<lambda>y. y \<noteq> '''') (A @ B))
   \<and> concatArr A A = concatArr A []"
proof -
  have e: "\<And>A B. concatArr A B = first_occurrences (filter (\<lambda>y. y \<noteq> '''') (A @ B))"
    by (rule concatArr_eq)
  have "filter (\<lambda>y. y \<notin> set (filter (\<lambda>y. y \<noteq> []) A)) (filter (\<lambda>y. y \<noteq> []) A) = []"
    by (induction A) auto
  then have "concatArr A A = concatArr A []"
    by (simp add: e first_occurrences_append)
  moreover have "set (concatArr A B) = (set A \<union> set B) - {''''}"
    by (auto simp: e set_first_occurrences)
  ultimately show ?thesis
    by (simp add: e distinct_first_occurrences set_first_occurrences)
qed

section \<open>Snackbar.view: results\<close>

lemma displayed_view:
  "displayed (view pg message label action showClose timeout_arg) =
     (case view_v message label action showClose
             (case timeout_arg of None \<Rightarrow> 5000 | Some t \<Rightarrow> t) of
        Inl e \<Rightarrow> []
      | Inr sb \<Rightarrow> [sb])"
  by (simp add: view_def Let_def split: sum.splits)

text \<open>
  C9, as stated, fails: a caller may supply the timeout \<open>-1\<close> itself (the method's
  documentation allows it), and then a message that does not end with \<open>...\<close> stays open
  for ever too.
\<close>

theorem view_timeout_counterexample:
  "\<not> (map timeoutMs (displayed (view \<lparr> opening_count = 0, open_count = 0 \<rparr> ''Saved''
           None (None :: unit option) None (Some (- 1)))) = [- 1]
        \<longleftrightarrow> endsWith ''Saved'' ''...'')"
  by (simp add: displayed_view view_v_def set_timeoutMs_def endsWith_def suffix_to_prefix)

text \<open>
  C9, amended. When the message ends with \<open>...\<close>, \<open>Snackbar.view\<close> displays one snackbar
  with the timeout \<open>-1\<close>. For every other message it takes the supplied timeout, \<open>5000\<close>
  when none is supplied: when that is \<open>-1\<close> or lies between 4000 and 10000 it displays one
  snackbar with that timeout (with \<open>-1\<close> the snackbar stays open although the message does
  not end with \<open>...\<close>); for any other timeout the setter of the component throws and no
  snackbar is displayed.
\<close>

theorem view_timeoutMs:
  "map timeoutMs (displayed (view pg message label action showClose timeout_arg)) =
     (if endsWith message ''...'' then [- 1]
      else if (case timeout_arg of None \<Rightarrow> 5000 | Some t \<Rightarrow> t) = - 1
              \<or> (4000 \<le> (case timeout_arg of None \<Rightarrow> 5000 | Some t \<Rightarrow> t)
                  \<and> (case timeout_arg of None \<Rightarrow> 5000 | Some t \<Rightarrow> t) \<le> 10000)
           then [case timeout_arg of None \<Rightarrow> 5000 | Some t \<Rightarrow> t]
           else [])"
  by (simp add: displayed_view view_v_def set_timeoutMs_def Let_def)

section \<open>Data.post: results\<close>

lemma post_resolved:
  assumes "getIdToken a = Inr tok" and "net (post_request a tok action dat) = Resolved d"
  shows "snd (post a net action dat) = post_then d"
  using assms by (simp add: post_def Let_def split: sum.splits)

lemma post_then_error_prefix: "post_then (Str (''[ERROR] '' @ m)) = Inl (Error m)"
proof -
  have "str_replace (''[ERROR] '' @ m) ''[ERROR] '' '''' = '''' @ m"
    by (rule str_replace_prefix)
  then show ?thesis by (simp add: post_then_def)
qed

text \<open>
  C3, as stated, fails twice. The response \<open>ERROR\<close> itself is returned, not thrown: the
  test is \<open>indexOf('ERROR') > 0\<close>, and the index there is \<open>0\<close> (the comment above the
  method names \<open>"ERROR"\<close> as the response for known errors). And a string that is not
  the sentinel but holds \<open>ERROR\<close> further on is thrown, not returned.
\<close>

theorem post_sentinel_counterexample:
  "snd (post \<lparr> functionsURL = ''https://f/'', test = False, user_uid = ''u1'',
               user_id = Some ''u1'', user_type = ''Tutor'', getIdToken = Inr ''t'',
               location_name = ''Any'', locationNames = [] \<rparr>
          (\<lambda>r. Resolved (Str ''ERROR'')) ''clockIn'' (None :: (string \<times> unit) list option))
     = (Inr (Str ''ERROR'') :: js_error + unit body)
   \<and> snd (post \<lparr> functionsURL = ''https://f/'', test = False, user_uid = ''u1'',
               user_id = Some ''u1'', user_type = ''Tutor'', getIdToken = Inr ''t'',
               location_name = ''Any'', locationNames = [] \<rparr>
          (\<lambda>r. Resolved (Str ''No ERROR'')) ''clockIn'' (None :: (string \<times> unit) list option))
     = (Inl (Error ''No ERROR'') :: js_error + unit body)"
  by (simp add: post_def post_then_def Let_def)

text \<open>
  C3, amended. Once the ID token is obtained and the request resolves: a string
  response that begins with \<open>[ERROR] \<close> makes \<open>Data.post\<close> throw an Error whose message is
  the response without that prefix; more generally every string response with \<open>ERROR\<close>
  at an index above \<open>0\<close> makes it throw an Error whose message is the response with the
  first \<open>[ERROR] \<close> removed; every response that is not a string, and every string in
  which \<open>ERROR\<close> does not occur, is returned unchanged. (Nothing is said of a string
  that begins with \<open>ERROR\<close>.)
\<close>

theorem post_error_string:
  assumes "getIdToken a = Inr tok" and "net (post_request a tok action dat) = Resolved d"
  shows "(\<forall>m. d = Str (''[ERROR] '' @ m) \<longrightarrow> snd (post a net action dat) = Inl (Error m))
       \<and> (\<forall>s. d = Str s \<and> 0 < str_indexOf s ''ERROR'' \<longrightarrow>
              snd (post a net action dat) = Inl (Error (str_replace s ''[ERROR] '' '''')))
       \<and> ((\<forall>s. d = Str s \<longrightarrow> \<not> sublist ''ERROR'' s) \<longrightarrow> snd (post a net action dat) = Inr d)"
proof -
  have p: "snd (post a net action dat) = post_then d"
    using assms by (rule post_resolved)
  have "\<forall>m. d = Str (''[ERROR] '' @ m) \<longrightarrow> post_then d = Inl (Error m)"
    using post_then_error_prefix by blast
  moreover have "\<forall>s. d = Str s \<and> 0 < str_indexOf s ''ERROR'' \<longrightarrow>
      post_then d = Inl (Error (str_replace s ''[ERROR] '' ''''))"
    by (simp add: post_then_def)
  moreover have "(\<forall>s. d = Str s \<longrightarrow> \<not> sublist ''ERROR'' s) \<longrightarrow> post_then d = Inr d"
  proof (cases d)
    case (Str s)
    have "\<not> sublist ''ERROR'' s \<Longrightarrow> \<not> 0 < str_indexOf s ''ERROR''"
      using str_indexOf_neg_iff [of s "''ERROR''"] by simp
    with Str show ?thesis by (auto simp: post_then_def)
  next
    case (NonStr x)
    then show ?thesis by (simp add: post_then_def)
  qed
  ultimately show ?thesis unfolding p by blast
qed

theorem post_error_string_witness:
  "snd (post \<lparr> functionsURL = ''https://f/'', test = False, user_uid = ''u1'',
               user_id = Some ''u1'', user_type = ''Tutor'', getIdToken = Inr ''t'',
               location_name = ''Any'', locationNames = [] \<rparr>
          (\<lambda>r. Resolved (Str ''[ERROR] No such appointment.'')) ''clockIn''
          (None :: (string \<times> unit) list option))
     = (Inl (Error ''No such appointment.'') :: js_error + unit body)
   \<and> snd (post \<lparr> functionsURL = ''https://f/'', test = False, user_uid = ''u1'',
               user_id = Some ''u1'', user_type = ''Tutor'', getIdToken = Inr ''t'',
               location_name = ''Any'', locationNames = [] \<rparr>
          (\<lambda>r. Resolved (Str ''SUCCESS'')) ''clockIn'' (None :: (string \<times> unit) list option))
     = (Inr (Str ''SUCCESS'') :: js_error + unit body)"
proof -
  let ?a = "\<lparr> functionsURL = ''https://f/'', test = False, user_uid = ''u1'',
               user_id = Some ''u1'', user_type = ''Tutor'', getIdToken = Inr ''t'',
               location_name = ''Any'', locationNames = [] \<rparr>"
  let ?dat = "None :: (string \<times> unit) list option"
  let ?e = "Str ''[ERROR] No such appointment.'' :: unit body"
  let ?s = "Str ''SUCCESS'' :: unit body"
  have s: "\<not> sublist ''ERROR'' ''SUCCESS''"
    using str_indexOf_neg_iff [of "''SUCCESS''" "''ERROR''"] by simp
  have "snd (post ?a (\<lambda>r. Resolved ?e) ''clockIn'' ?dat) = Inl (Error ''No such appointment.'')"
    using post_error_string [where a = ?a and tok = "''t''" and action = "''clockIn''"
        and dat = ?dat and net = "\<lambda>r. Resolved ?e" and d = ?e]
    by simp
  moreover have "snd (post ?a (\<lambda>r. Resolved ?s) ''clockIn'' ?dat) = Inr ?s"
    using s post_error_string [where a = ?a and tok = "''t''" and action = "''clockIn''"
        and dat = ?dat and net = "\<lambda>r. Resolved ?s" and d = ?s]
    by simp
  ultimately show ?thesis by simp
qed

section \<open>The wrappers of Data.post: results\<close>

lemma requests_post:
  assumes "getIdToken a = Inr tok"
  shows "requests (fst (post a net action dat)) = [post_request a tok action dat]"
proof (cases "net (post_request a tok action dat)")
  case (Rejected e)
  with assms show ?thesis by (simp add: post_def Let_def)
next
  case (Resolved d)
  with assms show ?thesis
    by (cases "post_then d") (simp_all add: post_def Let_def)
qed

lemma post_token_rejected:
  "getIdToken a = Inl e \<Longrightarrow> post a net action dat = ([], Inl e)"
  by (simp add: post_def)

text \<open>
  C6, as stated, fails: the ID token is fetched while the request is built, and when that
  fetch is rejected the wrapper issues no request at all.
\<close>

theorem wrappers_token_rejected_counterexample:
  "requests (fst (clockIn
      \<lparr> functionsURL = ''https://f/'', test = True, user_uid = ''u1'',
        user_id = Some ''u1'', user_type = ''Tutor'',
        getIdToken = Inl (Error ''auth/network-request-failed''),
        location_name = ''Any'', locationNames = [] \<rparr>
      (\<lambda>r. Resolved (Str ''SUCCESS'') :: unit settled) ''appt-1'' ''id-1'' ''proof-1'')) = []"
  by (simp add: clockIn_def post_def)

text \<open>
  C6, amended. Every wrapper for payments, clock-ins and clock-outs, appointments,
  requests and time requests (all 26 of them) does the following. When the ID token of the
  current user is obtained it issues exactly one request: a POST to the functions URL
  followed by \<open>data\<close>, with the query parameters \<open>test\<close>, \<open>user\<close>, \<open>action\<close> (the wrapper's own
  name) and \<open>token\<close>, and with the wrapper's arguments under their keys in the payload
  (\<open>requestPayout\<close> has no argument and no payload). When fetching the ID token is rejected
  it issues no request and rejects with the error of the fetch.
\<close>

theorem wrappers_issue_one_post:
  "(getIdToken a = Inr tok \<longrightarrow>
       (post_request a tok action dat =
           \<lparr> method = ''post'', url = functionsURL a @ ''data'',
             params = [(''test'', PBool (test a)), (''user'', PStr (user_uid a)),
                       (''action'', PStr action), (''token'', PStr tok)],
             data = dat \<rparr>)
       \<and> requests (fst (requestPayout a net)) =
             [post_request a tok ''requestPayout'' None]
       \<and> requests (fst (requestPaymentFor a net appt i)) =
             [post_request a tok ''requestPaymentFor'' (Some [(''appt'', appt), (''id'', i)])]
       \<and> requests (fst (approvePayment a net approvedPayment i)) =
             [post_request a tok ''approvePayment'' (Some [(''approvedPayment'', approvedPayment), (''id'', i)])]
       \<and> requests (fst (denyPayment a net deniedPayment i)) =
             [post_request a tok ''denyPayment'' (Some [(''deniedPayment'', deniedPayment), (''id'', i)])]
       \<and> requests (fst (rejectClockIn a net clockInArg i)) =
             [post_request a tok ''rejectClockIn'' (Some [(''clockIn'', clockInArg), (''id'', i)])]
       \<and> requests (fst (approveClockIn a net clockInArg i)) =
             [post_request a tok ''approveClockIn'' (Some [(''clockIn'', clockInArg), (''id'', i)])]
       \<and> requests (fst (rejectClockOut a net clockOutArg i)) =
             [post_request a tok ''rejectClockOut'' (Some [(''clockOut'', clockOutArg), (''id'', i)])]
       \<and> requests (fst (approveClockOut a net clockOutArg i)) =
             [post_request a tok ''approveClockOut'' (Some [(''clockOut'', clockOutArg), (''id'', i)])]
       \<and> requests (fst (instantClockIn a net appt i)) =
             [post_request a tok ''instantClockIn'' (Some [(''appt'', appt), (''id'', i)])]
       \<and> requests (fst (instantClockOut a net appt i)) =
             [post_request a tok ''instantClockOut'' (Some [(''appt'', appt), (''id'', i)])]
       \<and> requests (fst (clockIn a net appt i proofArg)) =
             [post_request a tok ''clockIn'' (Some [(''appt'', appt), (''id'', i), (''proof'', proofArg)])]
       \<and> requests (fst (clockOut a net appt i proofArg)) =
             [post_request a tok ''clockOut'' (Some [(''appt'', appt), (''id'', i), (''proof'', proofArg)])]
       \<and> requests (fst (approveRequest a net request i)) =
             [post_request a tok ''approveRequest'' (Some [(''request'', request), (''id'', i)])]
       \<and> requests (fst (modifyAppt a net appt i)) =
             [post_request a tok ''modifyAppt'' (Some [(''appt'', appt), (''id'', i)])]
       \<and> requests (fst (newPastAppt a net appt)) =
             [post_request a tok ''newPastAppt'' (Some [(''appt'', appt)])]
       \<and> requests (fst (modifyPastAppt a net appt i)) =
             [post_request a tok ''modifyPastAppt'' (Some [(''appt'', appt), (''id'', i)])]
       \<and> requests (fst (deletePastAppt a net appt i)) =
             [post_request a tok ''deletePastAppt'' (Some [(''appt'', appt), (''id'', i)])]
       \<and> requests (fst (cancelAppt a net appt i)) =
             [post_request a tok ''cancelAppt'' (Some [(''appt'', appt), (''id'', i)])]
       \<and> requests (fst (rejectRequest a net request i)) =
             [post_request a tok ''rejectRequest'' (Some [(''request'', request), (''id'', i)])]
       \<and> requests (fst (cancelRequest a net request i)) =
             [post_request a tok ''cancelRequest'' (Some [(''request'', request), (''id'', i)])]
       \<and> requests (fst (modifyRequest a net request i)) =
             [post_request a tok ''modifyRequest'' (Some [(''request'', request), (''id'', i)])]
       \<and> requests (fst (newRequest a net request payment)) =
             [post_request a tok ''newRequest'' (Some [(''request'', request), (''payment'', payment)])]
       \<and> requests (fst (newTimeRequest a net request)) =
             [post_request a tok ''newTimeRequest'' (Some [(''request'', request)])]
       \<and> requests (fst (rejectTimeRequest a net request i)) =
             [post_request a tok ''rejectTimeRequest'' (Some [(''request'', request), (''id'', i)])]
       \<and> requests (fst (modifyTimeRequest a net request i)) =
             [post_request a tok ''modifyTimeRequest'' (Some [(''request'', request), (''id'', i)])]
       \<and> requests (fst (approveTimeRequest a net request i)) =
             [post_request a tok ''approveTimeRequest'' (Some [(''request'', request), (''id'', i)])])
   \<and> (getIdToken a = Inl e \<longrightarrow>
       requestPayout a net = ([], Inl e)
       \<and> requestPaymentFor a net appt i = ([], Inl e)
       \<and> approvePayment a net approvedPayment i = ([], Inl e)
       \<and> denyPayment a net deniedPayment i = ([], Inl e)
       \<and> rejectClockIn a net clockInArg i = ([], Inl e)
       \<and> approveClockIn a net clockInArg i = ([], Inl e)
       \<and> rejectClockOut a net clockOutArg i = ([], Inl e)
       \<and> approveClockOut a net clockOutArg i = ([], Inl e)
       \<and> instantClockIn a net appt i = ([], Inl e)
       \<and> instantClockOut a net appt i = ([], Inl e)
       \<and> clockIn a net appt i proofArg = ([], Inl e)
       \<and> clockOut a net appt i proofArg = ([], Inl e)
       \<and> approveRequest a net request i = ([], Inl e)
       \<and> modifyAppt a net appt i = ([], Inl e)
       \<and> newPastAppt a net appt = ([], Inl e)
       \<and> modifyPastAppt a net appt i = ([], Inl e)
       \<and> deletePastAppt a net appt i = ([], Inl e)
       \<and> cancelAppt a net appt i = ([], Inl e)
       \<and> rejectRequest a net request i = ([], Inl e)
       \<and> cancelRequest a net request i = ([], Inl e)
       \<and> modifyRequest a net request i = ([], Inl e)
       \<and> newRequest a net request payment = ([], Inl e)
       \<and> newTimeRequest a net request = ([], Inl e)
       \<and> rejectTimeRequest a net request i = ([], Inl e)
       \<and> modifyTimeRequest a net request i = ([], Inl e)
       \<and> approveTimeRequest a net request i = ([], Inl e))"
  unfolding requestPayout_def requestPaymentFor_def approvePayment_def denyPayment_def
    rejectClockIn_def approveClockIn_def rejectClockOut_def approveClockOut_def
    instantClockIn_def instantClockOut_def clockIn_def clockOut_def approveRequest_def
    modifyAppt_def newPastAppt_def modifyPastAppt_def deletePastAppt_def cancelAppt_def
    rejectRequest_def cancelRequest_def modifyRequest_def newRequest_def newTimeRequest_def
    rejectTimeRequest_def modifyTimeRequest_def approveTimeRequest_def
  by (simp add: requests_post post_token_rejected post_request_def)

theorem wrappers_issue_one_post_witness:
  "requests (fst (clockIn
      \<lparr> functionsURL = ''https://f/'', test = True, user_uid = ''u1'',
        user_id = Some ''u1'', user_type = ''Tutor'', getIdToken = Inr ''t'',
        location_name = ''Any'', locationNames = [] \<rparr>
      (\<lambda>r. Resolved (Str ''SUCCESS'') :: unit settled) ''appt-1'' ''id-1'' ''proof-1''))
   = [\<lparr> method = ''post'', url = ''https://f/data'',
        params = [(''test'', PBool True), (''user'', PStr ''u1''),
                  (''action'', PStr ''clockIn''), (''token'', PStr ''t'')],
        data = Some [(''appt'', ''appt-1''), (''id'', ''id-1''), (''proof'', ''proof-1'')] \<rparr>]
   \<and> clockIn
      \<lparr> functionsURL = ''https://f/'', test = True, user_uid = ''u1'',
        user_id = Some ''u1'', user_type = ''Tutor'',
        getIdToken = Inl (Error ''auth/network-request-failed''),
        location_name = ''Any'', locationNames = [] \<rparr>
      (\<lambda>r. Resolved (Str ''SUCCESS'') :: unit settled) ''appt-1'' ''id-1'' ''proof-1''
     = ([], Inl (Error ''auth/network-request-failed''))"
proof -
  let ?a = "\<lparr> functionsURL = ''https://f/'', test = True, user_uid = ''u1'',
        user_id = Some ''u1'', user_type = ''Tutor'', getIdToken = Inr ''t'',
        location_name = ''Any'', locationNames = [] \<rparr>"
  let ?b = "\<lparr> functionsURL = ''https://f/'', test = True, user_uid = ''u1'',
        user_id = Some ''u1'', user_type = ''Tutor'',
        getIdToken = Inl (Error ''auth/network-request-failed''),
        location_name = ''Any'', locationNames = [] \<rparr>"
  let ?net = "(\<lambda>r. Resolved (Str ''SUCCESS'') :: unit settled)"
  have t: "getIdToken ?a = Inr ''t''" by simp
  have f: "getIdToken ?b = Inl (Error ''auth/network-request-failed'')" by simp
  have ok: "requests (fst (clockIn ?a ?net ''appt-1'' ''id-1'' ''proof-1'')) =
      [post_request ?a ''t'' ''clockIn''
         (Some [(''appt'', ''appt-1''), (''id'', ''id-1''), (''proof'', ''proof-1'')])]"
    using wrappers_issue_one_post [where a = ?a and tok = "''t''" and net = ?net
        and e = "Error ''none''" and action = "''clockIn''" and dat = None
        and appt = "''appt-1''" and i = "''id-1''" and proofArg = "''proof-1''"
        and request = "''request-1''" and payment = "''payment-1''"
        and approvedPayment = "''payment-1''" and deniedPayment = "''payment-1''"
        and clockInArg = "''clockIn-1''" and clockOutArg = "''clockOut-1''"] t
    by blast
  have bad: "clockIn ?b ?net ''appt-1'' ''id-1'' ''proof-1''
      = ([], Inl (Error ''auth/network-request-failed''))"
    using wrappers_issue_one_post [where a = ?b and tok = "''t''" and net = ?net
        and e = "Error ''auth/network-request-failed''" and action = "''clockIn''" and dat = None
        and appt = "''appt-1''" and i = "''id-1''" and proofArg = "''proof-1''"
        and request = "''request-1''" and payment = "''payment-1''"
        and approvedPayment = "''payment-1''" and deniedPayment = "''payment-1''"
        and clockInArg = "''clockIn-1''" and clockOutArg = "''clockOut-1''"] f
    by blast
  from ok bad show ?thesis by (simp add: post_request_def)
qed

section \<open>Failed requests: who retries\<close>

lemma post_rejected:
  assumes "getIdToken a = Inr tok" and "net (post_request a tok action dat) = Rejected e"
  shows "post a net action dat =
           ([Http (post_request a tok action dat),
             ConsoleError (''[ERROR] During '' @ action @ '' REST API call.'')], Inl e)"
  using assms by (simp add: post_def Let_def)

lemma requests_post_le: "length (requests (fst (post a net action dat))) \<le> 1"
proof (cases "getIdToken a")
  case (Inl e)
  then show ?thesis by (simp add: post_def)
next
  case (Inr tok)
  then show ?thesis by (simp add: requests_post)
qed

lemma requests_post_pair_le:
  "post a net action dat = (es, r) \<Longrightarrow> length (requests es) \<le> Suc 0"
  using requests_post_le [of a net action dat] by simp

lemma requests_createUser_le: "length (requests (fst (createUser a net u))) \<le> 1"
  by (auto simp: createUser_def createUser_without_uid_def split: option.splits prod.splits sum.splits
      intro: requests_post_pair_le)

lemma http_requests_map_Eff:
  "http_requests (map Eff es @ cs) = requests es @ http_requests cs"
  "http_requests (map Eff es) = requests es"
  by (induction es rule: requests.induct) simp_all

lemmas callers_defs = getServiceHoursLog_def getPDFBackup_def Config_deleteLocation_def
  deleteLocation_def ViewRequestDialog_approve_def EditRequestDialog_modifyRequest_def
  NewRequestDialog_sendRequest_def EditApptDialog_ok_def ViewApptDialog_requestPayment_def
  ViewApptDialog_clockIn_def ViewApptDialog_clockOut_def after_nav_back_def approveRequest_def
  modifyRequest_def newRequest_def modifyAppt_def requestPaymentFor_def clockIn_def clockOut_def
  getLocationSupervisor_def initDismissedCards_def createOrder_def listen_def

lemma getAccountURL_rounds:
  "\<forall>k<n. \<exists>err. net (k0 + k) (accountURL_request a) = Rejected err \<Longrightarrow>
   \<exists>rest. fst (getAccountURL n a net k0) =
     concat (replicate n
       [Http (accountURL_request a),
        ConsoleError ''Error while fetching new Stripe Connect Account url:'',
        Timer 5000])
     @ Http (accountURL_request a) # rest"
proof (induction n arbitrary: k0)
  case 0
  show ?case
    by (cases "net k0 (accountURL_request a)") simp_all
next
  case (Suc n)
  from Suc.prems have "\<exists>err. net (k0 + 0) (accountURL_request a) = Rejected err" by blast
  then obtain err where e: "net k0 (accountURL_request a) = Rejected err" by auto
  have "\<forall>k<n. \<exists>err. net (Suc k0 + k) (accountURL_request a) = Rejected err"
  proof (intro allI impI)
    fix k assume "k < n"
    then have "Suc k < Suc n" by simp
    with Suc.prems have "\<exists>err. net (k0 + Suc k) (accountURL_request a) = Rejected err" by blast
    then show "\<exists>err. net (Suc k0 + k) (accountURL_request a) = Rejected err" by simp
  qed
  then obtain rest where "fst (getAccountURL n a net (Suc k0)) =
     concat (replicate n
       [Http (accountURL_request a),
        ConsoleError ''Error while fetching new Stripe Connect Account url:'',
        Timer 5000])
     @ Http (accountURL_request a) # rest"
    using Suc.IH by blast
  with e show ?case
    by (simp add: split_beta)
qed

text \<open>
  C5, as stated, fails: when the request for the account URL fails, the failure handler
  of \<open>getAccountURL\<close> sets a timer of 5000 ms whose callback issues the request again,
  with no action of the user in between.
\<close>

theorem getAccountURL_retry_counterexample:
  "fst (getAccountURL 1
          \<lparr> functionsURL = ''https://f/'', test = False, user_uid = ''u1'',
            user_id = Some ''u1'', user_type = ''Tutor'', getIdToken = Inr ''t'',
            location_name = ''Any'', locationNames = [] \<rparr>
          (\<lambda>k r. if k = 0 then Rejected (Error ''Network Error'')
                  else Resolved (NonStr (Some ''https://connect.stripe.com/express/x'')))
          0)
   = [Http \<lparr> method = ''get'', url = ''https://f//accountURL'',
             params = [(''id'', PStr ''u1'')], data = None \<rparr>,
      ConsoleError ''Error while fetching new Stripe Connect Account url:'',
      Timer 5000,
      Http \<lparr> method = ''get'', url = ''https://f//accountURL'',
             params = [(''id'', PStr ''u1'')], data = None \<rparr>]"
  by (simp add: accountURL_request_def numeral_eq_Suc)

text \<open>
  C5, amended. \<open>getAccountURL\<close> of \<open>Payments.initStripe\<close> retries by itself: after every
  rejected request it logs the error and sets a timer of 5000 ms that issues the request
  again, so that \<open>n\<close> rejections in a row give \<open>n\<close> rounds of request, log and timer and
  then request number \<open>n + 1\<close>. No other code that calls the REST layer does:

  \<^item> \<open>Data.post\<close>, and with it every wrapper, issues at most one request, exactly one once
    the ID token is obtained, and when the request is rejected it logs the error and
    rethrows it; \<open>getServiceHoursLog\<close> and \<open>getPDFBackup\<close> issue at most one request and
    reject with its error; \<open>createUser\<close> issues at most one request.
  \<^item> The callers of the wrappers (approving, modifying and sending a request, modifying
    an appointment, requesting a payment, clocking in and out, deleting a location)
    issue at most one request whatever happens. When it is rejected, those that await
    the wrapper without a handler reject and do nothing more, and those that take the
    error with \<open>to\<close> display one notification.

  The calls of the database and of PayPal that have a failure handler are not repeated
  either: \<open>getLocationSupervisor\<close> warns, notifies and navigates back,
  \<open>initDismissedCards\<close> and the creation of a PayPal order log the error (the latter
  notifies too). \<open>Data.listen\<close>, whose first read failed, calls the error callback and
  then subscribes to the same reference, as it does after a read that succeeded.
\<close>

theorem callers_do_not_retry_getAccountURL_does:
  "(getIdToken a = Inr tok \<longrightarrow>
          requests (fst (post a net action dat)) = [post_request a tok action dat])
     \<and> (getIdToken a = Inr tok \<and> net (post_request a tok action dat)
         = Rejected e \<longrightarrow>
          post a net action dat =
            ([Http (post_request a tok action dat),
              ConsoleError (''[ERROR] During '' @ action @ '' REST API call.'')], Inl e))
     \<and> (getIdToken a = Inr tok \<and> net (serviceHoursLog_request a location_id tok ps) = Rejected e \<longrightarrow>
          getServiceHoursLog a location_id net ps =
            ([Blob (serviceHoursLog_request a location_id tok ps)], Inl e))
     \<and> (getIdToken a = Inr tok \<and> net (PDFBackup_request a location_id tok ps)
         = Rejected e \<longrightarrow>
          getPDFBackup a location_id net ps =
            ([Blob (PDFBackup_request a location_id tok ps)], Inl e))
     \<and> length (requests (fst (post a net action dat))) \<le> 1
     \<and> length (requests (fst (createUser a netu u))) \<le> 1
     \<and> length (http_requests (fst (getServiceHoursLog a location_id net ps))) \<le> 1
     \<and> length (http_requests (fst (getPDFBackup a location_id net ps))) \<le> 1
     \<and> length (http_requests (fst (Config_deleteLocation a net doc_id))) \<le> 1
     \<and> length (http_requests (fst (ViewRequestDialog_approve a neto request i))) \<le> 1
     \<and> length (http_requests (fst (EditRequestDialog_modifyRequest a neto request i))) \<le> 1
     \<and> length (http_requests (fst (NewRequestDialog_sendRequest a neto request payment
         address))) \<le> 1
     \<and> length (http_requests (fst (EditApptDialog_ok a neto appt i))) \<le> 1
     \<and> length (http_requests (fst (ViewApptDialog_requestPayment a neto appt i address))) \<le> 1
     \<and> length (http_requests (fst (ViewApptDialog_clockIn a neto appt i))) \<le> 1
     \<and> length (http_requests (fst (ViewApptDialog_clockOut a neto appt i))) \<le> 1
     \<and> (getIdToken a = Inr tok \<and> neto (post_request a tok ''approveRequest''
         (Some [(''request'', Some request), (''id'', Some i)])) = Rejected e \<longrightarrow>
          ViewRequestDialog_approve a neto request i =
            ([Ui NavBack,
                Eff (Http (post_request a tok ''approveRequest''
                    (Some [(''request'', Some request), (''id'', Some i)]))),
                Eff (ConsoleError ''[ERROR] During approveRequest REST API call.'')], Inl e))
     \<and> (getIdToken a = Inr tok \<and> neto (post_request a tok ''modifyRequest''
         (Some [(''request'', Some request), (''id'', Some i)])) = Rejected e \<longrightarrow>
          EditRequestDialog_modifyRequest a neto request i =
            ([Ui NavBack,
                Eff (Http (post_request a tok ''modifyRequest''
                    (Some [(''request'', Some request), (''id'', Some i)]))),
                Eff (ConsoleError ''[ERROR] During modifyRequest REST API call.'')], Inl e))
     \<and> (getIdToken a = Inr tok \<and> neto (post_request a tok ''newRequest''
         (Some [(''request'', Some request), (''payment'', payment)])) = Rejected e \<longrightarrow>
          NewRequestDialog_sendRequest a neto request payment address =
            ([Ui NavBack,
                Eff (Http (post_request a tok ''newRequest''
                    (Some [(''request'', Some request), (''payment'', payment)]))),
                Eff (ConsoleError ''[ERROR] During newRequest REST API call.'')], Inl e))
     \<and> (getIdToken a = Inr tok \<and> neto (post_request a tok ''modifyAppt''
         (Some [(''appt'', Some appt), (''id'', Some i)])) = Rejected e \<longrightarrow>
          EditApptDialog_ok a neto appt i =
            ([Ui NavBack,
                Eff (Http (post_request a tok ''modifyAppt''
                    (Some [(''appt'', Some appt), (''id'', Some i)]))),
                Eff (ConsoleError ''[ERROR] During modifyAppt REST API call.'')], Inl e))
     \<and> (getIdToken a = Inr tok \<and> neto (post_request a tok ''requestPaymentFor''
         (Some [(''appt'', Some appt), (''id'', Some i)])) = Rejected e \<longrightarrow>
          ViewApptDialog_requestPayment a neto appt i address =
            ([Eff (Http (post_request a tok ''requestPaymentFor''
                (Some [(''appt'', Some appt), (''id'', Some i)]))),
                Eff (ConsoleError ''[ERROR] During requestPaymentFor REST API call.''),
                Ui (SnackbarView (''Could not send payment request. Please ensure this isn''
                                   @ [CHR 0x27] @ ''t a duplicate request.''))], Inr ()))
     \<and> (getIdToken a = Inr tok \<and> neto (post_request a tok ''clockIn''
         (Some [(''appt'', Some appt), (''id'', Some i), (''proof'', None)]))
             = Rejected e \<longrightarrow>
          ViewApptDialog_clockIn a neto appt i =
            ([Ui (SetInterval 10),
                Eff (Http (post_request a tok ''clockIn'' (Some [(''appt'', Some appt),
                    (''id'', Some i), (''proof'', None)]))),
                Eff (ConsoleError ''[ERROR] During clockIn REST API call.'')], Inl e))
     \<and> (getIdToken a = Inr tok \<and> neto (post_request a tok ''clockOut''
         (Some [(''appt'', Some appt), (''id'', Some i), (''proof'', None)]))
             = Rejected e \<longrightarrow>
          ViewApptDialog_clockOut a neto appt i =
            ([Ui ClearInterval,
                Eff (Http (post_request a tok ''clockOut'' (Some [(''appt'', Some appt),
                    (''id'', Some i), (''proof'', None)]))),
                Eff (ConsoleError ''[ERROR] During clockOut REST API call.'')], Inl e))
     \<and> (getIdToken a = Inr tok \<and> net (post_request a tok ''deleteLocation''
         (Some [(''id'', doc_id)])) = Rejected e \<longrightarrow>
          Config_deleteLocation a net doc_id =
            ([Ui (SnackbarView ''Deleting location...''),
              Eff (Http (post_request a tok ''deleteLocation'' (Some [(''id'', doc_id)]))),
              Eff (ConsoleError ''[ERROR] During deleteLocation REST API call.''),
              Ui (SnackbarView ''Could not delete location.'')], Inr ()))
     \<and> (location_docs loc = Inl e \<longrightarrow>
          getLocationSupervisor location_docs loc =
            ([Eff (DbGet ''locations'' loc),
              Eff (ConsoleWarn (''[WARNING] Could not get location ('' @ loc @ '') supervisor b/c of '')),
              Ui (SnackbarView ''Could not find location supervisor.''),
              Ui NavBack], None))
     \<and> (user_type a = ''Supervisor'' \<and> collection_get (''users/'' @
         address @ ''/dismissedCards'') = Inl e \<longrightarrow>
          initDismissedCards a address collection_get =
            ([Eff (DbGetAll (''users/'' @ address @ ''/dismissedCards'')),
              Eff (ConsoleError ''Error while initializing dismissedCards:'')], []))
     \<and> (order_create amount = Inl e \<longrightarrow>
          createOrder order_create amount =
            ([PayPalOrderCreate amount,
              Eff (ConsoleError ''Error while creating PayPal order:''),
              Ui (SnackbarView (''Could not add payment. Please ensure that you''
                                @ [CHR 0x27] @ ''ve selected a valid time range.''))], None))
     \<and> (error_cb e = Inr () \<longrightarrow>
          listen ref (Inl e) next_cb error_cb =
            ([RefGet ref, ErrorCallback e, RefOnSnapshot ref], Inr ()))
     \<and> ((\<forall>k<n. \<exists>err. netk k (accountURL_request a)
         = Rejected err) \<longrightarrow>
          (\<exists>rest. fst (getAccountURL n a netk 0) =
              concat (replicate n
                [Http (accountURL_request a),
                 ConsoleError ''Error while fetching new Stripe Connect Account url:'',
                 Timer 5000])
              @ Http (accountURL_request a) # rest))"
proof -
  have c1: "(getIdToken a = Inr tok \<longrightarrow>
          requests (fst (post a net action dat)) = [post_request a tok action dat])"
    by (simp add: requests_post)
  have c2: "(getIdToken a = Inr tok \<and> net (post_request a tok action dat)
      = Rejected e \<longrightarrow>
          post a net action dat =
            ([Http (post_request a tok action dat),
              ConsoleError (''[ERROR] During '' @ action @ '' REST API call.'')], Inl e))"
    by (simp add: post_rejected)
  have c3: "(getIdToken a = Inr tok \<and> net (serviceHoursLog_request a location_id tok ps) = Rejected e \<longrightarrow>
          getServiceHoursLog a location_id net ps =
            ([Blob (serviceHoursLog_request a location_id tok ps)], Inl e))"
    by (simp add: callers_defs post_rejected)
  have c4: "(getIdToken a = Inr tok \<and> net (PDFBackup_request a location_id tok ps)
      = Rejected e \<longrightarrow>
          getPDFBackup a location_id net ps =
            ([Blob (PDFBackup_request a location_id tok ps)], Inl e))"
    by (simp add: callers_defs post_rejected)
  have c5: "length (requests (fst (post a net action dat))) \<le> 1"
    by (rule requests_post_le)
  have c6: "length (requests (fst (createUser a netu u))) \<le> 1"
    by (rule requests_createUser_le)
  have c7: "length (http_requests (fst (getServiceHoursLog a location_id net ps))) \<le> 1"
    by (auto simp: callers_defs http_requests_map_Eff split: prod.splits sum.splits settled.splits
        intro: requests_post_pair_le)
  have c8: "length (http_requests (fst (getPDFBackup a location_id net ps))) \<le> 1"
    by (auto simp: callers_defs http_requests_map_Eff split: prod.splits sum.splits settled.splits
        intro: requests_post_pair_le)
  have c9: "length (http_requests (fst (Config_deleteLocation a net doc_id))) \<le> 1"
    by (auto simp: callers_defs http_requests_map_Eff split: prod.splits sum.splits settled.splits
        intro: requests_post_pair_le)
  have c10: "length (http_requests (fst (ViewRequestDialog_approve a neto request i))) \<le> 1"
    by (auto simp: callers_defs http_requests_map_Eff split: prod.splits sum.splits settled.splits
        intro: requests_post_pair_le)
  have c11: "length (http_requests (fst (EditRequestDialog_modifyRequest a neto request i)))
      \<le> 1"
    by (auto simp: callers_defs http_requests_map_Eff split: prod.splits sum.splits settled.splits
        intro: requests_post_pair_le)
  have c12: "length (http_requests (fst (NewRequestDialog_sendRequest a neto request payment
      address))) \<le> 1"
    by (auto simp: callers_defs http_requests_map_Eff split: prod.splits sum.splits settled.splits
        intro: requests_post_pair_le)
  have c13: "length (http_requests (fst (EditApptDialog_ok a neto appt i))) \<le> 1"
    by (auto simp: callers_defs http_requests_map_Eff split: prod.splits sum.splits settled.splits
        intro: requests_post_pair_le)
  have c14: "length (http_requests (fst (ViewApptDialog_requestPayment a neto appt i
      address))) \<le> 1"
    by (auto simp: callers_defs http_requests_map_Eff split: prod.splits sum.splits settled.splits
        intro: requests_post_pair_le)
  have c15: "length (http_requests (fst (ViewApptDialog_clockIn a neto appt i))) \<le> 1"
    by (auto simp: callers_defs http_requests_map_Eff split: prod.splits sum.splits settled.splits
        intro: requests_post_pair_le)
  have c16: "length (http_requests (fst (ViewApptDialog_clockOut a neto appt i))) \<le> 1"
    by (auto simp: callers_defs http_requests_map_Eff split: prod.splits sum.splits settled.splits
        intro: requests_post_pair_le)
  have c17: "(getIdToken a = Inr tok \<and> neto (post_request a tok ''approveRequest''
      (Some [(''request'', Some request), (''id'', Some i)])) = Rejected e \<longrightarrow>
          ViewRequestDialog_approve a neto request i =
            ([Ui NavBack,
                Eff (Http (post_request a tok ''approveRequest''
                    (Some [(''request'', Some request), (''id'', Some i)]))),
                Eff (ConsoleError ''[ERROR] During approveRequest REST API call.'')], Inl e))"
    by (simp add: callers_defs post_rejected)
  have c18: "(getIdToken a = Inr tok \<and> neto (post_request a tok ''modifyRequest''
      (Some [(''request'', Some request), (''id'', Some i)])) = Rejected e \<longrightarrow>
          EditRequestDialog_modifyRequest a neto request i =
            ([Ui NavBack,
                Eff (Http (post_request a tok ''modifyRequest''
                    (Some [(''request'', Some request), (''id'', Some i)]))),
                Eff (ConsoleError ''[ERROR] During modifyRequest REST API call.'')], Inl e))"
    by (simp add: callers_defs post_rejected)
  have c19: "(getIdToken a = Inr tok \<and> neto (post_request a tok ''newRequest''
      (Some [(''request'', Some request), (''payment'', payment)])) = Rejected e \<longrightarrow>
          NewRequestDialog_sendRequest a neto request payment address =
            ([Ui NavBack,
                Eff (Http (post_request a tok ''newRequest''
                    (Some [(''request'', Some request), (''payment'', payment)]))),
                Eff (ConsoleError ''[ERROR] During newRequest REST API call.'')], Inl e))"
    by (simp add: callers_defs post_rejected)
  have c20: "(getIdToken a = Inr tok \<and> neto (post_request a tok ''modifyAppt''
      (Some [(''appt'', Some appt), (''id'', Some i)])) = Rejected e \<longrightarrow>
          EditApptDialog_ok a neto appt i =
            ([Ui NavBack,
                Eff (Http (post_request a tok ''modifyAppt''
                    (Some [(''appt'', Some appt), (''id'', Some i)]))),
                Eff (ConsoleError ''[ERROR] During modifyAppt REST API call.'')], Inl e))"
    by (simp add: callers_defs post_rejected)
  have c21: "(getIdToken a = Inr tok \<and> neto (post_request a tok ''requestPaymentFor''
      (Some [(''appt'', Some appt), (''id'', Some i)])) = Rejected e \<longrightarrow>
          ViewApptDialog_requestPayment a neto appt i address =
            ([Eff (Http (post_request a tok ''requestPaymentFor''
                (Some [(''appt'', Some appt), (''id'', Some i)]))),
                Eff (ConsoleError ''[ERROR] During requestPaymentFor REST API call.''),
                Ui (SnackbarView (''Could not send payment request. Please ensure this isn''
                                   @ [CHR 0x27] @ ''t a duplicate request.''))], Inr ()))"
    by (simp add: callers_defs post_rejected)
  have c22: "(getIdToken a = Inr tok \<and> neto (post_request a tok ''clockIn''
      (Some [(''appt'', Some appt), (''id'', Some i), (''proof'', None)]))
          = Rejected e \<longrightarrow>
          ViewApptDialog_clockIn a neto appt i =
            ([Ui (SetInterval 10),
                Eff (Http (post_request a tok ''clockIn''
                    (Some [(''appt'', Some appt), (''id'', Some i), (''proof'', None)]))),
                Eff (ConsoleError ''[ERROR] During clockIn REST API call.'')], Inl e))"
    by (simp add: callers_defs post_rejected)
  have c23: "(getIdToken a = Inr tok \<and> neto (post_request a tok ''clockOut''
      (Some [(''appt'', Some appt), (''id'', Some i), (''proof'', None)]))
          = Rejected e \<longrightarrow>
          ViewApptDialog_clockOut a neto appt i =
            ([Ui ClearInterval,
                Eff (Http (post_request a tok ''clockOut''
                    (Some [(''appt'', Some appt), (''id'', Some i), (''proof'', None)]))),
                Eff (ConsoleError ''[ERROR] During clockOut REST API call.'')], Inl e))"
    by (simp add: callers_defs post_rejected)
  have c24: "(getIdToken a = Inr tok \<and> net (post_request a tok ''deleteLocation''
      (Some [(''id'', doc_id)])) = Rejected e \<longrightarrow>
          Config_deleteLocation a net doc_id =
            ([Ui (SnackbarView ''Deleting location...''),
              Eff (Http (post_request a tok ''deleteLocation'' (Some [(''id'', doc_id)]))),
              Eff (ConsoleError ''[ERROR] During deleteLocation REST API call.''),
              Ui (SnackbarView ''Could not delete location.'')], Inr ()))"
    by (simp add: callers_defs post_rejected)
  have c25: "(location_docs loc = Inl e \<longrightarrow>
          getLocationSupervisor location_docs loc =
            ([Eff (DbGet ''locations'' loc),
              Eff (ConsoleWarn (''[WARNING] Could not get location ('' @ loc @ '') supervisor b/c of '')),
              Ui (SnackbarView ''Could not find location supervisor.''),
              Ui NavBack], None))"
    by (simp add: callers_defs post_rejected)
  have c26: "(user_type a = ''Supervisor'' \<and> collection_get (''users/'' @
      address @ ''/dismissedCards'') = Inl e \<longrightarrow>
          initDismissedCards a address collection_get =
            ([Eff (DbGetAll (''users/'' @ address @ ''/dismissedCards'')),
              Eff (ConsoleError ''Error while initializing dismissedCards:'')], []))"
    by (simp add: callers_defs post_rejected)
  have c27: "(order_create amount = Inl e \<longrightarrow>
          createOrder order_create amount =
            ([PayPalOrderCreate amount,
              Eff (ConsoleError ''Error while creating PayPal order:''),
              Ui (SnackbarView (''Could not add payment. Please ensure that you''
                                @ [CHR 0x27] @ ''ve selected a valid time range.''))], None))"
    by (simp add: callers_defs post_rejected)
  have c28: "(error_cb e = Inr () \<longrightarrow>
          listen ref (Inl e) next_cb error_cb =
            ([RefGet ref, ErrorCallback e, RefOnSnapshot ref], Inr ()))"
    by (simp add: callers_defs post_rejected)
  have c29: "((\<forall>k<n. \<exists>err. netk k (accountURL_request a)
      = Rejected err) \<longrightarrow>
          (\<exists>rest. fst (getAccountURL n a netk 0) =
              concat (replicate n
                [Http (accountURL_request a),
                 ConsoleError ''Error while fetching new Stripe Connect Account url:'',
                 Timer 5000])
              @ Http (accountURL_request a) # rest))"
    using getAccountURL_rounds [of n netk 0 a] by simp
  show ?thesis
    by (intro conjI; fact)
qed

theorem callers_do_not_retry_getAccountURL_does_witness:
  "requests (fst (post supervisor_app
      (offline :: string request \<Rightarrow> unit settled) ''deleteWebsite''
          (Some [(''id'', ''w1'')]))) = [post_request supervisor_app ''t'' ''deleteWebsite''
              (Some [(''id'', ''w1'')])]
     \<and> post supervisor_app
         (offline :: string request \<Rightarrow> unit settled) ''deleteWebsite''
             (Some [(''id'', ''w1'')]) =
            ([Http (post_request supervisor_app ''t'' ''deleteWebsite'' (Some [(''id'', ''w1'')])),
              ConsoleError (''[ERROR] During '' @
                  ''deleteWebsite'' @ '' REST API call.'')], Inl (Error ''Network Error''))
     \<and> getServiceHoursLog supervisor_app ''l1''
         (offline :: string request \<Rightarrow> unit settled) [(''tutors'', PBool False)] =
            ([Blob (serviceHoursLog_request supervisor_app ''l1'' ''t''
                [(''tutors'', PBool False)])], Inl (Error ''Network Error''))
     \<and> getPDFBackup supervisor_app ''l1''
         (offline :: string request \<Rightarrow> unit settled) [(''tutors'', PBool False)] =
            ([Blob (PDFBackup_request supervisor_app ''l1'' ''t''
                [(''tutors'', PBool False)])], Inl (Error ''Network Error''))
     \<and> length (requests (fst (post supervisor_app
         (offline :: string request \<Rightarrow> unit settled) ''deleteWebsite''
             (Some [(''id'', ''w1'')])))) \<le> 1
     \<and> length (requests (fst (createUser supervisor_app
         (offline :: user request \<Rightarrow> unit settled) (Some proxy_pupil)))) \<le> 1
     \<and> length (http_requests (fst (getServiceHoursLog supervisor_app ''l1''
         (offline :: string request \<Rightarrow> unit settled) [(''tutors'', PBool False)]))) \<le> 1
     \<and> length (http_requests (fst (getPDFBackup supervisor_app ''l1''
         (offline :: string request \<Rightarrow> unit settled) [(''tutors'', PBool False)]))) \<le> 1
     \<and> length (http_requests (fst (Config_deleteLocation supervisor_app
         (offline :: string request \<Rightarrow> unit settled) ''l1''))) \<le> 1
     \<and> length (http_requests (fst (ViewRequestDialog_approve supervisor_app
         (offline :: string option request \<Rightarrow> unit settled) ''request-1''
             ''id-1''))) \<le> 1
     \<and> length (http_requests (fst (EditRequestDialog_modifyRequest supervisor_app
         (offline :: string option request \<Rightarrow> unit settled) ''request-1''
             ''id-1''))) \<le> 1
     \<and> length (http_requests (fst (NewRequestDialog_sendRequest supervisor_app
         (offline :: string option request \<Rightarrow> unit settled) ''request-1'' None ''pupil@example.com''))) \<le> 1
     \<and> length (http_requests (fst (EditApptDialog_ok supervisor_app
         (offline :: string option request \<Rightarrow> unit settled) ''appt-1'' ''id-1''))) \<le> 1
     \<and> length (http_requests (fst (ViewApptDialog_requestPayment supervisor_app
         (offline :: string option request \<Rightarrow> unit settled) ''appt-1''
             ''id-1'' ''pupil@example.com''))) \<le> 1
     \<and> length (http_requests (fst (ViewApptDialog_clockIn supervisor_app
         (offline :: string option request \<Rightarrow> unit settled) ''appt-1'' ''id-1''))) \<le> 1
     \<and> length (http_requests (fst (ViewApptDialog_clockOut supervisor_app
         (offline :: string option request \<Rightarrow> unit settled) ''appt-1'' ''id-1''))) \<le> 1
     \<and> ViewRequestDialog_approve supervisor_app
         (offline :: string option request \<Rightarrow> unit settled) ''request-1'' ''id-1'' =
            ([Ui NavBack,
                Eff (Http (post_request supervisor_app ''t'' ''approveRequest''
                    (Some [(''request'', Some ''request-1''), (''id'', Some ''id-1'')]))),
                Eff (ConsoleError ''[ERROR] During approveRequest REST API call.'')],
                    Inl (Error ''Network Error''))
     \<and> EditRequestDialog_modifyRequest supervisor_app
         (offline :: string option request \<Rightarrow> unit settled) ''request-1'' ''id-1'' =
            ([Ui NavBack,
                Eff (Http (post_request supervisor_app ''t'' ''modifyRequest''
                    (Some [(''request'', Some ''request-1''), (''id'', Some ''id-1'')]))),
                Eff (ConsoleError ''[ERROR] During modifyRequest REST API call.'')],
                    Inl (Error ''Network Error''))
     \<and> NewRequestDialog_sendRequest supervisor_app
         (offline :: string option request \<Rightarrow> unit settled) ''request-1'' None ''pupil@example.com'' =
            ([Ui NavBack,
                Eff (Http (post_request supervisor_app ''t'' ''newRequest''
                    (Some [(''request'', Some ''request-1''), (''payment'', None)]))),
                Eff (ConsoleError ''[ERROR] During newRequest REST API call.'')],
                    Inl (Error ''Network Error''))
     \<and> EditApptDialog_ok supervisor_app
         (offline :: string option request \<Rightarrow> unit settled) ''appt-1'' ''id-1'' =
            ([Ui NavBack,
                Eff (Http (post_request supervisor_app ''t'' ''modifyAppt''
                    (Some [(''appt'', Some ''appt-1''), (''id'', Some ''id-1'')]))),
                Eff (ConsoleError ''[ERROR] During modifyAppt REST API call.'')],
                    Inl (Error ''Network Error''))
     \<and> ViewApptDialog_requestPayment supervisor_app
         (offline :: string option request \<Rightarrow> unit settled) ''appt-1''
             ''id-1'' ''pupil@example.com'' =
            ([Eff (Http (post_request supervisor_app ''t'' ''requestPaymentFor''
                (Some [(''appt'', Some ''appt-1''), (''id'', Some ''id-1'')]))),
                Eff (ConsoleError ''[ERROR] During requestPaymentFor REST API call.''),
                Ui (SnackbarView (''Could not send payment request. Please ensure this isn''
                                   @ [CHR 0x27] @ ''t a duplicate request.''))], Inr ())
     \<and> ViewApptDialog_clockIn supervisor_app
         (offline :: string option request \<Rightarrow> unit settled) ''appt-1'' ''id-1'' =
            ([Ui (SetInterval 10),
                Eff (Http (post_request supervisor_app ''t'' ''clockIn''
                    (Some [(''appt'', Some ''appt-1''), (''id'', Some ''id-1''),
                        (''proof'', None)]))),
                Eff (ConsoleError ''[ERROR] During clockIn REST API call.'')],
                    Inl (Error ''Network Error''))
     \<and> ViewApptDialog_clockOut supervisor_app
         (offline :: string option request \<Rightarrow> unit settled) ''appt-1'' ''id-1'' =
            ([Ui ClearInterval,
                Eff (Http (post_request supervisor_app ''t'' ''clockOut''
                    (Some [(''appt'', Some ''appt-1''), (''id'', Some ''id-1''),
                        (''proof'', None)]))),
                Eff (ConsoleError ''[ERROR] During clockOut REST API call.'')],
                    Inl (Error ''Network Error''))
     \<and> Config_deleteLocation supervisor_app
         (offline :: string request \<Rightarrow> unit settled) ''l1'' =
            ([Ui (SnackbarView ''Deleting location...''),
              Eff (Http (post_request supervisor_app ''t'' ''deleteLocation''
                  (Some [(''id'', ''l1'')]))),
              Eff (ConsoleError ''[ERROR] During deleteLocation REST API call.''),
              Ui (SnackbarView ''Could not delete location.'')], Inr ())
     \<and> getLocationSupervisor (\<lambda>i.
         Inl (Error ''Network Error'') :: js_error + string list option option) ''l1'' =
            ([Eff (DbGet ''locations'' ''l1''),
              Eff (ConsoleWarn (''[WARNING] Could not get location ('' @ ''l1'' @ '') supervisor b/c of '')),
              Ui (SnackbarView ''Could not find location supervisor.''),
              Ui NavBack], None)
     \<and> initDismissedCards supervisor_app ''pupil@example.com'' (\<lambda>p.
         Inl (Error ''Network Error'') :: js_error + string list) =
            ([Eff (DbGetAll (''users/'' @ ''pupil@example.com'' @ ''/dismissedCards'')),
              Eff (ConsoleError ''Error while initializing dismissedCards:'')], [])
     \<and> createOrder (\<lambda>v. Inl (Error ''Network Error'') :: js_error + unit) ''25.00'' =
            ([PayPalOrderCreate ''25.00'',
              Eff (ConsoleError ''Error while creating PayPal order:''),
              Ui (SnackbarView (''Could not add payment. Please ensure that you''
                                @ [CHR 0x27] @ ''ve selected a valid time range.''))], None)
     \<and> listen ''locations/l1'' (Inl (Error ''Network Error'')) (\<lambda>snap :: unit. Inr ()) (\<lambda>err. Inr ()) =
            ([RefGet ''locations/l1'', ErrorCallback (Error ''Network Error''), RefOnSnapshot ''locations/l1''], Inr ())
     \<and> (\<exists>rest. fst (getAccountURL 2 supervisor_app (\<lambda>k. offline :: unit request \<Rightarrow> string option settled) 0) =
              concat (replicate 2
                [Http (accountURL_request supervisor_app),
                 ConsoleError ''Error while fetching new Stripe Connect Account url:'',
                 Timer 5000])
              @ Http (accountURL_request supervisor_app) # rest)"
  using callers_do_not_retry_getAccountURL_does [where a = "supervisor_app"
      and tok = "''t''"
      and e = "Error ''Network Error''"
      and net = "offline :: string request \<Rightarrow> unit settled"
      and neto = "offline :: string option request \<Rightarrow> unit settled"
      and netk = "\<lambda>k. offline :: unit request \<Rightarrow> string option settled"
      and action = "''deleteWebsite''"
      and dat = "(Some [(''id'', ''w1'')])"
      and location_id = "''l1''"
      and ps = "[(''tutors'', PBool False)]"
      and doc_id = "''l1''"
      and request = "''request-1''"
      and i = "''id-1''"
      and payment = "None"
      and address = "''pupil@example.com''"
      and appt = "''appt-1''"
      and location_docs = "(\<lambda>i. Inl (Error ''Network Error'') :: js_error + string list option option)"
      and loc = "''l1''"
      and collection_get = "(\<lambda>p. Inl (Error ''Network Error'') :: js_error + string list)"
      and order_create = "(\<lambda>v. Inl (Error ''Network Error'') :: js_error + unit)"
      and amount = "''25.00''"
      and error_cb = "(\<lambda>err. Inr ())"
      and next_cb = "(\<lambda>snap :: unit. Inr ())"
      and ref = "''locations/l1''"
      and n = "2"
      and netu = "offline :: user request \<Rightarrow> unit settled"
      and u = "Some proxy_pupil"]
  by simp

section \<open>Malformed identifiers: getUser, deleteUser, updateUser\<close>

lemma str_indexOf_char: "0 \<le> str_indexOf s [c] \<longleftrightarrow> c \<in> set s"
proof -
  have "sublist [c] s \<longleftrightarrow> c \<in> set s"
    by (induction s) (auto simp: sublist_Cons_right)
  with str_indexOf_neg_iff [of s "[c]"] show ?thesis by auto
qed

lemma getUser_malformed:
  assumes "\<not> truthy i \<or> (\<exists>s. i = Some s \<and> CHR ''@'' \<in> set s)"
  shows "\<exists>e. getUser users i = ([], Inl e)"
proof (cases i)
  case None
  then show ?thesis by (simp add: getUser_def)
next
  case (Some s)
  with assms have "s = '''' \<or> 0 \<le> str_indexOf s ''@''"
    by (auto simp: truthy_def str_indexOf_char)
  with Some show ?thesis by (auto simp: getUser_def)
qed

lemma deleteUser_malformed:
  assumes "\<not> truthy i \<or> (\<exists>s. i = Some s \<and> CHR ''@'' \<in> set s)"
  shows "\<exists>e. deleteUser i = ([], Inl e)"
proof (cases i)
  case None
  then show ?thesis by (simp add: deleteUser_def)
next
  case (Some s)
  with assms have "s = '''' \<or> 0 \<le> str_indexOf s ''@''"
    by (auto simp: truthy_def str_indexOf_char)
  with Some show ?thesis by (auto simp: deleteUser_def)
qed

lemma uid_foldl_location:
  "uid (foldl (\<lambda>u loc. u\<lparr> location := f loc \<rparr>) user locs) = uid user"
  by (induction locs arbitrary: user) simp_all

lemma updateUserLocation_uid:
  "updateUserLocation a user = Inr user' \<Longrightarrow> uid user' = uid user"
  by (auto simp: updateUserLocation_def Let_def uid_foldl_location split: option.splits)

lemma updateUserAvailability_no_uid:
  "\<not> truthy (uid user) \<Longrightarrow>
   \<exists>w. updateUserAvailability fetch user = ([ConsoleWarn w], Inr user)"
  by (auto simp: updateUserAvailability_def truthy_def split: option.splits)

lemma updateUser_no_uid:
  assumes "\<not> truthy (uid user)"
  shows "\<exists>w e. updateUser a fetch (Some user) = ([ConsoleWarn w], Inl e)"
proof -
  from assms obtain w where w: "updateUserAvailability fetch user = ([ConsoleWarn w], Inr user)"
    using updateUserAvailability_no_uid by blast
  show ?thesis
  proof (cases "updateUserLocation a user")
    case (Inl e)
    with w show ?thesis by (simp add: updateUser_def)
  next
    case (Inr user')
    then have "uid user' = uid user" by (rule updateUserLocation_uid)
    with assms have "\<not> truthy (uid user')" by simp
    then have "uid user' = None \<or> uid user' = Some ''''"
      by (auto simp: truthy_def split: option.splits)
    with w Inr show ?thesis by (auto simp: updateUser_def)
  qed
qed

text \<open>
  C4. \<open>getUser\<close> and \<open>deleteUser\<close> throw for every id that is undefined or empty and for
  every id that contains \<open>@\<close>; \<open>updateUser\<close> throws for every user without a uid (whether
  it has no identifier at all, or an id or an email only) and for an undefined user. In
  each case the call ends with an exception and no write to the \<open>users\<close> collection is
  among its effects.
\<close>

theorem malformed_identifier_throws:
  "(\<not> truthy i \<or> (\<exists>s. i = Some s \<and> CHR ''@'' \<in> set s) \<longrightarrow>
      (\<exists>e. snd (getUser users i) = Inl e) \<and> writes_to ''users'' (fst (getUser users i)) = []
      \<and> (\<exists>e. snd (deleteUser i) = Inl e) \<and> writes_to ''users'' (fst (deleteUser i)) = [])
   \<and> (\<not> truthy (uid user) \<longrightarrow>
      (\<exists>e. snd (updateUser a fetch (Some user)) = Inl e)
      \<and> writes_to ''users'' (fst (updateUser a fetch (Some user))) = [])
   \<and> (\<exists>e. snd (updateUser a fetch None) = Inl e)
   \<and> writes_to ''users'' (fst (updateUser a fetch None)) = []"
proof -
  have g: "(\<exists>e. snd (getUser users i) = Inl e) \<and> writes_to ''users'' (fst (getUser users i)) = []"
    if "\<not> truthy i \<or> (\<exists>s. i = Some s \<and> CHR ''@'' \<in> set s)"
    using getUser_malformed [OF that, of users] by auto
  have d: "(\<exists>e. snd (deleteUser i) = Inl e) \<and> writes_to ''users'' (fst (deleteUser i)) = []"
    if "\<not> truthy i \<or> (\<exists>s. i = Some s \<and> CHR ''@'' \<in> set s)"
    using deleteUser_malformed [OF that] by auto
  have u: "(\<exists>e. snd (updateUser a fetch (Some user)) = Inl e)
      \<and> writes_to ''users'' (fst (updateUser a fetch (Some user))) = []"
    if "\<not> truthy (uid user)"
    using updateUser_no_uid [OF that, of a fetch] by auto
  have n: "(\<exists>e. snd (updateUser a fetch None) = Inl e)
      \<and> writes_to ''users'' (fst (updateUser a fetch None)) = []"
    by (simp add: updateUser_def)
  from g d u n show ?thesis by blast
qed

theorem malformed_identifier_throws_witness:
  "snd (getUser (\<lambda>k. None :: unit option) (Some ''pupil@example.com''))
     = Inl (Error ''Using an email as a user ID is deprecated.'')
   \<and> snd (deleteUser None) = Inl (Error ''Could not delete user b/c id was undefined.'')
   \<and> snd (updateUser
        \<lparr> functionsURL = ''https://f/'', test = False, user_uid = ''u1'',
          user_id = Some ''u1'', user_type = ''Tutor'', getIdToken = Inr ''t'',
          location_name = ''Any'', locationNames = [] \<rparr>
        (\<lambda>k. Inr [])
        (Some \<lparr> uid = None, ident = None, email = Some ''pupil@example.com'',
                user_name = ''Pupil'', availability = Some [], location = None,
                locations = None \<rparr>))
     = Inl (Error ''Using an email as a user ID is deprecated.'')
   \<and> writes_to ''users'' (fst (updateUser
        \<lparr> functionsURL = ''https://f/'', test = False, user_uid = ''u1'',
          user_id = Some ''u1'', user_type = ''Tutor'', getIdToken = Inr ''t'',
          location_name = ''Any'', locationNames = [] \<rparr>
        (\<lambda>k. Inr [])
        (Some \<lparr> uid = None, ident = None, email = Some ''pupil@example.com'',
                user_name = ''Pupil'', availability = Some [], location = None,
                locations = None \<rparr>))) = []"
proof -
  let ?a = "\<lparr> functionsURL = ''https://f/'', test = False, user_uid = ''u1'',
              user_id = Some ''u1'', user_type = ''Tutor'', getIdToken = Inr ''t'',
              location_name = ''Any'', locationNames = [] \<rparr>"
  let ?u = "\<lparr> uid = None, ident = None, email = Some ''pupil@example.com'',
              user_name = ''Pupil'', availability = Some [], location = None,
              locations = None \<rparr>"
  let ?users = "\<lambda>k. None :: unit option"
  let ?fetch = "\<lambda>k. Inr [] :: js_error + appt list"
  have h1: "\<not> truthy (Some ''pupil@example.com'')
            \<or> (\<exists>s. Some ''pupil@example.com'' = Some s \<and> CHR ''@'' \<in> set s)" by simp
  have h2: "\<not> truthy (uid ?u)" by (simp add: truthy_def)
  have h3: "\<not> truthy None \<or> (\<exists>s. None = Some s \<and> CHR ''@'' \<in> set s)"
    by (simp add: truthy_def)
  note w1 = malformed_identifier_throws [where i = "Some ''pupil@example.com''" and users = ?users
      and user = ?u and a = ?a and fetch = ?fetch, THEN conjunct1, THEN mp, OF h1]
  note w2 = malformed_identifier_throws [where i = None and users = ?users
      and user = ?u and a = ?a and fetch = ?fetch, THEN conjunct1, THEN mp, OF h3]
  note w3 = malformed_identifier_throws [where i = None and users = ?users
      and user = ?u and a = ?a and fetch = ?fetch, THEN conjunct2, THEN conjunct1, THEN mp, OF h2]
  have "snd (getUser ?users (Some ''pupil@example.com''))
     = Inl (Error ''Using an email as a user ID is deprecated.'')"
    using w1 by (simp add: getUser_def)
  moreover have "snd (deleteUser None) = Inl (Error ''Could not delete user b/c id was undefined.'')"
    using w2 by (simp add: deleteUser_def)
  moreover have "snd (updateUser ?a ?fetch (Some ?u))
     = Inl (Error ''Using an email as a user ID is deprecated.'')"
    using w3 by (simp add: updateUser_def updateUserAvailability_def updateUserLocation_def
        truthy_def concatArr_def concatArr_push_def)
  moreover have "writes_to ''users'' (fst (updateUser ?a ?fetch (Some ?u))) = []"
    using w3 by simp
  ultimately show ?thesis by simp
qed

section \<open>Data.createUser: results\<close>

lemma or_else_truthy:
  assumes "truthy x \<or> truthy y"
  shows "\<exists>k. or_else x y = Some k \<and> k \<noteq> '''' \<and> (if truthy x then x = Some k else y = Some k)"
  using assms by (auto simp: or_else_def truthy_def split: option.splits)

lemma createUser_falsy_uid:
  assumes "\<not> truthy (uid user)" and "truthy (ident user) \<or> truthy (email user)"
  shows "createUser a net (Some user) = createUser_without_uid a net user"
proof -
  from assms(1) have "uid user = None \<or> uid user = Some ''''"
    by (auto simp: truthy_def split: option.splits)
  with assms(2) show ?thesis by (auto simp: createUser_def)
qed

text \<open>
  C7. \<open>Data.createUser\<close> dispatches on the identifiers of the user. With a uid it writes
  the document \<open>users/{uid}\<close> and does nothing else. Without a uid, but with an id or an
  email: when the application's user is a Supervisor whose id differs from the new
  user's id, its effects are those of the REST action \<open>createProxyUser\<close> with the user as
  payload, and no document is written directly; otherwise it warns and writes the
  document of \<open>usersByEmail\<close> keyed by \<open>user.id\<close>, or by \<open>user.email\<close> when the id is
  missing or empty. With no id, no uid and no email, and for an undefined user, it
  throws and does nothing.
\<close>

theorem createUser_dispatch:
  "(\<forall>s. uid user = Some s \<and> s \<noteq> '''' \<longrightarrow>
      createUser a net (Some user) = ([DbSet ''users'' s user], Inr Written))
   \<and> (\<not> truthy (uid user) \<and> (truthy (ident user) \<or> truthy (email user))
        \<and> user_type a = ''Supervisor'' \<and> user_id a \<noteq> ident user \<longrightarrow>
      fst (createUser a net (Some user))
        = fst (post a net ''createProxyUser'' (Some [(''user'', user)]))
      \<and> (\<forall>tok. getIdToken a = Inr tok \<longrightarrow>
             requests (fst (createUser a net (Some user)))
               = [post_request a tok ''createProxyUser'' (Some [(''user'', user)])])
      \<and> writes_to ''users'' (fst (createUser a net (Some user))) = []
      \<and> writes_to ''usersByEmail'' (fst (createUser a net (Some user))) = [])
   \<and> (\<not> truthy (uid user) \<and> (truthy (ident user) \<or> truthy (email user))
        \<and> \<not> (user_type a = ''Supervisor'' \<and> user_id a \<noteq> ident user) \<longrightarrow>
      (\<exists>k. k \<noteq> '''' \<and> (if truthy (ident user) then ident user = Some k else email user = Some k)
           \<and> createUser a net (Some user)
               = ([ConsoleWarn ''[WARNING] Using an email as a user ID is deprecated.'',
                   DbSet ''usersByEmail'' k user], Inr Written)))
   \<and> (\<not> truthy (ident user) \<and> \<not> truthy (uid user) \<and> \<not> truthy (email user) \<longrightarrow>
      createUser a net (Some user)
        = ([], Inl (Error ''Could not create user b/c id was undefined.'')))
   \<and> createUser a net None = ([], Inl (Error ''Cannot create an undefined user.''))"
proof -
  let ?p = "post a net ''createProxyUser'' (Some [(''user'', user)])"
  have 1: "\<forall>s. uid user = Some s \<and> s \<noteq> '''' \<longrightarrow>
      createUser a net (Some user) = ([DbSet ''users'' s user], Inr Written)"
    by (auto simp: createUser_def truthy_def)
  have 2: "fst (createUser a net (Some user)) = fst ?p
      \<and> (\<forall>tok. getIdToken a = Inr tok \<longrightarrow>
             requests (fst (createUser a net (Some user)))
               = [post_request a tok ''createProxyUser'' (Some [(''user'', user)])])
      \<and> writes_to ''users'' (fst (createUser a net (Some user))) = []
      \<and> writes_to ''usersByEmail'' (fst (createUser a net (Some user))) = []"
    if h: "\<not> truthy (uid user)" "truthy (ident user) \<or> truthy (email user)"
      "user_type a = ''Supervisor''" "user_id a \<noteq> ident user"
  proof -
    have c: "createUser a net (Some user) = createUser_without_uid a net user"
      using h(1,2) by (rule createUser_falsy_uid)
    have f: "fst (createUser_without_uid a net user) = fst ?p"
      using h(3,4) by (simp add: createUser_without_uid_def split: prod.splits sum.splits)
    have w: "writes_to c (fst ?p) = []" for c
      by (simp add: post_def Let_def split: sum.splits settled.splits)
    show ?thesis
      unfolding c f using requests_post [of a _ net "''createProxyUser''"] w by blast
  qed
  have 3: "\<exists>k. k \<noteq> '''' \<and> (if truthy (ident user) then ident user = Some k else email user = Some k)
           \<and> createUser a net (Some user)
               = ([ConsoleWarn ''[WARNING] Using an email as a user ID is deprecated.'',
                   DbSet ''usersByEmail'' k user], Inr Written)"
    if h: "\<not> truthy (uid user)" "truthy (ident user) \<or> truthy (email user)"
      "\<not> (user_type a = ''Supervisor'' \<and> user_id a \<noteq> ident user)"
  proof -
    have c: "createUser a net (Some user) = createUser_without_uid a net user"
      using h(1,2) by (rule createUser_falsy_uid)
    from or_else_truthy [OF h(2)] obtain k where k: "or_else (ident user) (email user) = Some k"
      "k \<noteq> ''''" "if truthy (ident user) then ident user = Some k else email user = Some k"
      by blast
    from h(3) k(1) have "createUser_without_uid a net user
        = ([ConsoleWarn ''[WARNING] Using an email as a user ID is deprecated.'',
            DbSet ''usersByEmail'' k user], Inr Written)"
      by (auto simp: createUser_without_uid_def)
    with c k(2,3) show ?thesis by auto
  qed
  have 4: "\<not> truthy (ident user) \<and> \<not> truthy (uid user) \<and> \<not> truthy (email user) \<longrightarrow>
      createUser a net (Some user)
        = ([], Inl (Error ''Could not create user b/c id was undefined.''))"
    by (simp add: createUser_def)
  have 5: "createUser a net None = ([], Inl (Error ''Cannot create an undefined user.''))"
    by (simp add: createUser_def)
  from 1 2 3 4 5 show ?thesis by blast
qed

theorem createUser_dispatch_witness:
  "createUser \<lparr> functionsURL = ''https://f/'', test = False, user_uid = ''s1'',
                 user_id = Some ''s1'', user_type = ''Supervisor'', getIdToken = Inr ''t'',
                 location_name = ''Any'', locationNames = [] \<rparr>
     (\<lambda>r. Resolved (Str ''SUCCESS'') :: unit settled)
     (Some \<lparr> uid = Some ''abc'', ident = None, email = None, user_name = ''Pupil'',
             availability = None, location = None, locations = None \<rparr>)
   = ([DbSet ''users'' ''abc''
         \<lparr> uid = Some ''abc'', ident = None, email = None, user_name = ''Pupil'',
           availability = None, location = None, locations = None \<rparr>], Inr Written)
   \<and> requests (fst (createUser
       \<lparr> functionsURL = ''https://f/'', test = False, user_uid = ''s1'',
         user_id = Some ''s1'', user_type = ''Supervisor'', getIdToken = Inr ''t'',
         location_name = ''Any'', locationNames = [] \<rparr>
       (\<lambda>r. Resolved (Str ''SUCCESS'') :: unit settled)
       (Some \<lparr> uid = None, ident = None, email = Some ''p@example.com'', user_name = ''Pupil'',
               availability = None, location = None, locations = None \<rparr>)))
     = [\<lparr> method = ''post'', url = ''https://f/data'',
          params = [(''test'', PBool False), (''user'', PStr ''s1''),
                    (''action'', PStr ''createProxyUser''), (''token'', PStr ''t'')],
          data = Some [(''user'',
            \<lparr> uid = None, ident = None, email = Some ''p@example.com'', user_name = ''Pupil'',
              availability = None, location = None, locations = None \<rparr>)] \<rparr>]
   \<and> createUser \<lparr> functionsURL = ''https://f/'', test = False, user_uid = ''t1'',
                 user_id = Some ''t1'', user_type = ''Tutor'', getIdToken = Inr ''t'',
                 location_name = ''Any'', locationNames = [] \<rparr>
       (\<lambda>r. Resolved (Str ''SUCCESS'') :: unit settled)
       (Some \<lparr> uid = None, ident = None, email = Some ''p@example.com'', user_name = ''Pupil'',
               availability = None, location = None, locations = None \<rparr>)
     = ([ConsoleWarn ''[WARNING] Using an email as a user ID is deprecated.'',
         DbSet ''usersByEmail'' ''p@example.com''
           \<lparr> uid = None, ident = None, email = Some ''p@example.com'', user_name = ''Pupil'',
             availability = None, location = None, locations = None \<rparr>], Inr Written)
   \<and> createUser \<lparr> functionsURL = ''https://f/'', test = False, user_uid = ''t1'',
                 user_id = Some ''t1'', user_type = ''Tutor'', getIdToken = Inr ''t'',
                 location_name = ''Any'', locationNames = [] \<rparr>
       (\<lambda>r. Resolved (Str ''SUCCESS'') :: unit settled)
       (Some \<lparr> uid = None, ident = Some '''', email = None, user_name = ''Pupil'',
               availability = None, location = None, locations = None \<rparr>)
     = ([], Inl (Error ''Could not create user b/c id was undefined.''))"
proof -
  let ?sup = "\<lparr> functionsURL = ''https://f/'', test = False, user_uid = ''s1'',
                user_id = Some ''s1'', user_type = ''Supervisor'', getIdToken = Inr ''t'',
                location_name = ''Any'', locationNames = [] \<rparr>"
  let ?tut = "\<lparr> functionsURL = ''https://f/'', test = False, user_uid = ''t1'',
                user_id = Some ''t1'', user_type = ''Tutor'', getIdToken = Inr ''t'',
                location_name = ''Any'', locationNames = [] \<rparr>"
  let ?net = "\<lambda>r. Resolved (Str ''SUCCESS'') :: unit settled"
  let ?u1 = "\<lparr> uid = Some ''abc'', ident = None, email = None, user_name = ''Pupil'',
               availability = None, location = None, locations = None \<rparr>"
  let ?u2 = "\<lparr> uid = None, ident = None, email = Some ''p@example.com'', user_name = ''Pupil'',
               availability = None, location = None, locations = None \<rparr>"
  let ?u4 = "\<lparr> uid = None, ident = Some '''', email = None, user_name = ''Pupil'',
               availability = None, location = None, locations = None \<rparr>"
  have "createUser ?sup ?net (Some ?u1) = ([DbSet ''users'' ''abc'' ?u1], Inr Written)"
    using createUser_dispatch [where user = ?u1 and a = ?sup and net = ?net] by simp
  moreover have "requests (fst (createUser ?sup ?net (Some ?u2)))
      = [post_request ?sup ''t'' ''createProxyUser'' (Some [(''user'', ?u2)])]"
  proof -
    have h: "\<not> truthy (uid ?u2) \<and> (truthy (ident ?u2) \<or> truthy (email ?u2))
        \<and> user_type ?sup = ''Supervisor'' \<and> user_id ?sup \<noteq> ident ?u2"
      by (simp add: truthy_def)
    have t: "getIdToken ?sup = Inr ''t''" by simp
    from createUser_dispatch [where user = ?u2 and a = ?sup and net = ?net,
        THEN conjunct2, THEN conjunct1, THEN mp, OF h,
        THEN conjunct2, THEN conjunct1, THEN spec, THEN mp, OF t]
    show ?thesis .
  qed
  moreover have "createUser ?tut ?net (Some ?u2)
      = ([ConsoleWarn ''[WARNING] Using an email as a user ID is deprecated.'',
          DbSet ''usersByEmail'' ''p@example.com'' ?u2], Inr Written)"
    using createUser_dispatch [where user = ?u2 and a = ?tut and net = ?net]
    by (simp add: truthy_def)
  moreover have "createUser ?tut ?net (Some ?u4)
      = ([], Inl (Error ''Could not create user b/c id was undefined.''))"
    using createUser_dispatch [where user = ?u4 and a = ?tut and net = ?net]
    by (simp add: truthy_def)
  ultimately show ?thesis by (simp add: post_request_def)
qed

section \<open>Data.prototype.initTimes: results\<close>

lemma length_minString: "m < 100 \<Longrightarrow> length (minString m) = 2"
  by (cases "m < 10") (simp_all add: minString_def length_nat_toString_small)

lemma foldl_push: "foldl (\<lambda>acc x. acc @ [f x]) acc xs = acc @ map f xs"
  by (induction xs arbitrary: acc) simp_all

lemma push_hour_eq:
  "push_hour sfx acc hour =
     acc @ map (\<lambda>m. nat_toString hour @ '':'' @ minString m @ '' '' @ sfx) [0..<60]"
  unfolding push_hour_def push_minute_def by (rule foldl_push)

lemma foldl_push_hour:
  "foldl (push_hour sfx) acc hs =
     acc @ concat (map (\<lambda>h. map (\<lambda>m. nat_toString h @ '':'' @ minString m @ '' '' @ sfx) [0..<60]) hs)"
  by (induction hs arbitrary: acc) (simp_all add: push_hour_eq)

lemma push_suffix_eq: "push_suffix acc sfx = acc @ block sfx"
proof -
  have "foldl (push_twelve sfx) acc [0..<60]
      = acc @ map (\<lambda>m. ''12:'' @ minString m @ '' '' @ sfx) [0..<60]"
    unfolding push_twelve_def by (rule foldl_push)
  then show ?thesis
    unfolding push_suffix_def block_def foldl_push_hour by simp
qed

lemma initTimes_blocks: "initTimes = block ''AM'' @ block ''PM''"
  by (simp add: initTimes_def push_suffix_eq)

lemma concat_rows:
  "concat (map (\<lambda>h. map (g h) [0..<n]) [a..<a + k]) =
     map (\<lambda>i. g (a + i div n) (i mod n)) [0..<k * n]"
proof (induction k)
  case 0
  show ?case by simp
next
  case (Suc k)
  have "map (\<lambda>i. g (a + i div n) (i mod n)) [0..<Suc k * n]
      = map (\<lambda>i. g (a + i div n) (i mod n)) [0..<k * n]
        @ map (\<lambda>i. g (a + i div n) (i mod n)) [k * n..<k * n + n]"
    using upt_add_eq_append [of 0 "k * n" n] by (simp add: add.commute)
  also have "map (\<lambda>i. g (a + i div n) (i mod n)) [k * n..<k * n + n] = map (g (a + k)) [0..<n]"
    by (rule nth_equalityI) (auto simp: nth_append)
  finally show ?case using Suc by simp
qed


lemma nat_toString_12: "nat_toString 12 = ''12''"
  by code_simp

lemma block_eq:
  "block sfx =
     map (\<lambda>i. nat_toString (if i div 60 = 0 then 12 else i div 60)
                @ '':'' @ minString (i mod 60) @ '' '' @ sfx) [0..<720]"
proof -
  let ?g = "\<lambda>h m. nat_toString h @ '':'' @ minString m @ '' '' @ sfx"
  have "concat (map (\<lambda>h. map (?g h) [0..<60]) [1..<1 + 11])
      = map (\<lambda>i. ?g (1 + i div 60) (i mod 60)) [0..<11 * 60]"
    by (rule concat_rows)
  then have b: "block sfx = map (\<lambda>m. ''12:'' @ minString m @ '' '' @ sfx) [0..<60]
      @ map (\<lambda>i. ?g (1 + i div 60) (i mod 60)) [0..<660]"
    by (simp add: block_def)
  show ?thesis
    unfolding b
  proof (rule nth_equalityI)
    show "length (map (\<lambda>m. ''12:'' @ minString m @ '' '' @ sfx) [0..<60]
        @ map (\<lambda>i. ?g (1 + i div 60) (i mod 60)) [0..<660])
      = length (map (\<lambda>i. nat_toString (if i div 60 = 0 then 12 else i div 60)
                @ '':'' @ minString (i mod 60) @ '' '' @ sfx) [0..<720])"
      by simp
  next
    fix i
    assume "i < length (map (\<lambda>m. ''12:'' @ minString m @ '' '' @ sfx) [0..<60]
        @ map (\<lambda>i. ?g (1 + i div 60) (i mod 60)) [0..<660])"
    then have i: "i < 720" by simp
    show "(map (\<lambda>m. ''12:'' @ minString m @ '' '' @ sfx) [0..<60]
        @ map (\<lambda>i. ?g (1 + i div 60) (i mod 60)) [0..<660]) ! i
      = map (\<lambda>i. nat_toString (if i div 60 = 0 then 12 else i div 60)
                @ '':'' @ minString (i mod 60) @ '' '' @ sfx) [0..<720] ! i"
    proof (cases "i < 60")
      case True
      then show ?thesis using i by (simp add: nth_append nat_toString_12)
    next
      case False
      then obtain k where k: "i = 60 + k"
        by (metis add_diff_inverse_nat)
      have "(1 * 60 + k) div 60 = 1 + k div 60" "(1 * 60 + k) mod 60 = k mod 60"
        by simp_all
      with k have "(i - 60) div 60 + 1 = i div 60" "(i - 60) mod 60 = i mod 60" "i div 60 \<noteq> 0"
        by simp_all
      with False i show ?thesis by (simp add: nth_append)
    qed
  qed
qed

lemma decimal_digit_eq: "d < 10 \<Longrightarrow> decimal_digit d = digit_char d"
proof -
  assume "d < 10"
  then have "d \<in> {0, 1, 2, 3, 4, 5, 6, 7, 8, 9}" by auto
  then show ?thesis
    unfolding decimal_digit_def
    by (elim insertE emptyE)
       (simp_all add: digit_char_numeral digit_char_numeral(2) [unfolded One_nat_def])
qed

lemma nat_toString_one_digit: "n < 10 \<Longrightarrow> nat_toString n = [decimal_digit n]"
  by (simp add: nat_toString.simps [of n] decimal_digit_eq)

lemma nat_toString_two_digits:
  assumes "10 \<le> n" and "n < 100"
  shows "nat_toString n = two_digits n"
proof -
  from assms have "n div 10 < 10" by simp
  with assms show ?thesis
    by (simp add: nat_toString.simps [of n] nat_toString.simps [of "n div 10"]
          two_digits_def decimal_digit_eq)
qed

lemma minString_two_digits: "m < 100 \<Longrightarrow> minString m = two_digits m"
proof (cases "m < 10")
  case True
  have "decimal_digit 0 = CHR ''0''" by (simp add: decimal_digit_def)
  with True show ?thesis
    by (simp add: minString_def nat_toString_one_digit two_digits_def)
next
  case False
  assume "m < 100"
  with False show ?thesis by (simp add: minString_def nat_toString_two_digits)
qed

lemma clock12_code:
  "clock12 i =
     nat_toString (if (i div 60) mod 12 = 0 then 12 else (i div 60) mod 12)
     @ '':'' @ minString (i mod 60) @ '' '' @ (if i < 720 then ''AM'' else ''PM'')"
proof -
  have h: "hour12 i < 100" "hour12 i < 10 \<or> 10 \<le> hour12 i"
    by (auto simp: hour12_def intro: less_trans [OF mod_less_divisor])
  have "nat_toString (hour12 i) =
      (if hour12 i < 10 then [decimal_digit (hour12 i)] else two_digits (hour12 i))"
    using h by (auto simp: nat_toString_one_digit nat_toString_two_digits)
  moreover have "minString (i mod 60) = two_digits (i mod 60)"
    by (rule minString_two_digits) (rule less_trans [OF mod_less_divisor], simp_all)
  ultimately show ?thesis
    by (simp add: clock12_def hour12_def)
qed

lemma initTimes_eq: "initTimes = map clock12 [0..<1440]"
  unfolding initTimes_blocks block_eq
proof (rule nth_equalityI)
  show "length (map (\<lambda>i. nat_toString (if i div 60 = 0 then 12 else i div 60)
                @ '':'' @ minString (i mod 60) @ '' '' @ ''AM'') [0..<720]
      @ map (\<lambda>i. nat_toString (if i div 60 = 0 then 12 else i div 60)
                @ '':'' @ minString (i mod 60) @ '' '' @ ''PM'') [0..<720])
    = length (map clock12 [0..<1440])"
    by simp
next
  fix i
  assume "i < length (map (\<lambda>i. nat_toString (if i div 60 = 0 then 12 else i div 60)
                @ '':'' @ minString (i mod 60) @ '' '' @ ''AM'') [0..<720]
      @ map (\<lambda>i. nat_toString (if i div 60 = 0 then 12 else i div 60)
                @ '':'' @ minString (i mod 60) @ '' '' @ ''PM'') [0..<720])"
  then have i: "i < 1440" by simp
  show "(map (\<lambda>i. nat_toString (if i div 60 = 0 then 12 else i div 60)
                @ '':'' @ minString (i mod 60) @ '' '' @ ''AM'') [0..<720]
      @ map (\<lambda>i. nat_toString (if i div 60 = 0 then 12 else i div 60)
                @ '':'' @ minString (i mod 60) @ '' '' @ ''PM'') [0..<720]) ! i
    = map clock12 [0..<1440] ! i"
  proof (cases "i < 720")
    case True
    then have "i div 60 < 12" by simp
    then have "(i div 60) mod 12 = i div 60" by simp
    with True i show ?thesis by (simp add: nth_append clock12_code)
  next
    case False
    with i obtain j where j: "i = 720 + j" "j < 720"
      by (metis add_diff_inverse_nat add_less_cancel_left numeral_Bit0)
    then have "j div 60 < 12" by simp
    have "(j + 12 * 60) div 60 = 12 + j div 60"
      by (rule div_mult_self1) simp
    moreover have "(j + 12 * 60) mod 60 = j mod 60"
      by (rule mod_mult_self1)
    moreover have "i = j + 12 * 60" using j by simp
    ultimately have "i div 60 = 12 + j div 60" "i mod 60 = j mod 60"
      by simp_all
    with \<open>j div 60 < 12\<close> have "(i div 60) mod 12 = j div 60" "i mod 60 = j mod 60"
      by simp_all
    with False i j show ?thesis by (simp add: nth_append clock12_code)
  qed
qed


lemma append_sep_eq:
  "c \<notin> set a \<Longrightarrow> c \<notin> set a' \<Longrightarrow> a @ c # r = a' @ c # r' \<Longrightarrow> a = a' \<and> r = r'"
proof (induction a arbitrary: a')
  case Nil
  then show ?case by (cases a') auto
next
  case (Cons x a)
  then show ?case by (cases a') auto
qed

lemma sep_notin_nat_toString: "CHR '':'' \<notin> set (nat_toString n)"
proof
  assume "CHR '':'' \<in> set (nat_toString n)"
  moreover have "list_all is_digit (nat_toString n)"
    using all_digits_nat_toString by blast
  ultimately have "is_digit CHR '':''" by (simp add: list_all_iff)
  then show False by (simp add: is_digit_def)
qed

lemma digits_value_minString: "digits_value (minString m) = m"
proof (cases "m < 10")
  case True
  have z: "digit_val CHR ''0'' = 0" by (simp add: digit_val_def)
  from True have "digits_value [CHR ''0'', digit_char m] = m"
    by (simp add: digits_value_def z digit_val_digit_char)
  with True show ?thesis
    by (simp add: minString_def nat_toString.simps [of m])
next
  case False
  then show ?thesis by (simp add: minString_def digits_value_nat_toString)
qed

lemma clock12_inj:
  assumes "i < 1440" and "j < 1440" and "clock12 i = clock12 j"
  shows "i = j"
proof -
  let ?h = "\<lambda>i::nat. if (i div 60) mod 12 = 0 then 12 else (i div 60) mod 12"
  let ?s = "\<lambda>i::nat. if i < 720 then ''AM'' else ''PM''"
  from assms(3) have "nat_toString (?h i) @ CHR '':'' # (minString (i mod 60) @ '' '' @ ?s i)
      = nat_toString (?h j) @ CHR '':'' # (minString (j mod 60) @ '' '' @ ?s j)"
    by (simp add: clock12_code)
  then have h: "nat_toString (?h i) = nat_toString (?h j)"
    and r: "minString (i mod 60) @ '' '' @ ?s i = minString (j mod 60) @ '' '' @ ?s j"
    using append_sep_eq [OF sep_notin_nat_toString sep_notin_nat_toString] by blast+
  have "length (minString (i mod 60)) = length (minString (j mod 60))"
    by (simp add: length_minString)
  with r have m: "minString (i mod 60) = minString (j mod 60)" and s: "?s i = ?s j"
    by simp_all
  from h have "digits_value (nat_toString (?h i)) = digits_value (nat_toString (?h j))"
    by simp
  then have hh: "?h i = ?h j" by (simp only: digits_value_nat_toString)
  from m have "digits_value (minString (i mod 60)) = digits_value (minString (j mod 60))"
    by simp
  then have mm: "i mod 60 = j mod 60" by (simp only: digits_value_minString)
  from s have half: "i < 720 \<longleftrightarrow> j < 720" by (auto split: if_splits)
  from hh have h12: "(i div 60) mod 12 = (j div 60) mod 12"
    by (auto split: if_splits)
  have d: "i div 60 = j div 60"
  proof (cases "i < 720")
    case True
    with half have "i div 60 < 12" "j div 60 < 12" by simp_all
    with h12 show ?thesis by simp
  next
    case False
    with half assms(1,2) have "12 \<le> i div 60" "i div 60 < 24" "12 \<le> j div 60" "j div 60 < 24"
      by simp_all
    then have "(i div 60) mod 12 = i div 60 - 12" "(j div 60) mod 12 = j div 60 - 12"
      by (simp_all add: mod_if)
    with h12 have "i div 60 - 12 = j div 60 - 12" by simp
    with \<open>12 \<le> i div 60\<close> \<open>12 \<le> j div 60\<close> show ?thesis
      by (metis le_add_diff_inverse)
  qed
  have "i = 60 * (i div 60) + i mod 60" "j = 60 * (j div 60) + j mod 60" by simp_all
  with d mm show ?thesis by simp
qed

lemma distinct_initTimes: "distinct initTimes"
proof -
  have "inj_on clock12 (set [0..<1440])"
    by (rule inj_onI) (simp add: clock12_inj)
  then show ?thesis
    unfolding initTimes_eq by (simp add: distinct_map)
qed

lemma initTimes_nth: "i < 1440 \<Longrightarrow> initTimes ! i = clock12 i"
  by (simp add: initTimes_eq)

lemma initTimes_samples:
  "map (\<lambda>i. initTimes ! i) [0, 9, 10, 59, 60, 214, 719, 720, 1076, 1187, 1308, 1439] =
     [''12:00 AM'', ''12:09 AM'', ''12:10 AM'', ''12:59 AM'', ''1:00 AM'', ''3:34 AM'',
      ''11:59 AM'', ''12:00 PM'', ''5:56 PM'', ''7:47 PM'', ''9:48 PM'', ''11:59 PM'']"
  by (simp add: initTimes_nth clock12_def hour12_def two_digits_def decimal_digit_def)

text \<open>
  C8. \<open>initTimes\<close> produces 1440 strings, entry \<open>i\<close> being minute \<open>i\<close> of the day in
  12-hour format: the \<open>AM\<close> block before the \<open>PM\<close> block, each block with its sixty
  12-o'clock minutes first and the hours 1 to 11 after them in order, the minutes padded
  to two digits. No string occurs twice. Twelve entries are written out: the first and
  the last of the array, of the first hour and of each block, the change from one to two
  minute digits, and minutes inside both blocks.
\<close>

theorem initTimes_every_minute_once:
  "length initTimes = 1440
   \<and> initTimes = map clock12 [0..<1440]
   \<and> distinct initTimes
   \<and> map (\<lambda>i. initTimes ! i) [0, 9, 10, 59, 60, 214, 719, 720, 1076, 1187, 1308, 1439] =
       [''12:00 AM'', ''12:09 AM'', ''12:10 AM'', ''12:59 AM'', ''1:00 AM'', ''3:34 AM'',
        ''11:59 AM'', ''12:00 PM'', ''5:56 PM'', ''7:47 PM'', ''9:48 PM'', ''11:59 PM'']
   \<and> map (\<lambda>m. length (minString m)) [0..<60] = replicate 60 2
   \<and> map (\<lambda>m. digits_value (minString m)) [0..<60] = [0..<60]"
proof -
  have "map (\<lambda>m. length (minString m)) [0..<60] = map (\<lambda>m. 2) [0..<60]"
    by (rule map_cong) (simp_all add: length_minString)
  also have "\<dots> = replicate 60 2"
    by (simp add: map_replicate_const)
  finally have l: "map (\<lambda>m. length (minString m)) [0..<60] = replicate 60 2" .
  have "map (\<lambda>m. digits_value (minString m)) [0..<60] = map (\<lambda>m. m) [0..<60]"
    by (rule map_cong) (simp_all add: digits_value_minString)
  then have d: "map (\<lambda>m. digits_value (minString m)) [0..<60] = [0..<60]"
    by simp
  have n: "length initTimes = 1440" by (simp add: initTimes_eq)
  show ?thesis
    using n initTimes_eq distinct_initTimes initTimes_samples l d by blast
qed

section \<open>Data.updateUserAvailability: results\<close>

lemma findIndex_ge: "- 1 \<le> findIndex P xs"
  by (induction xs) (auto simp: Let_def)

lemma findIndex_neg_iff: "findIndex P xs < 0 \<longleftrightarrow> \<not> (\<exists>x\<in>set xs. P x)"
proof (induction xs)
  case Nil
  show ?case by simp
next
  case (Cons y ys)
  have "- 1 \<le> findIndex P ys" by (rule findIndex_ge)
  with Cons show ?case by (auto simp: Let_def)
qed

lemma findIndex_nonneg_iff: "0 \<le> findIndex P xs \<longleftrightarrow> (\<exists>x\<in>set xs. P x)"
  using findIndex_neg_iff [of P xs] by auto

lemma property_ordinary:
  "ordinary k \<Longrightarrow> property ob k = (case map_of ob k of None \<Rightarrow> Undefined | Some v \<Rightarrow> Own v)"
  by (simp add: property_def ordinary_def split: option.splits)

lemma property_own: "map_of ob k = Some v \<Longrightarrow> property ob k = Own v"
  by (simp add: property_def)

lemma ensure_ordinary:
  "ordinary k \<Longrightarrow>
   ensure k d ob = (case map_of ob k of None \<Rightarrow> AList.update k d ob | Some v \<Rightarrow> ob)"
  by (simp add: ensure_def property_ordinary split: option.splits)

lemma map_of_ensure:
  "ordinary k \<Longrightarrow>
   map_of (ensure k d ob) k' = (if k' = k \<and> map_of ob k = None then Some d else map_of ob k')"
  by (auto simp: ensure_ordinary update_conv' split: option.splits)

lemma slots_at_update:
  "slots_at (AList.update l days ba) l' d =
     (if l' = l then (case map_of days d of None \<Rightarrow> [] | Some slots \<Rightarrow> slots)
      else slots_at ba l' d)"
  by (simp add: slots_at_def update_conv')

lemma slots_at_empty: "slots_at [] l d = []"
  by (simp add: slots_at_def)

lemma slots_at_ensure: "ordinary l \<Longrightarrow> slots_at (ensure l [] ba) = slots_at ba"
  by (intro ext) (auto simp: slots_at_def map_of_ensure split: option.splits)

lemma forEach_invariant:
  assumes step: "\<And>s x. x \<in> set xs \<Longrightarrow> I s \<Longrightarrow> \<exists>s'. f s x = Inr s' \<and> I s' \<and> v s' = g (v s) x"
    and init: "I s"
  shows "\<exists>s'. forEach f s xs = Inr s' \<and> I s' \<and> v s' = foldl g (v s) xs"
  using step init
proof (induction xs arbitrary: s)
  case Nil
  then show ?case by simp
next
  case (Cons x xs)
  from Cons.prems obtain s1 where s1: "f s x = Inr s1" "I s1" "v s1 = g (v s) x"
    by (meson list.set_intros(1))
  have "\<exists>s'. forEach f s1 xs = Inr s' \<and> I s' \<and> v s' = foldl g (v s1) xs"
    using Cons.prems(1) s1(2) by (intro Cons.IH) simp_all
  with s1 show ?case by simp
qed

lemma book_appt_ordinary:
  assumes "ordinary (name (appt_location ap))" and "ordinary (day (appt_time ap))"
  shows "\<exists>ba'. book_appt ba ap = Inr ba'
    \<and> slots_at ba' = put (slots_at ba) (name (appt_location ap)) (day (appt_time ap)) True
                       (from (appt_time ap)) (to (appt_time ap))"
proof -
  let ?L = "name (appt_location ap)" and ?D = "day (appt_time ap)"
  let ?P = "\<lambda>t. open t = from (appt_time ap) \<and> close t = to (appt_time ap)"
  let ?new = "\<lparr> open = from (appt_time ap), close = to (appt_time ap), booked = True \<rparr>"
  let ?ba = "ensure ?L [] ba"
  obtain days0 where d0: "map_of ?ba ?L = Some days0"
    "days0 = (case map_of ba ?L of None \<Rightarrow> [] | Some ds \<Rightarrow> ds)"
    using assms(1) by (auto simp: map_of_ensure split: option.splits)
  let ?days = "ensure ?D [] days0"
  obtain slots where sl: "map_of ?days ?D = Some slots"
    "slots = (case map_of days0 ?D of None \<Rightarrow> [] | Some ss \<Rightarrow> ss)"
    using assms(2) by (auto simp: map_of_ensure split: option.splits)
  have cur: "slots = slots_at ba ?L ?D"
    unfolding sl(2) d0(2) by (simp add: slots_at_def split: option.splits)
  have other: "(case map_of ?days d of None \<Rightarrow> [] | Some ss \<Rightarrow> ss) = slots_at ba ?L d" for d
    using assms(2) unfolding d0(2)
    by (auto simp: map_of_ensure slots_at_def split: option.splits)
  have base: "slots_at ?ba = slots_at ba"
    using assms(1) by (rule slots_at_ensure)
  have eq: "book_appt ba ap =
      Inr (if 0 \<le> findIndex ?P slots then AList.update ?L ?days ?ba
           else AList.update ?L (AList.update ?D (slots @ [?new]) ?days) ?ba)"
    unfolding book_appt_def Let_def
    by (simp add: property_own [OF d0(1)] property_own [OF sl(1)])
  show ?thesis
  proof (cases "0 \<le> findIndex ?P slots")
    case True
    then have ex: "\<exists>t\<in>set (slots_at ba ?L ?D). ?P t"
      by (simp add: findIndex_nonneg_iff cur)
    have "slots_at (AList.update ?L ?days ?ba) l d = put (slots_at ba) ?L ?D True
        (from (appt_time ap)) (to (appt_time ap)) l d" for l d
      using ex by (simp add: slots_at_update other base put_def)
    then have "slots_at (AList.update ?L ?days ?ba) = put (slots_at ba) ?L ?D True
        (from (appt_time ap)) (to (appt_time ap))"
      by (intro ext)
    with eq True show ?thesis by simp
  next
    case False
    then have nex: "\<not> (\<exists>t\<in>set (slots_at ba ?L ?D). ?P t)"
      by (simp add: findIndex_nonneg_iff cur)
    have "slots_at (AList.update ?L (AList.update ?D (slots @ [?new]) ?days) ?ba) l d
        = put (slots_at ba) ?L ?D True (from (appt_time ap)) (to (appt_time ap)) l d" for l d
      using nex other [of d] by (auto simp: slots_at_update base put_def update_conv' cur)
    then have "slots_at (AList.update ?L (AList.update ?D (slots @ [?new]) ?days) ?ba)
        = put (slots_at ba) ?L ?D True (from (appt_time ap)) (to (appt_time ap))"
      by (intro ext)
    with eq False show ?thesis by simp
  qed
qed

lemma add_timeslot_own:
  assumes "own_day ba l d"
  shows "\<exists>ba'. add_timeslot l d ba ts = Inr ba' \<and> own_day ba' l d
    \<and> slots_at ba' = put (slots_at ba) l d False (open ts) (close ts)"
proof -
  let ?P = "\<lambda>t. open t = open ts \<and> close t = close ts"
  let ?new = "\<lparr> open = open ts, close = close ts, booked = False \<rparr>"
  from assms obtain days slots where own: "map_of ba l = Some days" "map_of days d = Some slots"
    by (auto simp: own_day_def split: option.splits)
  then have cur: "slots_at ba l d = slots" and days: "slots_at ba l d' =
      (case map_of days d' of None \<Rightarrow> [] | Some ss \<Rightarrow> ss)" for d'
    by (simp_all add: slots_at_def)
  have eq: "add_timeslot l d ba ts =
      Inr (if findIndex ?P slots < 0 then AList.update l (AList.update d (slots @ [?new]) days) ba
           else ba)"
    unfolding add_timeslot_def
    by (simp add: property_own [OF own(1)] property_own [OF own(2)])
  show ?thesis
  proof (cases "findIndex ?P slots < 0")
    case True
    then have nex: "\<not> (\<exists>t\<in>set (slots_at ba l d). ?P t)"
      by (simp add: findIndex_neg_iff cur)
    have "slots_at (AList.update l (AList.update d (slots @ [?new]) days) ba) l' d'
        = put (slots_at ba) l d False (open ts) (close ts) l' d'" for l' d'
      using nex days [of d'] by (auto simp: slots_at_update put_def update_conv' cur)
    then have "slots_at (AList.update l (AList.update d (slots @ [?new]) days) ba)
        = put (slots_at ba) l d False (open ts) (close ts)"
      by (intro ext)
    moreover have "own_day (AList.update l (AList.update d (slots @ [?new]) days) ba) l d"
      by (simp add: own_day_def update_conv')
    ultimately show ?thesis using eq True by simp
  next
    case False
    then have ex: "\<exists>t\<in>set (slots_at ba l d). ?P t"
      by (simp add: findIndex_neg_iff cur)
    then have "put (slots_at ba) l d False (open ts) (close ts) l' d' = slots_at ba l' d'" for l' d'
      by (simp add: put_def)
    then have "put (slots_at ba) l d False (open ts) (close ts) = slots_at ba"
      by (intro ext)
    with eq False assms show ?thesis by simp
  qed
qed

lemma add_day_ordinary:
  assumes "ordinary (fst dy)" and "map_of ba l \<noteq> None"
  shows "\<exists>ba'. add_day l ba dy = Inr ba' \<and> map_of ba' l \<noteq> None
    \<and> slots_at ba' = foldl (\<lambda>S ts. put S l (fst dy) False (open ts) (close ts)) (slots_at ba) (snd dy)"
proof -
  from assms(2) obtain days where own: "map_of ba l = Some days" by blast
  let ?ba = "AList.update l (ensure (fst dy) [] days) ba"
  have eq: "add_day l ba dy = forEach (add_timeslot l (fst dy)) ?ba (snd dy)"
    unfolding add_day_def by (simp add: property_own [OF own])
  have o: "own_day ?ba l (fst dy)"
    using assms(1) by (simp add: own_day_def update_conv' map_of_ensure)
  have "slots_at ?ba l' d = slots_at ba l' d" for l' d
  proof -
    have "slots_at ?ba l' d =
        (if l' = l then (case map_of (ensure (fst dy) [] days) d of None \<Rightarrow> [] | Some ss \<Rightarrow> ss)
         else slots_at ba l' d)"
      by (rule slots_at_update)
    also have "\<dots> = slots_at ba l' d"
      using assms(1) own by (auto simp: map_of_ensure slots_at_def split: option.splits)
    finally show ?thesis .
  qed
  then have same: "slots_at ?ba = slots_at ba"
    by (intro ext)
  have "\<exists>ba'. forEach (add_timeslot l (fst dy)) ?ba (snd dy) = Inr ba' \<and> own_day ba' l (fst dy)
      \<and> slots_at ba' = foldl (\<lambda>S ts. put S l (fst dy) False (open ts) (close ts))
                          (slots_at ?ba) (snd dy)"
    by (rule forEach_invariant [where I = "\<lambda>s. own_day s l (fst dy)"])
       (simp_all add: add_timeslot_own o)
  then obtain ba' where r: "forEach (add_timeslot l (fst dy)) ?ba (snd dy) = Inr ba'"
    "own_day ba' l (fst dy)"
    "slots_at ba' = foldl (\<lambda>S ts. put S l (fst dy) False (open ts) (close ts))
                          (slots_at ba) (snd dy)"
    unfolding same by blast
  from r(2) have "map_of ba' l \<noteq> None"
    by (auto simp: own_day_def split: option.splits)
  with r(1,3) eq show ?thesis by simp
qed

lemma add_location_ordinary:
  assumes "ordinary (fst loc)" and "\<forall>dy\<in>set (snd loc). ordinary (fst dy)"
  shows "\<exists>ba'. add_location ba loc = Inr ba'
    \<and> slots_at ba' =
        foldl (\<lambda>S dy. foldl (\<lambda>S ts. put S (fst loc) (fst dy) False (open ts) (close ts)) S (snd dy))
          (slots_at ba) (snd loc)"
proof -
  let ?ba = "ensure (fst loc) [] ba"
  have o: "map_of ?ba (fst loc) \<noteq> None"
    using assms(1) by (auto simp: map_of_ensure)
  have same: "slots_at ?ba = slots_at ba"
    using assms(1) by (rule slots_at_ensure)
  have "\<exists>ba'. forEach (add_day (fst loc)) ?ba (snd loc) = Inr ba' \<and> map_of ba' (fst loc) \<noteq> None
      \<and> slots_at ba' =
          foldl (\<lambda>S dy. foldl (\<lambda>S ts. put S (fst loc) (fst dy) False (open ts) (close ts)) S (snd dy))
            (slots_at ?ba) (snd loc)"
    using assms(2)
    by (intro forEach_invariant [where I = "\<lambda>s. map_of s (fst loc) \<noteq> None"] add_day_ordinary o)
       simp_all
  then show ?thesis
    unfolding same add_location_def by blast
qed

lemma extends_refl: "extends S S"
  by (simp add: extends_def)

lemma extends_trans: "extends S S' \<Longrightarrow> extends S' S'' \<Longrightarrow> extends S S''"
  unfolding extends_def by blast

lemma extends_put: "extends S (put S l d b opn cls)"
  by (auto simp: extends_def put_def)

lemma put_has_key:
  "\<exists>t\<in>set (put S l d b opn cls l d). open t = opn \<and> close t = cls"
  by (auto simp: put_def)

lemma sound_put:
  assumes "sound A S" and "b \<longrightarrow> (\<exists>ap\<in>set A. matches ap l d \<lparr> open = opn, close = cls, booked = True \<rparr>)"
  shows "sound A (put S l d b opn cls)"
  unfolding sound_def
proof (intro allI conjI ballI impI)
  fix l' d'
  show "distinct (map slot_key (put S l d b opn cls l' d'))"
    using assms(1) by (auto simp: sound_def put_def slot_key_def)
next
  fix l' d' t
  assume t: "t \<in> set (put S l d b opn cls l' d')" and bt: "booked t"
  show "\<exists>ap\<in>set A. matches ap l' d' t"
  proof (cases "t \<in> set (S l' d')")
    case True
    with assms(1) bt show ?thesis by (auto simp: sound_def)
  next
    case False
    with t have "l' = l \<and> d' = d \<and> t = \<lparr> open = opn, close = cls, booked = b \<rparr>"
      by (auto simp: put_def split: if_splits)
    with bt assms(2) show ?thesis by auto
  qed
qed

lemma foldl_invariant:
  assumes step: "\<And>S x. x \<in> set xs \<Longrightarrow> I S \<Longrightarrow> I (f S x) \<and> extends S (f S x) \<and> Q x (f S x)"
    and mono: "\<And>x S S'. Q x S \<Longrightarrow> extends S S' \<Longrightarrow> Q x S'"
    and init: "I S"
  shows "I (foldl f S xs) \<and> extends S (foldl f S xs) \<and> (\<forall>x\<in>set xs. Q x (foldl f S xs))"
  using step init
proof (induction xs arbitrary: S)
  case Nil
  then show ?case by (simp add: extends_refl)
next
  case (Cons x xs)
  from Cons.prems have fx: "I (f S x)" "extends S (f S x)" "Q x (f S x)"
    by simp_all
  have ih: "I (foldl f (f S x) xs) \<and> extends (f S x) (foldl f (f S x) xs)
      \<and> (\<forall>y\<in>set xs. Q y (foldl f (f S x) xs))"
    using Cons.prems(1) fx(1) by (intro Cons.IH) simp_all
  then have "Q x (foldl f (f S x) xs)"
    using fx(3) mono by blast
  with ih fx(2) show ?case
    using extends_trans by auto
qed

lemma has_slot_mono: "has_slot S l d ts \<Longrightarrow> extends S S' \<Longrightarrow> has_slot S' l d ts"
  unfolding has_slot_def extends_def by blast

lemma merge_day:
  assumes "sound A S"
  shows "sound A (foldl (\<lambda>S ts. put S l d False (open ts) (close ts)) S slots)
    \<and> extends S (foldl (\<lambda>S ts. put S l d False (open ts) (close ts)) S slots)
    \<and> (\<forall>ts\<in>set slots. has_slot (foldl (\<lambda>S ts. put S l d False (open ts) (close ts)) S slots) l d ts)"
proof (rule foldl_invariant [where I = "sound A" and Q = "\<lambda>ts S. has_slot S l d ts"])
  fix S ts
  assume "sound A S"
  then show "sound A (put S l d False (open ts) (close ts))
      \<and> extends S (put S l d False (open ts) (close ts))
      \<and> has_slot (put S l d False (open ts) (close ts)) l d ts"
    using put_has_key [of S l d False "open ts" "close ts"]
    by (simp add: sound_put extends_put has_slot_def)
next
  fix ts S S'
  assume "has_slot S l d ts" "extends S S'"
  then show "has_slot S' l d ts" by (rule has_slot_mono)
next
  show "sound A S" by (rule assms)
qed

lemma merge_location:
  assumes "sound A S"
  shows "sound A (foldl (\<lambda>S dy. foldl (\<lambda>S ts. put S l (fst dy) False (open ts) (close ts)) S (snd dy)) S days)
    \<and> extends S (foldl (\<lambda>S dy. foldl (\<lambda>S ts. put S l (fst dy) False (open ts) (close ts)) S (snd dy)) S days)
    \<and> (\<forall>dy\<in>set days. \<forall>ts\<in>set (snd dy).
          has_slot (foldl (\<lambda>S dy. foldl (\<lambda>S ts. put S l (fst dy) False (open ts) (close ts)) S (snd dy)) S days)
            l (fst dy) ts)"
proof (rule foldl_invariant [where I = "sound A"
      and Q = "\<lambda>dy S. \<forall>ts\<in>set (snd dy). has_slot S l (fst dy) ts"])
  fix S dy
  assume "sound A S"
  then show "sound A (foldl (\<lambda>S ts. put S l (fst dy) False (open ts) (close ts)) S (snd dy))
      \<and> extends S (foldl (\<lambda>S ts. put S l (fst dy) False (open ts) (close ts)) S (snd dy))
      \<and> (\<forall>ts\<in>set (snd dy).
            has_slot (foldl (\<lambda>S ts. put S l (fst dy) False (open ts) (close ts)) S (snd dy)) l (fst dy) ts)"
    by (rule merge_day)
next
  fix dy S S'
  assume "\<forall>ts\<in>set (snd dy). has_slot S l (fst dy) ts" "extends S S'"
  then show "\<forall>ts\<in>set (snd dy). has_slot S' l (fst dy) ts"
    using has_slot_mono by blast
next
  show "sound A S" by (rule assms)
qed

lemma merge_prior_invariant:
  assumes "sound A S"
  shows "sound A (merge_prior S prior) \<and> extends S (merge_prior S prior)
    \<and> (\<forall>loc\<in>set prior. \<forall>dy\<in>set (snd loc). \<forall>ts\<in>set (snd dy).
          has_slot (merge_prior S prior) (fst loc) (fst dy) ts)"
  unfolding merge_prior_def
proof (rule foldl_invariant [where I = "sound A"
      and Q = "\<lambda>loc S. \<forall>dy\<in>set (snd loc). \<forall>ts\<in>set (snd dy). has_slot S (fst loc) (fst dy) ts"])
  fix S loc
  assume "sound A S"
  then show "sound A (foldl (\<lambda>S dy. foldl (\<lambda>S ts. put S (fst loc) (fst dy) False (open ts) (close ts)) S (snd dy)) S (snd loc))
      \<and> extends S (foldl (\<lambda>S dy. foldl (\<lambda>S ts. put S (fst loc) (fst dy) False (open ts) (close ts)) S (snd dy)) S (snd loc))
      \<and> (\<forall>dy\<in>set (snd loc). \<forall>ts\<in>set (snd dy).
            has_slot (foldl (\<lambda>S dy. foldl (\<lambda>S ts. put S (fst loc) (fst dy) False (open ts) (close ts)) S (snd dy)) S (snd loc))
              (fst loc) (fst dy) ts)"
    by (rule merge_location)
next
  fix loc S S'
  assume "\<forall>dy\<in>set (snd loc). \<forall>ts\<in>set (snd dy). has_slot S (fst loc) (fst dy) ts" "extends S S'"
  then show "\<forall>dy\<in>set (snd loc). \<forall>ts\<in>set (snd dy). has_slot S' (fst loc) (fst dy) ts"
    using has_slot_mono by blast
next
  show "sound A S" by (rule assms)
qed

lemma has_booked_mono: "has_booked S ap \<Longrightarrow> extends S S' \<Longrightarrow> has_booked S' ap"
  unfolding has_booked_def extends_def by blast

lemma all_booked_put: "all_booked S \<Longrightarrow> all_booked (put S l d True opn cls)"
  by (auto simp: all_booked_def put_def)

lemma has_booked_put:
  assumes "all_booked S"
  shows "has_booked (put S (name (appt_location ap)) (day (appt_time ap)) True
                       (from (appt_time ap)) (to (appt_time ap))) ap"
proof -
  let ?l = "name (appt_location ap)" and ?d = "day (appt_time ap)"
  let ?S' = "put S ?l ?d True (from (appt_time ap)) (to (appt_time ap))"
  obtain t where t: "t \<in> set (?S' ?l ?d)" "open t = from (appt_time ap)" "close t = to (appt_time ap)"
    using put_has_key [of S ?l ?d True "from (appt_time ap)" "to (appt_time ap)"] by blast
  from assms have "all_booked ?S'" by (rule all_booked_put)
  with t(1) have "booked t" by (auto simp: all_booked_def)
  with t(2,3) have "t = \<lparr> open = from (appt_time ap), close = to (appt_time ap), booked = True \<rparr>"
    by simp
  with t(1) show ?thesis by (simp add: has_booked_def)
qed

lemma book_all_invariant:
  assumes "sound A S" and "all_booked S" and "set aps \<subseteq> set A"
  shows "(sound A (book_all S aps) \<and> all_booked (book_all S aps))
    \<and> extends S (book_all S aps)
    \<and> (\<forall>ap\<in>set aps. has_booked (book_all S aps) ap)"
  unfolding book_all_def
proof (rule foldl_invariant [where I = "\<lambda>S. sound A S \<and> all_booked S" and Q = "\<lambda>ap S. has_booked S ap"])
  fix S and ap :: appt
  let ?S' = "put S (name (appt_location ap)) (day (appt_time ap)) True
               (from (appt_time ap)) (to (appt_time ap))"
  assume ap: "ap \<in> set aps" and I: "sound A S \<and> all_booked S"
  from ap assms(3) have "\<exists>a\<in>set A. matches a (name (appt_location ap)) (day (appt_time ap))
      \<lparr> open = from (appt_time ap), close = to (appt_time ap), booked = True \<rparr>"
    by (auto simp: matches_def)
  with I have "sound A ?S'" by (simp add: sound_put)
  moreover from I have "all_booked ?S'" by (simp add: all_booked_put)
  moreover have "extends S ?S'" by (rule extends_put)
  moreover from I have "has_booked ?S' ap" by (simp add: has_booked_put)
  ultimately show "(sound A ?S' \<and> all_booked ?S') \<and> extends S ?S' \<and> has_booked ?S' ap"
    by simp
next
  fix ap S S'
  assume "has_booked S ap" "extends S S'"
  then show "has_booked S' ap" by (rule has_booked_mono)
next
  show "sound A S \<and> all_booked S" using assms(1,2) by simp
qed

lemma merge_availability_ordinary:
  assumes "ordinary_appts appts" and "ordinary_availability prior"
  shows "\<exists>R. merge_availability appts prior = Inr R
    \<and> slots_at R = merge_prior (book_all (\<lambda>l d. []) appts)
                     (case prior of None \<Rightarrow> [] | Some av \<Rightarrow> av)"
proof -
  let ?p = "case prior of None \<Rightarrow> [] | Some av \<Rightarrow> av"
  have e: "slots_at [] = (\<lambda>l d. [])"
    by (intro ext) (rule slots_at_empty)
  have "\<exists>ba. forEach book_appt [] appts = Inr ba \<and> True
      \<and> slots_at ba = foldl (\<lambda>S ap. put S (name (appt_location ap)) (day (appt_time ap)) True
                                     (from (appt_time ap)) (to (appt_time ap)))
                         (slots_at []) appts"
  proof (rule forEach_invariant [where I = "\<lambda>s. True"])
    fix s and ap :: appt
    assume "ap \<in> set appts"
    with assms(1) have "ordinary (name (appt_location ap))" "ordinary (day (appt_time ap))"
      by (simp_all add: ordinary_appts_def list_all_iff)
    then show "\<exists>s'. book_appt s ap = Inr s' \<and> True
        \<and> slots_at s' = put (slots_at s) (name (appt_location ap)) (day (appt_time ap)) True
                           (from (appt_time ap)) (to (appt_time ap))"
      using book_appt_ordinary by simp
  qed simp
  then obtain ba where ba: "forEach book_appt [] appts = Inr ba"
    "slots_at ba = book_all (\<lambda>l d. []) appts"
    unfolding e book_all_def by blast
  have "\<exists>R. forEach add_location ba ?p = Inr R \<and> True
      \<and> slots_at R =
          foldl (\<lambda>S loc. foldl (\<lambda>S dy. foldl (\<lambda>S ts. put S (fst loc) (fst dy) False (open ts) (close ts))
                                         S (snd dy)) S (snd loc))
            (slots_at ba) ?p"
  proof (rule forEach_invariant [where I = "\<lambda>s. True"])
    fix s and loc :: "string \<times> timeslot list obj"
    assume "loc \<in> set ?p"
    with assms(2) have "ordinary (fst loc) \<and> list_all (\<lambda>dy. ordinary (fst dy)) (snd loc)"
      unfolding ordinary_availability_def list_all_iff by blast
    then have "ordinary (fst loc)" "\<forall>dy\<in>set (snd loc). ordinary (fst dy)"
      by (simp_all add: list_all_iff)
    then show "\<exists>s'. add_location s loc = Inr s' \<and> True
        \<and> slots_at s' =
            foldl (\<lambda>S dy. foldl (\<lambda>S ts. put S (fst loc) (fst dy) False (open ts) (close ts))
                              S (snd dy)) (slots_at s) (snd loc)"
      using add_location_ordinary by simp
  qed simp
  then obtain R where R: "forEach add_location ba ?p = Inr R"
    "slots_at R = merge_prior (slots_at ba) ?p"
    unfolding merge_prior_def by blast
  from ba R show ?thesis
    by (simp add: merge_availability_def)
qed

lemma slots_at_lookup:
  "map_of ba l = Some days \<Longrightarrow> map_of days d = Some slots \<Longrightarrow> slots_at ba l d = slots"
  by (simp add: slots_at_def)

lemma slots_at_member:
  assumes "t \<in> set (slots_at ba l d)"
  shows "\<exists>days slots. map_of ba l = Some days \<and> map_of days d = Some slots \<and> t \<in> set slots"
proof (cases "map_of ba l")
  case None
  with assms show ?thesis by (simp add: slots_at_def)
next
  case (Some days)
  with assms show ?thesis
    by (cases "map_of days d") (simp_all add: slots_at_def)
qed

lemma merge_availability_sound:
  assumes "ordinary_appts appts" and "ordinary_availability prior"
  shows "\<exists>R. merge_availability appts prior = Inr R
    \<and> sound appts (slots_at R)
    \<and> (\<forall>ap\<in>set appts. has_booked (slots_at R) ap)
    \<and> (\<forall>loc\<in>set (case prior of None \<Rightarrow> [] | Some av \<Rightarrow> av). \<forall>dy\<in>set (snd loc). \<forall>ts\<in>set (snd dy).
          has_slot (slots_at R) (fst loc) (fst dy) ts)"
proof -
  let ?S0 = "\<lambda>(l::string) (d::string). [] :: timeslot list"
  let ?S1 = "book_all ?S0 appts"
  let ?p = "case prior of None \<Rightarrow> [] | Some av \<Rightarrow> av"
  from assms obtain R where R: "merge_availability appts prior = Inr R"
    "slots_at R = merge_prior ?S1 ?p"
    using merge_availability_ordinary by blast
  have "sound appts ?S0" "all_booked ?S0"
    by (simp_all add: sound_def all_booked_def)
  then have 1: "sound appts ?S1" "\<forall>ap\<in>set appts. has_booked ?S1 ap"
    using book_all_invariant [of appts ?S0 appts] by simp_all
  from 1(1) have 2: "sound appts (merge_prior ?S1 ?p)" "extends ?S1 (merge_prior ?S1 ?p)"
    "\<forall>loc\<in>set ?p. \<forall>dy\<in>set (snd loc). \<forall>ts\<in>set (snd dy).
        has_slot (merge_prior ?S1 ?p) (fst loc) (fst dy) ts"
    using merge_prior_invariant [of appts ?S1 ?p] by simp_all
  have "\<forall>ap\<in>set appts. has_booked (merge_prior ?S1 ?p) ap"
    using 1(2) 2(2) has_booked_mono by blast
  with R 2(1,3) show ?thesis by simp
qed

lemma distinct_map_eq:
  "distinct (map f xs) \<Longrightarrow> x \<in> set xs \<Longrightarrow> y \<in> set xs \<Longrightarrow> f x = f y \<Longrightarrow> x = y"
  by (auto simp: distinct_map inj_on_def)

text \<open>
  C1, as stated, fails: a day of the prior availability may be named like a member of
  \<open>Object.prototype\<close>, here \<open>constructor\<close>. The code then finds the inherited function in
  place of the day's array and \<open>findIndex\<close> throws a TypeError, so the call rejects and
  \<open>user.availability\<close> is not replaced.
\<close>

theorem updateUserAvailability_inherited_day_counterexample:
  "snd (updateUserAvailability (\<lambda>u. Inr [])
          \<lparr> uid = Some ''u1'', ident = None, email = None, user_name = ''Tutor'',
            availability = Some [(''Gunn Academic Center'',
              [(''constructor'', [\<lparr> open = ''2:45 PM'', close = ''3:45 PM'', booked = False \<rparr>])])],
            location = None, locations = None \<rparr>)
   = Inl (TypeError ''findIndex is not a function'')"
  by (simp add: updateUserAvailability_def merge_availability_def add_location_def add_day_def
      add_timeslot_def ensure_def property_def object_prototype_names_def not_a_function_def)

text \<open>
  C1, amended. For every user with a non-empty uid whose appointments are fetched, when
  no location name and no day of the fetched appointments and of the prior availability
  names a member of \<open>Object.prototype\<close>, \<open>Data.updateUserAvailability\<close> replaces
  \<open>user.availability\<close> by a map from location name to day to a list of records
  \<open>{open, close, booked}\<close> (\<open>booked\<close> a boolean by the record's type) such that, in every
  day's list: no pair of \<open>open\<close> and \<open>close\<close> occurs twice; a timeslot is booked exactly
  when some fetched appointment matches it (same location name, same day, \<open>time.from\<close>
  equal to \<open>open\<close> and \<open>time.to\<close> equal to \<open>close\<close>); every timeslot of the prior
  availability that no appointment matches is there with \<open>booked = false\<close>; and every
  fetched appointment is there with \<open>booked = true\<close>.
\<close>

theorem updateUserAvailability_booked:
  assumes "uid user = Some u" and "u \<noteq> ''''" and "fetch u = Inr appts"
    and "ordinary_appts appts" and "ordinary_availability (availability user)"
  shows "\<exists>result.
      snd (updateUserAvailability fetch user) = Inr (user\<lparr> availability := Some result \<rparr>)
    \<and> (\<forall>l days d slots. map_of result l = Some days \<and> map_of days d = Some slots \<longrightarrow>
          distinct (map (\<lambda>t. (open t, close t)) slots)
          \<and> (\<forall>t\<in>set slots. booked t \<longleftrightarrow> (\<exists>ap\<in>set appts. matches ap l d t)))
    \<and> (\<forall>prior loc dy ts.
          availability user = Some prior \<and> loc \<in> set prior \<and> dy \<in> set (snd loc) \<and> ts \<in> set (snd dy)
          \<and> \<not> (\<exists>ap\<in>set appts. matches ap (fst loc) (fst dy) ts) \<longrightarrow>
          (\<exists>days slots. map_of result (fst loc) = Some days \<and> map_of days (fst dy) = Some slots
             \<and> \<lparr> open = open ts, close = close ts, booked = False \<rparr> \<in> set slots))
    \<and> (\<forall>ap\<in>set appts.
          \<exists>days slots. map_of result (name (appt_location ap)) = Some days
             \<and> map_of days (day (appt_time ap)) = Some slots
             \<and> \<lparr> open = from (appt_time ap), close = to (appt_time ap), booked = True \<rparr> \<in> set slots)"
proof -
  obtain R where R: "merge_availability appts (availability user) = Inr R"
    and snd: "sound appts (slots_at R)"
    and bk: "\<forall>ap\<in>set appts. has_booked (slots_at R) ap"
    and pr: "\<forall>loc\<in>set (case availability user of None \<Rightarrow> [] | Some av \<Rightarrow> av).
        \<forall>dy\<in>set (snd loc). \<forall>ts\<in>set (snd dy). has_slot (slots_at R) (fst loc) (fst dy) ts"
    using merge_availability_sound [OF assms(4,5)] by blast
  let ?S = "slots_at R"
  have res: "snd (updateUserAvailability fetch user) = Inr (user\<lparr> availability := Some R \<rparr>)"
    using assms(1-3) R by (simp add: updateUserAvailability_def)
  have a: "distinct (map (\<lambda>t. (open t, close t)) slots)
      \<and> (\<forall>t\<in>set slots. booked t \<longleftrightarrow> (\<exists>ap\<in>set appts. matches ap l d t))"
    if look: "map_of R l = Some days \<and> map_of days d = Some slots" for l days d slots
  proof -
    from look have s: "?S l d = slots" by (simp add: slots_at_lookup)
    from snd have dist: "distinct (map slot_key slots)"
      and bm: "\<forall>t\<in>set slots. booked t \<longrightarrow> (\<exists>ap\<in>set appts. matches ap l d t)"
      unfolding sound_def s [symmetric] by blast+
    have "booked t" if t: "t \<in> set slots" and m: "\<exists>ap\<in>set appts. matches ap l d t" for t
    proof -
      from m obtain ap where ap: "ap \<in> set appts" "matches ap l d t" by blast
      let ?b = "\<lparr> open = from (appt_time ap), close = to (appt_time ap), booked = True \<rparr>"
      from bk ap(1) have "has_booked ?S ap" by blast
      with ap(2) have inb: "?b \<in> set slots"
        by (simp add: has_booked_def matches_def s [symmetric])
      from ap(2) have "slot_key ?b = slot_key t"
        by (simp add: slot_key_def matches_def)
      with dist inb t have "?b = t" by (rule distinct_map_eq)
      then have "booked t = booked ?b" by simp
      then show ?thesis by simp
    qed
    with bm have "\<forall>t\<in>set slots. booked t \<longleftrightarrow> (\<exists>ap\<in>set appts. matches ap l d t)" by blast
    moreover from dist have "distinct (map (\<lambda>t. (open t, close t)) slots)"
      by (simp add: slot_key_def [abs_def])
    ultimately show ?thesis by simp
  qed
  have b: "\<exists>days slots. map_of R (fst loc) = Some days \<and> map_of days (fst dy) = Some slots
             \<and> \<lparr> open = open ts, close = close ts, booked = False \<rparr> \<in> set slots"
    if h: "availability user = Some prior \<and> loc \<in> set prior \<and> dy \<in> set (snd loc) \<and> ts \<in> set (snd dy)
          \<and> \<not> (\<exists>ap\<in>set appts. matches ap (fst loc) (fst dy) ts)" for prior loc dy ts
  proof -
    from h pr have "has_slot ?S (fst loc) (fst dy) ts" by auto
    then obtain t where t: "t \<in> set (?S (fst loc) (fst dy))" "open t = open ts" "close t = close ts"
      by (auto simp: has_slot_def)
    have "\<not> booked t"
    proof
      assume "booked t"
      with snd t(1) obtain ap where "ap \<in> set appts" "matches ap (fst loc) (fst dy) t"
        unfolding sound_def by blast
      with t(2,3) have "\<exists>ap\<in>set appts. matches ap (fst loc) (fst dy) ts"
        by (auto simp: matches_def)
      with h show False by blast
    qed
    with t(2,3) have "t = \<lparr> open = open ts, close = close ts, booked = False \<rparr>" by simp
    with t(1) show ?thesis using slots_at_member by blast
  qed
  have c: "\<exists>days slots. map_of R (name (appt_location ap)) = Some days
             \<and> map_of days (day (appt_time ap)) = Some slots
             \<and> \<lparr> open = from (appt_time ap), close = to (appt_time ap), booked = True \<rparr> \<in> set slots"
    if "ap \<in> set appts" for ap
  proof -
    from bk that have "has_booked ?S ap" by blast
    then show ?thesis unfolding has_booked_def by (rule slots_at_member)
  qed
  from res a b c show ?thesis by blast
qed

theorem updateUserAvailability_booked_witness:
  "snd (updateUserAvailability
          (\<lambda>u. Inr [\<lparr> appt_location = \<lparr> name = ''Gunn Academic Center'' \<rparr>,
                      appt_time = \<lparr> day = ''Monday'', from = ''2:45 PM'', to = ''3:45 PM'' \<rparr> \<rparr>])
          \<lparr> uid = Some ''u1'', ident = None, email = None, user_name = ''Tutor'',
            availability = Some [(''Gunn Academic Center'',
              [(''Monday'', [\<lparr> open = ''2:45 PM'', close = ''3:45 PM'', booked = False \<rparr>,
                             \<lparr> open = ''A Period'', close = ''A Period'', booked = True \<rparr>])])],
            location = None, locations = None \<rparr>)
   = Inr \<lparr> uid = Some ''u1'', ident = None, email = None, user_name = ''Tutor'',
           availability = Some [(''Gunn Academic Center'',
              [(''Monday'', [\<lparr> open = ''2:45 PM'', close = ''3:45 PM'', booked = True \<rparr>,
                             \<lparr> open = ''A Period'', close = ''A Period'', booked = False \<rparr>])])],
           location = None, locations = None \<rparr>"
proof -
  let ?fetch = "\<lambda>u :: string. Inr [\<lparr> appt_location = \<lparr> name = ''Gunn Academic Center'' \<rparr>,
                      appt_time = \<lparr> day = ''Monday'', from = ''2:45 PM'', to = ''3:45 PM'' \<rparr> \<rparr>]
                  :: js_error + appt list"
  let ?user = "\<lparr> uid = Some ''u1'', ident = None, email = None, user_name = ''Tutor'',
            availability = Some [(''Gunn Academic Center'',
              [(''Monday'', [\<lparr> open = ''2:45 PM'', close = ''3:45 PM'', booked = False \<rparr>,
                             \<lparr> open = ''A Period'', close = ''A Period'', booked = True \<rparr>])])],
            location = None, locations = None \<rparr>"
  have h1: "uid ?user = Some ''u1''" by simp
  have h2: "''u1'' \<noteq> ''''" by simp
  have h3: "?fetch ''u1'' = Inr [\<lparr> appt_location = \<lparr> name = ''Gunn Academic Center'' \<rparr>,
                      appt_time = \<lparr> day = ''Monday'', from = ''2:45 PM'', to = ''3:45 PM'' \<rparr> \<rparr>]"
    by simp
  have h4: "ordinary_appts [\<lparr> appt_location = \<lparr> name = ''Gunn Academic Center'' \<rparr>,
                      appt_time = \<lparr> day = ''Monday'', from = ''2:45 PM'', to = ''3:45 PM'' \<rparr> \<rparr>]"
    by code_simp
  have h5: "ordinary_availability (availability ?user)"
    by code_simp
  have m: "merge_availability
     [\<lparr> appt_location = \<lparr> name = ''Gunn Academic Center'' \<rparr>,
        appt_time = \<lparr> day = ''Monday'', from = ''2:45 PM'', to = ''3:45 PM'' \<rparr> \<rparr>]
     (Some [(''Gunn Academic Center'',
              [(''Monday'', [\<lparr> open = ''2:45 PM'', close = ''3:45 PM'', booked = False \<rparr>,
                             \<lparr> open = ''A Period'', close = ''A Period'', booked = True \<rparr>])])])
   = Inr [(''Gunn Academic Center'',
              [(''Monday'', [\<lparr> open = ''2:45 PM'', close = ''3:45 PM'', booked = True \<rparr>,
                             \<lparr> open = ''A Period'', close = ''A Period'', booked = False \<rparr>])])]"
    by code_simp
  have e: "snd (updateUserAvailability ?fetch ?user)
   = Inr \<lparr> uid = Some ''u1'', ident = None, email = None, user_name = ''Tutor'',
           availability = Some [(''Gunn Academic Center'',
              [(''Monday'', [\<lparr> open = ''2:45 PM'', close = ''3:45 PM'', booked = True \<rparr>,
                             \<lparr> open = ''A Period'', close = ''A Period'', booked = False \<rparr>])])],
           location = None, locations = None \<rparr>"
    by (simp add: updateUserAvailability_def m)
  from updateUserAvailability_booked [of ?user "''u1''" ?fetch, OF h1 h2 h3 h4 h5] e
  show ?thesis by blast
qed

section \<open>ViewApptDialog.update: results\<close>

lemma split_not_Nil: "split sep s \<noteq> []"
  by (induction s) (auto split: list.splits)

lemma split_no_sep: "sep \<notin> set s \<Longrightarrow> split sep s = [s]"
  by (induction s) auto

lemma split_append_sep: "sep \<notin> set a \<Longrightarrow> split sep (a @ sep # r) = a # split sep r"
  by (induction a) auto

lemma join_Cons_Cons: "ps \<noteq> [] \<Longrightarrow> join sep ((c # p) # tl ps) = c # join sep (p # tl ps)"
  by (cases "tl ps") simp_all

lemma join_split: "join sep (split sep s) = s"
proof (induction s)
  case Nil
  show ?case by simp
next
  case (Cons c cs)
  obtain p ps where ps: "split sep cs = p # ps"
    using split_not_Nil [of sep cs] by (cases "split sep cs") auto
  show ?case
  proof (cases "c = sep")
    case True
    with Cons ps show ?thesis by simp
  next
    case False
    have "join sep ((c # p) # ps) = c # join sep (p # ps)"
      by (cases ps) simp_all
    with False Cons ps show ?thesis by simp
  qed
qed

lemma split_parts_no_sep: "p \<in> set (split sep s) \<Longrightarrow> sep \<notin> set p"
proof (induction s arbitrary: p)
  case Nil
  then show ?case by simp
next
  case (Cons c cs)
  obtain q qs where qs: "split sep cs = q # qs"
    using split_not_Nil [of sep cs] by (cases "split sep cs") auto
  from Cons.IH qs have ih: "sep \<notin> set q" "\<And>x. x \<in> set qs \<Longrightarrow> sep \<notin> set x"
    by simp_all
  from Cons.prems qs ih show ?case
    by (cases "c = sep") auto
qed

lemma is_digits_no_sep:
  assumes "is_digits s"
  shows "CHR '':'' \<notin> set s" and "CHR ''.'' \<notin> set s"
proof -
  have "c \<noteq> CHR '':'' \<and> c \<noteq> CHR ''.''" if "c \<in> set s" for c
    using that assms is_digit_not_sep by (auto simp: is_digits_def list_all_iff)
  then show "CHR '':'' \<notin> set s" and "CHR ''.'' \<notin> set s" by blast+
qed

lemma is_digits_nat_toString: "is_digits (nat_toString n)"
  using all_digits_nat_toString [of n] by (simp add: is_digits_def)

lemma split_seconds:
  assumes "is_digits s" "is_digits c"
  shows "split CHR ''.'' (s @ CHR ''.'' # c) = [s, c]"
proof -
  have "split CHR ''.'' c = [c]"
    using assms(2) by (simp add: split_no_sep is_digits_no_sep)
  moreover have "split CHR ''.'' (s @ CHR ''.'' # c) = s # split CHR ''.'' c"
    using assms(1) by (simp add: split_append_sep is_digits_no_sep)
  ultimately show ?thesis by simp
qed

lemma split_display:
  assumes "is_digits h" "is_digits m" "is_digits s" "is_digits c"
  shows "split CHR '':'' (h @ CHR '':'' # m @ CHR '':'' # s @ CHR ''.'' # c) = [h, m, s @ CHR ''.'' # c]"
    and "split CHR ''.'' (h @ CHR '':'' # m @ CHR '':'' # s @ CHR ''.'' # c)
           = [h @ CHR '':'' # m @ CHR '':'' # s, c]"
proof -
  note n = assms [THEN is_digits_no_sep(1)] assms [THEN is_digits_no_sep(2)]
  have "CHR '':'' \<notin> set (s @ CHR ''.'' # c)" using n by simp
  then have "split CHR '':'' (s @ CHR ''.'' # c) = [s @ CHR ''.'' # c]" by (rule split_no_sep)
  then have "split CHR '':'' (m @ CHR '':'' # (s @ CHR ''.'' # c)) = [m, s @ CHR ''.'' # c]"
    using n by (simp add: split_append_sep)
  then show "split CHR '':'' (h @ CHR '':'' # m @ CHR '':'' # s @ CHR ''.'' # c) = [h, m, s @ CHR ''.'' # c]"
    using n by (simp add: split_append_sep)
  have c: "split CHR ''.'' c = [c]" using n by (simp add: split_no_sep)
  have "CHR ''.'' \<notin> set (h @ CHR '':'' # m @ CHR '':'' # s)" using n by simp
  then have "split CHR ''.'' ((h @ CHR '':'' # m @ CHR '':'' # s) @ CHR ''.'' # c)
      = (h @ CHR '':'' # m @ CHR '':'' # s) # split CHR ''.'' c"
    by (rule split_append_sep)
  with c show "split CHR ''.'' (h @ CHR '':'' # m @ CHR '':'' # s @ CHR ''.'' # c)
      = [h @ CHR '':'' # m @ CHR '':'' # s, c]"
    by simp
qed

lemma display_fields_shape:
  assumes "display_fields d = Some (H, M, S, C)"
  shows "\<exists>h m s c. d = h @ '':'' @ m @ '':'' @ s @ ''.'' @ c
      \<and> is_digits h \<and> is_digits m \<and> is_digits s \<and> is_digits c
      \<and> digits_value h = H \<and> digits_value m = M \<and> digits_value s = S \<and> digits_value c = C
      \<and> M < 60 \<and> S < 60 \<and> C < 100"
proof -
  from assms obtain h m r where hmr: "split CHR '':'' d = [h, m, r]"
    by (auto simp: display_fields_def split: list.splits)
  with assms obtain s c where sc: "split CHR ''.'' r = [s, c]"
    by (auto simp: display_fields_def split: list.splits)
  from assms hmr sc have f: "is_digits h \<and> is_digits m \<and> is_digits s \<and> is_digits c
      \<and> digits_value h = H \<and> digits_value m = M \<and> digits_value s = S \<and> digits_value c = C
      \<and> M < 60 \<and> S < 60 \<and> C < 100"
    by (auto simp: display_fields_def split: if_splits)
  have "join CHR '':'' (split CHR '':'' d) = d" by (rule join_split)
  with hmr have d: "d = h @ '':'' @ m @ '':'' @ r" by simp
  have "join CHR ''.'' (split CHR ''.'' r) = r" by (rule join_split)
  with sc have "r = s @ ''.'' @ c" by simp
  with d f show ?thesis by auto
qed

lemma display_fields_render:
  assumes "M < 60" "S < 60" "C < 100"
  shows "display_fields (render (H, M, S, C)) = Some (H, M, S, C)"
  using assms
  by (simp add: render_def display_fields_def split_display split_seconds is_digits_nat_toString
      digits_value_nat_toString)

lemma round_double_exact: "n \<le> 2 ^ 53 \<Longrightarrow> round_double n = n"
  by (simp add: round_double_def)

lemma to_number_exact:
  assumes "is_digits s" and "digits_value s \<le> 2 ^ 53"
  shows "to_number s = Some (digits_value s)"
proof -
  have "(2::nat) ^ 53 < 10 ^ 21" by simp
  with assms(2) have "digits_value s < 10 ^ 21" by linarith
  with assms show ?thesis
    by (simp add: to_number_def is_digits_def round_double_exact)
qed

lemma incr_exact: "num_value x < 2 ^ 53 \<Longrightarrow> incr x = Prim (num_value x + 1)"
  by (simp add: incr_def round_double_exact)

lemma num_toString_exact: "num_value x \<le> 2 ^ 53 \<Longrightarrow> num_toString x = Some (nat_toString (num_value x))"
  by (simp add: num_toString_def)

lemma display_exact:
  assumes "num_value h \<le> 2 ^ 53" "num_value m \<le> 2 ^ 53" "num_value s \<le> 2 ^ 53" "num_value c \<le> 2 ^ 53"
  shows "display h m s c = Some (render (num_value h, num_value m, num_value s, num_value c))"
  using assms by (simp add: display_def num_toString_exact render_def)

lemma carry_Prim:
  "carry (Prim v) limit high = (if v = limit then (Prim 0, incr high) else (Prim v, high))"
  by (simp add: carry_def)

lemma carry_Boxed: "carry (Boxed v) limit high = (Boxed v, high)"
  by (simp add: carry_def)

lemma tick_exact:
  assumes dg: "is_digits h" "is_digits m" "is_digits s" "is_digits c"
    and H: "digits_value h < 2 ^ 53" and M: "digits_value m < 60"
    and S: "digits_value s < 60" and C: "digits_value c < 100"
  shows "tick (h @ CHR '':'' # m @ CHR '':'' # s @ CHR ''.'' # c)
    = Some (render (next_fields (digits_value h, digits_value m, digits_value s, digits_value c)))"
proof -
  let ?d = "h @ CHR '':'' # m @ CHR '':'' # s @ CHR ''.'' # c"
  let ?H = "digits_value h" and ?M = "digits_value m" and ?S = "digits_value s" and ?C = "digits_value c"
  have small: "?M < 2 ^ 53" "?S < 2 ^ 53" "?C < 2 ^ 53" "?C + 1 < 2 ^ 53" "(100::nat) < 2 ^ 53"
    "(60::nat) < 2 ^ 53" "(0::nat) < 2 ^ 53"
    using M S C by simp_all
  have tn: "to_number h = Some ?H" "to_number m = Some ?M" "to_number s = Some ?S"
    "to_number c = Some ?C"
    using dg H small by (simp_all add: to_number_exact)
  have parts: "nth_opt (split CHR '':'' ?d) 0 = Some h"
    "nth_opt (split CHR '':'' ?d) (Suc 0) = Some m"
    "nth_opt (split CHR '':'' ?d) 2 = Some (s @ CHR ''.'' # c)"
    "nth_opt (split CHR ''.'' ?d) (Suc 0) = Some c"
    "nth_opt (split CHR ''.'' (s @ CHR ''.'' # c)) 0 = Some s"
    using dg by (simp_all add: split_display split_seconds nth_opt_def)
  have t: "tick ?d =
      (let currentMilli = incr (Boxed ?C);
           (currentMilli, currentSeconds) = carry currentMilli 100 (Boxed ?S);
           (currentSeconds, currentMinutes) = carry currentSeconds 60 (Boxed ?M);
           (currentMinutes, currentHours) = carry currentMinutes 60 (Boxed ?H)
       in display currentHours currentMinutes currentSeconds currentMilli)"
    by (simp add: tick_def parts tn Let_def)
  have i: "incr (Boxed ?C) = Prim (?C + 1)"
    using small by (simp add: incr_exact)
  show ?thesis
  proof (cases "?C + 1 = 100")
    case False
    then have "tick ?d = display (Boxed ?H) (Boxed ?M) (Boxed ?S) (Prim (?C + 1))"
      unfolding t i using small S M H by (simp add: carry_Prim carry_Boxed incr_exact)
    also have "\<dots> = Some (render (?H, ?M, ?S, ?C + 1))"
      using H small by (simp add: display_exact)
    finally show ?thesis using False by (simp add: next_fields_def)
  next
    case c: True
    show ?thesis
    proof (cases "?S + 1 = 60")
      case False
      then have "tick ?d = display (Boxed ?H) (Boxed ?M) (Prim (?S + 1)) (Prim 0)"
        unfolding t i using small c S M H by (simp add: carry_Prim carry_Boxed incr_exact)
      also have "\<dots> = Some (render (?H, ?M, ?S + 1, 0))"
        using H small S by (simp add: display_exact)
      finally show ?thesis using False c by (simp add: next_fields_def)
    next
      case s: True
      show ?thesis
      proof (cases "?M + 1 = 60")
        case False
        then have "tick ?d = display (Boxed ?H) (Prim (?M + 1)) (Prim 0) (Prim 0)"
          unfolding t i using small c s S M H by (simp add: carry_Prim carry_Boxed incr_exact)
        also have "\<dots> = Some (render (?H, ?M + 1, 0, 0))"
          using H small M by (simp add: display_exact)
        finally show ?thesis using False c s by (simp add: next_fields_def)
      next
        case m: True
        then have "tick ?d = display (Prim (?H + 1)) (Prim 0) (Prim 0) (Prim 0)"
          unfolding t i using small c s S M H by (simp add: carry_Prim carry_Boxed incr_exact)
        also have "\<dots> = Some (render (?H + 1, 0, 0, 0))"
          using H by (simp add: display_exact)
        finally show ?thesis using c s m by (simp add: next_fields_def)
      qed
    qed
  qed
qed

lemma next_fields_centis:
  assumes "M < 60" "S < 60" "C < 100"
  shows "\<exists>H' M' S' C'. next_fields (H, M, S, C) = (H', M', S', C')
      \<and> M' < 60 \<and> S' < 60 \<and> C' < 100 \<and> centis H' M' S' C' = centis H M S C + 1"
  using assms by (auto simp: next_fields_def centis_def)

lemma tick_centis:
  assumes "display_fields d = Some (H, M, S, C)" and "H < 2 ^ 53"
  shows "\<exists>d'. tick d = Some d' \<and> display_centis d' = Some (centis H M S C + 1)"
proof -
  from display_fields_shape [OF assms(1)] obtain h m s c where
    d: "d = h @ CHR '':'' # m @ CHR '':'' # s @ CHR ''.'' # c"
    and dg: "is_digits h" "is_digits m" "is_digits s" "is_digits c"
    and v: "digits_value h = H" "digits_value m = M" "digits_value s = S" "digits_value c = C"
    and b: "M < 60" "S < 60" "C < 100"
    by auto
  from next_fields_centis [OF b, of H] obtain H' M' S' C' where
    n: "next_fields (H, M, S, C) = (H', M', S', C')" "M' < 60" "S' < 60" "C' < 100"
      "centis H' M' S' C' = centis H M S C + 1"
    by blast
  have "tick d = Some (render (H', M', S', C'))"
    unfolding d using tick_exact [OF dg] assms(2) b v n(1) by simp
  moreover have "display_centis (render (H', M', S', C')) = Some (centis H M S C + 1)"
    using n by (simp add: display_centis_def display_fields_render)
  ultimately show ?thesis by blast
qed

lemma bit_length_example: "bit_length 9007199254740993 = 54"
  by (simp add: bit_length.simps)

lemmas digit_char_simps = digit_char_numeral digit_char_numeral(2) [unfolded One_nat_def]
  digit_char_numeral(3) [unfolded numeral_2_eq_2]

lemmas tick_eval = tick_def nth_opt_def to_number_def is_digit_def digits_value_def digit_val_def
  incr_def carry_def round_double_def display_def num_toString_def Let_def nat_toString.simps
  digit_char_simps

lemmas fields_eval = display_centis_def display_fields_def is_digits_def is_digit_def
  digits_value_def digit_val_def

text \<open>
  C2, as stated, fails for a display of \<open>2^53\<close> hours or more: the hours are a double, and
  \<open>2^53 + 1\<close> is not one, so the carry into the hours is lost.
\<close>

theorem update_large_hours_counterexample:
  "display_fields ''9007199254740992:59:59.99'' = Some (9007199254740992, 59, 59, 99)
   \<and> update \<lparr> current_value = ''9007199254740992:59:59.99'', total_value = ''0:0:0.00'' \<rparr>
       = Some \<lparr> current_value = ''9007199254740992:0:0.0'', total_value = ''0:0:0.1'' \<rparr>
   \<and> display_centis ''9007199254740992:0:0.0'' = Some (centis 9007199254740992 0 0 0)
   \<and> centis 9007199254740992 0 0 0 \<noteq> centis 9007199254740992 59 59 99 + 1"
proof -
  have "tick ''9007199254740992:59:59.99'' = Some ''9007199254740992:0:0.0''"
    by (simp add: tick_eval bit_length_example)
  moreover have "tick ''0:0:0.00'' = Some ''0:0:0.1''"
    by (simp add: tick_eval)
  ultimately have "update \<lparr> current_value = ''9007199254740992:59:59.99'', total_value = ''0:0:0.00'' \<rparr>
       = Some \<lparr> current_value = ''9007199254740992:0:0.0'', total_value = ''0:0:0.1'' \<rparr>"
    by (simp add: update_def)
  moreover have "display_fields ''9007199254740992:59:59.99'' = Some (9007199254740992, 59, 59, 99)"
    by (simp add: fields_eval)
  moreover have "display_centis ''9007199254740992:0:0.0'' = Some (centis 9007199254740992 0 0 0)"
    by (simp add: fields_eval)
  moreover have "centis 9007199254740992 0 0 0 \<noteq> centis 9007199254740992 59 59 99 + 1"
    by (simp add: centis_def)
  ultimately show ?thesis by simp
qed

text \<open>
  C2, amended. For all well-formed displays \<open>H:M:S.CC\<close> (non-empty strings of digits with
  \<open>M < 60\<close>, \<open>S < 60\<close>, \<open>CC < 100\<close>) with \<open>H < 2^53\<close> in the Current and the Total field, one
  call of \<open>ViewApptDialog.update\<close> writes to each field a well-formed display worth one
  centisecond more than the old one, a display being worth \<open>((H*60 + M)*60 + S)*100 + CC\<close>
  centiseconds.
\<close>

theorem update_one_centisecond:
  assumes "display_fields (current_value ds) = Some (h1, m1, s1, c1)" and "h1 < 2 ^ 53"
    and "display_fields (total_value ds) = Some (h2, m2, s2, c2)" and "h2 < 2 ^ 53"
  shows "display_centis (current_value ds) = Some (centis h1 m1 s1 c1)
    \<and> display_centis (total_value ds) = Some (centis h2 m2 s2 c2)
    \<and> (\<exists>ds'. update ds = Some ds'
          \<and> display_centis (current_value ds') = Some (centis h1 m1 s1 c1 + 1)
          \<and> display_centis (total_value ds') = Some (centis h2 m2 s2 c2 + 1))"
proof -
  from tick_centis [OF assms(1,2)] obtain cur where
    cur: "tick (current_value ds) = Some cur" "display_centis cur = Some (centis h1 m1 s1 c1 + 1)"
    by blast
  from tick_centis [OF assms(3,4)] obtain tot where
    tot: "tick (total_value ds) = Some tot" "display_centis tot = Some (centis h2 m2 s2 c2 + 1)"
    by blast
  have "update ds = Some \<lparr> current_value = cur, total_value = tot \<rparr>"
    using cur(1) tot(1) by (simp add: update_def)
  with cur(2) tot(2) assms(1,3) show ?thesis
    by (simp add: display_centis_def)
qed

theorem update_one_centisecond_witness:
  "update \<lparr> current_value = ''0:0:0.00'', total_value = ''1:59:59.99'' \<rparr>
     = Some \<lparr> current_value = ''0:0:0.1'', total_value = ''2:0:0.0'' \<rparr>
   \<and> display_centis ''0:0:0.00'' = Some 0
   \<and> display_centis ''0:0:0.1'' = Some 1
   \<and> display_centis ''1:59:59.99'' = Some 719999
   \<and> display_centis ''2:0:0.0'' = Some 720000"
proof -
  let ?ds = "\<lparr> current_value = ''0:0:0.00'', total_value = ''1:59:59.99'' \<rparr>"
  have f1: "display_fields (current_value ?ds) = Some (0, 0, 0, 0)"
    by (simp add: fields_eval)
  have f2: "display_fields (total_value ?ds) = Some (1, 59, 59, 99)"
    by (simp add: fields_eval)
  have b: "(0::nat) < 2 ^ 53" "(1::nat) < 2 ^ 53" by simp_all
  have "tick ''0:0:0.00'' = Some ''0:0:0.1''" "tick ''1:59:59.99'' = Some ''2:0:0.0''"
    by (simp_all add: tick_eval)
  then have u: "update ?ds = Some \<lparr> current_value = ''0:0:0.1'', total_value = ''2:0:0.0'' \<rparr>"
    by (simp add: update_def)
  have c: "centis 0 0 0 0 = 0" "centis 1 59 59 99 = 719999"
    by (simp_all add: centis_def)
  from update_one_centisecond [OF f1 b(1) f2 b(2)] u c show ?thesis
    by simp
qed

end
